theory Spec2Isabelle
  imports Main
begin

section \<open>JavaScript values\<close>

text \<open>
  The dispatch layer of \<^verbatim>\<open>src/contexts/JsonRpcContext.tsx\<close> passes around values whose
  static types are only hints: the wallet's answer to a request, the value caught by
  \<^verbatim>\<open>catch (err: any)\<close>, the \<^verbatim>\<open>result\<close> field of the stored record. They are modelled
  by one datatype of JavaScript values. Numbers are integers (no operation here produces
  a fraction); \<open>JErr name message\<close> is an \<^verbatim>\<open>Error\<close> instance.
\<close>

datatype js =
    JUndefined
  | JNull
  | JBool bool
  | JNum int
  | JStr string
  | JArr "js list"
  | JObj "(string \<times> js) list"
  | JErr string string

text \<open>Decimal digits of a natural number, as a template literal prints a number.\<close>

function dec_nat :: "nat \<Rightarrow> string" where
  "dec_nat n =
     (if n < 10 then [char_of (48 + n)]
      else dec_nat (n div 10) @ [char_of (48 + n mod 10)])"
  by pat_completeness auto
termination
  by (relation "measure (\<lambda>n. n)") auto

declare dec_nat.simps [simp del]

definition dec_int :: "int \<Rightarrow> string" where
  "dec_int i = (if i < 0 then CHR ''-'' # dec_nat (nat (- i)) else dec_nat (nat i))"

fun join_with :: "string \<Rightarrow> string list \<Rightarrow> string" where
  "join_with sep [] = []"
| "join_with sep [x] = x"
| "join_with sep (x # y # ys) = x @ sep @ join_with sep (y # ys)"

text \<open>
  \<^verbatim>\<open>String(v)\<close>: what a template literal, \<^verbatim>\<open>new Error(v)\<close> and \<^verbatim>\<open>Array.prototype.join\<close>
  apply to a value. An array joins its elements with a comma, \<^verbatim>\<open>null\<close> and
  \<^verbatim>\<open>undefined\<close> elements printing as nothing; a plain object prints as
  \<^verbatim>\<open>[object Object]\<close>; an error prints as \<^verbatim>\<open>name: message\<close>.
\<close>

fun ToString :: "js \<Rightarrow> string" where
  "ToString JUndefined = ''undefined''"
| "ToString JNull = ''null''"
| "ToString (JBool b) = (if b then ''true'' else ''false'')"
| "ToString (JNum i) = dec_int i"
| "ToString (JStr s) = s"
| "ToString (JArr xs) =
     join_with '','' (map (\<lambda>x. if x = JUndefined \<or> x = JNull then [] else ToString x) xs)"
| "ToString (JObj kvs) = ''[object Object]''"
| "ToString (JErr n m) = (if n = [] then m else if m = [] then n else n @ '': '' @ m)"

text \<open>\<^verbatim>\<open>xs.join(sep)\<close> on an array.\<close>

definition array_join :: "js list \<Rightarrow> string \<Rightarrow> string" where
  "array_join xs sep =
     join_with sep (map (\<lambda>x. if x = JUndefined \<or> x = JNull then [] else ToString x) xs)"

text \<open>\<^verbatim>\<open>new Error(v)\<close>: the message is \<^verbatim>\<open>String(v)\<close>, and empty when \<open>v\<close> is \<^verbatim>\<open>undefined\<close>.\<close>

definition new_Error :: "js \<Rightarrow> js" where
  "new_Error v = JErr ''Error'' (if v = JUndefined then [] else ToString v)"

definition TypeError :: "string \<Rightarrow> js" where
  "TypeError m = JErr ''TypeError'' m"

text \<open>
  Truthiness, for \<^verbatim>\<open>a || b\<close> and \<^verbatim>\<open>!a\<close>; and \<^verbatim>\<open>a ?? b\<close>, which falls through only on
  \<^verbatim>\<open>null\<close> and \<^verbatim>\<open>undefined\<close>.
\<close>

fun truthy :: "js \<Rightarrow> bool" where
  "truthy JUndefined = False"
| "truthy JNull = False"
| "truthy (JBool b) = b"
| "truthy (JNum i) = (i \<noteq> 0)"
| "truthy (JStr s) = (s \<noteq> [])"
| "truthy (JArr xs) = True"
| "truthy (JObj kvs) = True"
| "truthy (JErr n m) = True"

definition or_else :: "js \<Rightarrow> js \<Rightarrow> js" where
  "or_else a b = (if truthy a then a else b)"

definition nullish :: "js \<Rightarrow> js \<Rightarrow> js" where
  "nullish a b = (if a = JUndefined \<or> a = JNull then b else a)"

text \<open>
  Reading a property of a value that is neither \<^verbatim>\<open>null\<close> nor \<^verbatim>\<open>undefined\<close>. Only own
  data properties are modelled: a missing key reads as \<^verbatim>\<open>undefined\<close>.
\<close>

fun own_prop :: "js \<Rightarrow> string \<Rightarrow> js" where
  "own_prop (JObj kvs) k = (case map_of kvs k of None \<Rightarrow> JUndefined | Some v \<Rightarrow> v)"
| "own_prop (JErr n m) k =
     (if k = ''message'' then JStr m else if k = ''name'' then JStr n else JUndefined)"
| "own_prop v k = JUndefined"

text \<open>
  \<^verbatim>\<open>v.k\<close> throws a TypeError on \<^verbatim>\<open>null\<close> and \<^verbatim>\<open>undefined\<close> (the message is the engine's;
  V8's wording is used); \<^verbatim>\<open>v?.k\<close> yields \<^verbatim>\<open>undefined\<close> there.
\<close>

definition get_prop :: "js \<Rightarrow> string \<Rightarrow> js + js" where
  "get_prop v k =
     (if v = JUndefined \<or> v = JNull
      then Inl (TypeError (''Cannot read properties of '' @ ToString v @ '' (reading '' @ [CHR 0x27] @ k @ [CHR 0x27] @ '')''))
      else Inr (own_prop v k))"

definition optional_prop :: "js \<Rightarrow> string \<Rightarrow> js" where
  "optional_prop v k = (if v = JUndefined \<or> v = JNull then JUndefined else own_prop v k)"

text \<open>\<^verbatim>\<open>xs[i]\<close> on an array: \<^verbatim>\<open>undefined\<close> out of range.\<close>

definition array_index :: "js list \<Rightarrow> nat \<Rightarrow> js" where
  "array_index xs i = (if i < length xs then xs ! i else JUndefined)"

section \<open>The context's data\<close>

text \<open>
  \<^verbatim>\<open>IFormattedRpcResponse\<close>. The optional field \<^verbatim>\<open>method\<close> is named \<open>method_name\<close>; it
  and \<open>address\<close> are \<open>None\<close> when absent or \<^verbatim>\<open>undefined\<close>.
\<close>

record rpc_response =
  method_name :: "string option"
  address :: "string option"
  valid :: bool
  result :: js

text \<open>The argument of \<^verbatim>\<open>client.request\<close>; the method is absent when the enum has no such member.\<close>

record wc_request =
  topic :: string
  chainId :: string
  request_method :: "string option"
  request_params :: js

text \<open>
  The session client: \<open>request\<close> is the wallet's answer to a request, a rejection
  (\<open>Inl\<close>) or a value; \<open>ping\<close> is the answer to a keep-alive on a topic. Every awaited
  call is taken to settle.
\<close>

record client_handle =
  request :: "wc_request \<Rightarrow> js + js"
  ping :: "string \<Rightarrow> js option"

record session_handle =
  session_topic :: string

text \<open>
  What the provider reads from \<^verbatim>\<open>useWalletConnectClient()\<close> and \<^verbatim>\<open>useChainData()\<close>, and
  its own \<^verbatim>\<open>isTestnet\<close> state. The tables \<open>balances\<close>, \<open>solanaPublicKeys\<close> and
  \<open>chainData\<close> are given by what reading a key of the object yields, an inherited
  property as much as an own one; \<open>None\<close> is \<^verbatim>\<open>undefined\<close>.
\<close>

record wc_context =
  client :: "client_handle option"
  session :: "session_handle option"
  accounts :: "string list"
  balances :: "string \<rightharpoonup> js list"
  solanaPublicKeys :: "(string \<rightharpoonup> js) option"
  chainData :: "string \<rightharpoonup> (string \<rightharpoonup> js)"
  isTestnet :: bool

text \<open>The value of \<^verbatim>\<open>useState<IFormattedRpcResponse | null>()\<close>.\<close>

datatype stored = NoResult | NullResult | Stored rpc_response

text \<open>
  Observable events, in order: calls of the two state setters, requests and pings sent
  over the session transport, and \<^verbatim>\<open>console.error\<close>.
\<close>

datatype event =
    SetPending bool
  | SetResult stored
  | Sent wc_request
  | Pinged string
  | ConsoleError js

record rpc_state =
  pending :: bool
  rpcResult :: stored
  trace :: "event list"

definition initial_state :: rpc_state where
  "initial_state = \<lparr>pending = False, rpcResult = NoResult, trace = []\<rparr>"

definition setPending :: "bool \<Rightarrow> rpc_state \<Rightarrow> rpc_state" where
  "setPending b s = s\<lparr>pending := b, trace := trace s @ [SetPending b]\<rparr>"

definition setResult :: "stored \<Rightarrow> rpc_state \<Rightarrow> rpc_state" where
  "setResult r s = s\<lparr>rpcResult := r, trace := trace s @ [SetResult r]\<rparr>"

definition console_error :: "js \<Rightarrow> rpc_state \<Rightarrow> rpc_state" where
  "console_error e s = s\<lparr>trace := trace s @ [ConsoleError e]\<rparr>"

section \<open>Asynchronous routines\<close>

text \<open>
  An \<^verbatim>\<open>async\<close> routine extends the event trace and either throws (\<open>Inl\<close>, the thrown
  value) or returns (\<open>Inr\<close>). \<open>await_then\<close> sequences two steps: a throw skips the rest.
\<close>

type_synonym 'a io = "event list \<Rightarrow> (js + 'a) \<times> event list"

definition return :: "'a \<Rightarrow> 'a io" where
  "return x = (\<lambda>tr. (Inr x, tr))"

definition throw :: "js \<Rightarrow> 'a io" where
  "throw e = (\<lambda>tr. (Inl e, tr))"

definition lift :: "js + 'a \<Rightarrow> 'a io" where
  "lift r = (\<lambda>tr. (r, tr))"

definition await_then :: "'a io \<Rightarrow> ('a \<Rightarrow> 'b io) \<Rightarrow> 'b io" where
  "await_then m f =
     (\<lambda>tr. case m tr of (Inl e, tr') \<Rightarrow> (Inl e, tr') | (Inr x, tr') \<Rightarrow> f x tr')"

definition try_catch :: "'a io \<Rightarrow> (js \<Rightarrow> 'a io) \<Rightarrow> 'a io" where
  "try_catch m h =
     (\<lambda>tr. case m tr of (Inl e, tr') \<Rightarrow> h e tr' | (Inr x, tr') \<Rightarrow> (Inr x, tr'))"

text \<open>
  \<^verbatim>\<open>client!.request({topic: session!.topic, chainId, request: {method, params}})\<close>: the
  non-null assertions check nothing at run time, so an absent client or session is a
  TypeError; otherwise the request is sent and the wallet's answer awaited.
\<close>

definition client_request :: "wc_context \<Rightarrow> string \<Rightarrow> string option \<Rightarrow> js \<Rightarrow> js io" where
  "client_request c cid m ps =
     (case client c of
        None \<Rightarrow> lift (get_prop JUndefined ''request'')
      | Some cl \<Rightarrow>
          (case session c of
             None \<Rightarrow> lift (get_prop JUndefined ''topic'')
           | Some se \<Rightarrow>
               (\<lambda>tr. let r = \<lparr>topic = session_topic se, chainId = cid,
                                request_method = m, request_params = ps\<rparr>
                     in (request cl r, tr @ [Sent r]))))"

section \<open>The dispatch wrapper\<close>

text \<open>
  \<^verbatim>\<open>_createJsonRpcRequestHandler\<close>: the callable it returns, run to completion on a state.
  The outcome is how the returned promise settles.
\<close>

datatype settled = Fulfilled | Rejected js

text \<open>\<^verbatim>\<open>err?.message ?? err\<close>\<close>

definition message_or_self :: "js \<Rightarrow> js" where
  "message_or_self err = nullish (optional_prop err ''message'') err"

definition createJsonRpcRequestHandler ::
  "wc_context \<Rightarrow> (string \<Rightarrow> string \<Rightarrow> rpc_response io) \<Rightarrow> string \<Rightarrow> string
     \<Rightarrow> rpc_state \<Rightarrow> settled \<times> rpc_state" where
  "createJsonRpcRequestHandler c rpcRequest cid addr s =
     (if client c = None
      then (Rejected (new_Error (JStr ''WalletConnect is not initialized'')), s)
      else if session c = None
      then (Rejected (new_Error (JStr ''Session is not connected'')), s)
      else
        let s1 = setPending True s;
            (r, tr) = rpcRequest cid addr (trace s1);
            s2 = s1\<lparr>trace := tr\<rparr>;
            s3 = (case r of
                    Inr res \<Rightarrow> setResult (Stored res) s2
                  | Inl err \<Rightarrow>
                      setResult
                        (Stored \<lparr>method_name = None, address = Some addr, valid = False,
                                  result = message_or_self err\<rparr>)
                        (console_error err s2))
        in (Fulfilled, setPending False s3))"

text \<open>The provider's \<^verbatim>\<open>ping\<close>, the connectivity probe, which is not built by the wrapper.\<close>

definition ping_probe :: "wc_context \<Rightarrow> rpc_state \<Rightarrow> settled \<times> rpc_state" where
  "ping_probe c s =
     (case client c of
        None \<Rightarrow> (Rejected (new_Error (JStr ''WalletConnect is not initialized'')), s)
      | Some cl \<Rightarrow>
          (case session c of
             None \<Rightarrow> (Rejected (new_Error (JStr ''Session is not connected'')), s)
           | Some se \<Rightarrow>
               let s1 = setPending True s;
                   s2 = s1\<lparr>trace := trace s1 @ [Pinged (session_topic se)]\<rparr>;
                   v = (case ping cl (session_topic se) of None \<Rightarrow> True | Some e \<Rightarrow> False);
                   s3 = setResult
                          (Stored \<lparr>method_name = Some ''ping'', address = None, valid = v,
                                    result = JStr (if v then ''Ping succeeded'' else ''Ping failed'')\<rparr>)
                          s2
               in (Fulfilled, setPending False s3)))"

section \<open>Wire method names\<close>

text \<open>
  The enums of \<^verbatim>\<open>src/constants/default.ts\<close>, as tables from member name to value. Reading
  a member the enum does not declare yields \<^verbatim>\<open>undefined\<close> at run time.
\<close>

definition DEFAULT_EIP155_METHODS :: "(string \<times> string) list" where
  "DEFAULT_EIP155_METHODS =
     [(''ETH_SEND_TRANSACTION'', ''eth_sendTransaction''),
      (''ETH_SIGN_TRANSACTION'', ''eth_signTransaction''),
      (''ETH_SIGN'', ''eth_sign''),
      (''PERSONAL_SIGN'', ''personal_sign''),
      (''ETH_SIGN_TYPED_DATA'', ''eth_signTypedData'')]"

definition DEFAULT_COSMOS_METHODS :: "(string \<times> string) list" where
  "DEFAULT_COSMOS_METHODS =
     [(''COSMOS_SIGN_DIRECT'', ''cosmos_signDirect''),
      (''COSMOS_SIGN_AMINO'', ''cosmos_signAmino'')]"

definition DEFAULT_SOLANA_METHODS :: "(string \<times> string) list" where
  "DEFAULT_SOLANA_METHODS =
     [(''SOL_SIGN_TRANSACTION'', ''solana_signTransaction''),
      (''SOL_SIGN_MESSAGE'', ''solana_signMessage'')]"

definition DEFAULT_CHIA_METHODS :: "(string \<times> string) list" where
  "DEFAULT_CHIA_METHODS =
     [(''CHIA_GET_WALLETS'', ''chia_getWallets''),
      (''CHIA_GET_CAT_WALLET_INFO'', ''chia_getCATWalletInfo''),
      (''CHIA_SEND_TRANSACTION'', ''chia_sendTransaction''),
      (''CHIA_SPEND_CAT'', ''chia_spendCAT''),
      (''CHIA_NEW_ADDRESS'', ''chia_getNextAddress''),
      (''CHIA_LOG_IN'', ''chia_logIn''),
      (''CHIA_SIGN_MESSAGE_BY_ADDRESS'', ''chia_signMessageByAddress''),
      (''CHIA_SIGN_MESSAGE_BY_ID'', ''chia_signMessageById''),
      (''CHIA_GET_WALLET_SYNC_STATUS'', ''chia_getSyncStatus''),
      (''CHIA_GET_NFT_INFO'', ''chia_getNFTInfo''),
      (''CHIA_GET_NFTS'', ''chia_getNFTs''),
      (''CHIA_TAKE_OFFER'', ''chia_takeOffer''),
      (''CHIA_CREATE_OFFER_FOR_IDS'', ''chia_createOfferForIds'')]"

definition DEFAULT_POLKADOT_METHODS :: "(string \<times> string) list" where
  "DEFAULT_POLKADOT_METHODS =
     [(''POLKADOT_SIGN_TRANSACTION'', ''polkadot_signTransaction''),
      (''POLKADOT_SIGN_MESSAGE'', ''polkadot_signMessage'')]"

definition DEFAULT_NEAR_METHODS :: "(string \<times> string) list" where
  "DEFAULT_NEAR_METHODS =
     [(''NEAR_SIGN_IN'', ''near_signIn''),
      (''NEAR_SIGN_OUT'', ''near_signOut''),
      (''NEAR_GET_ACCOUNTS'', ''near_getAccounts''),
      (''NEAR_SIGN_AND_SEND_TRANSACTION'', ''near_signAndSendTransaction''),
      (''NEAR_SIGN_AND_SEND_TRANSACTIONS'', ''near_signAndSendTransactions'')]"

definition DEFAULT_ELROND_METHODS :: "(string \<times> string) list" where
  "DEFAULT_ELROND_METHODS =
     [(''ELROND_SIGN_TRANSACTION'', ''erd_signTransaction''),
      (''ELROND_SIGN_TRANSACTIONS'', ''erd_signTransactions''),
      (''ELROND_SIGN_MESSAGE'', ''erd_signMessage''),
      (''ELROND_SIGN_LOGIN_TOKEN'', ''erd_signLoginToken'')]"

definition enum_member :: "(string \<times> string) list \<Rightarrow> string \<Rightarrow> string option" where
  "enum_member enum k = map_of enum k"

text \<open>A possibly undefined string inside a concatenation, and as a value.\<close>

definition opt_string :: "string option \<Rightarrow> string" where
  "opt_string m = (case m of None \<Rightarrow> ''undefined'' | Some s \<Rightarrow> s)"

definition opt_js :: "string option \<Rightarrow> js" where
  "opt_js m = (case m of None \<Rightarrow> JUndefined | Some s \<Rightarrow> JStr s)"

section \<open>External libraries\<close>

text \<open>
  Library and platform calls are parameters of the model: each field is what the call
  returns, \<open>Inl\<close> when it throws. Their types follow the libraries' declarations.
\<close>

record platform_lib =
  Date_now :: nat
  Math_random_floor :: "nat \<Rightarrow> nat"
  JSON_stringify :: "js \<Rightarrow> js"
  toLowerCase :: "string \<Rightarrow> string"
  utf8ToHex :: "string \<Rightarrow> string"

text \<open>
  \<open>formatTestTransaction\<close> and \<open>eip712_example\<close> belong to the repository's
  \<^verbatim>\<open>helpers\<close> module, whose source is not at hand; \<open>fromSerializedTx_verifySignature\<close> is
  \<^verbatim>\<open>EthTransaction.fromSerializedTx(tx).verifySignature()\<close>.
\<close>

record evm_lib =
  formatTestTransaction :: "string \<Rightarrow> js + js"
  BigNumber_from :: "js \<Rightarrow> js + int"
  fromSerializedTx_verifySignature :: "js \<Rightarrow> js + bool"
  verifyMessage :: "string \<Rightarrow> js \<Rightarrow> js + string"
  verifyTypedData :: "js \<Rightarrow> js \<Rightarrow> js \<Rightarrow> js \<Rightarrow> js + string"
  eip712_example :: js

record cosmos_lib =
  formatDirectSignDoc :: "js \<Rightarrow> js \<Rightarrow> js \<Rightarrow> js \<Rightarrow> js \<Rightarrow> js \<Rightarrow> js \<Rightarrow> js + js"
  stringifySignDocValues :: "js \<Rightarrow> js + js"
  verifyDirectSignature :: "string \<Rightarrow> js \<Rightarrow> js \<Rightarrow> js + bool"
  verifyAminoSignature :: "string \<Rightarrow> js \<Rightarrow> js \<Rightarrow> js + bool"

section \<open>Shared steps of the routines\<close>

text \<open>\<^verbatim>\<open>s.split(":")\<close>: every colon separates; the result is never empty.\<close>

fun split_colon :: "string \<Rightarrow> string list" where
  "split_colon [] = [[]]"
| "split_colon (x # xs) =
     (if x = CHR '':'' then [] # split_colon xs
      else (case split_colon xs of [] \<Rightarrow> [[x]] | p # ps \<Rightarrow> (x # p) # ps))"

definition nth_opt :: "'a list \<Rightarrow> nat \<Rightarrow> 'a option" where
  "nth_opt xs i = (if i < length xs then Some (xs ! i) else None)"

text \<open>\<^verbatim>\<open>chainData[namespace][reference]\<close>, where \<open>reference\<close> may be \<^verbatim>\<open>undefined\<close>.\<close>

definition chainData_lookup :: "wc_context \<Rightarrow> string \<Rightarrow> string option \<Rightarrow> js + js option" where
  "chainData_lookup c namespace reference =
     (case chainData c namespace of
        None \<Rightarrow> (case get_prop JUndefined (opt_string reference) of
                   Inl e \<Rightarrow> Inl e | Inr v \<Rightarrow> Inr None)
      | Some refs \<Rightarrow> Inr (refs (opt_string reference)))"

text \<open>
  The check the four routines share:
  \<^verbatim>\<open>if (typeof targetChainData === "undefined") throw new Error(...)\<close>.
\<close>

definition require_chain_data :: "wc_context \<Rightarrow> string \<Rightarrow> unit io" where
  "require_chain_data c cid =
     (let parts = split_colon cid in
      await_then (lift (chainData_lookup c (parts ! 0) (nth_opt parts 1))) (\<lambda>targetChainData.
        if targetChainData = None \<or> targetChainData = Some JUndefined
        then throw (new_Error (JStr (''Missing chain data for chainId: '' @ cid)))
        else return ()))"

text \<open>\<^verbatim>\<open>accounts.find((account) => account === caipAccountAddress)\<close>\<close>

definition find_account :: "wc_context \<Rightarrow> string \<Rightarrow> string io" where
  "find_account c caipAccountAddress =
     (case find (\<lambda>account. account = caipAccountAddress) (accounts c) of
        None \<Rightarrow> throw (new_Error (JStr (''Account for '' @ caipAccountAddress @ '' not found'')))
      | Some account \<Rightarrow> return account)"

text \<open>\<^verbatim>\<open>balances[account][0].balance\<close>\<close>

definition first_balance :: "wc_context \<Rightarrow> string \<Rightarrow> js + js" where
  "first_balance c account =
     (case balances c account of
        None \<Rightarrow> get_prop JUndefined ''0''
      | Some assets \<Rightarrow> get_prop (array_index assets 0) ''balance'')"

text \<open>\<^verbatim>\<open>_verifyEip155MessageSignature\<close>\<close>

definition verifyEip155MessageSignature ::
  "platform_lib \<Rightarrow> evm_lib \<Rightarrow> string \<Rightarrow> js \<Rightarrow> string \<Rightarrow> js + bool" where
  "verifyEip155MessageSignature P E message signature addr =
     (case verifyMessage E message signature of
        Inl e \<Rightarrow> Inl e
      | Inr signer \<Rightarrow> Inr (toLowerCase P signer = toLowerCase P addr))"

text \<open>The object rest pattern \<^verbatim>\<open>{EIP712Domain, ...rest} = v\<close>: \<open>rest\<close> is \<open>v\<close> without the key.\<close>

definition omit_key :: "string \<Rightarrow> js \<Rightarrow> js + js" where
  "omit_key k v =
     (case v of
        JObj kvs \<Rightarrow> Inr (JObj (filter (\<lambda>kv. fst kv \<noteq> k) kvs))
      | JUndefined \<Rightarrow> Inl (TypeError (''Cannot destructure '' @ ToString v))
      | JNull \<Rightarrow> Inl (TypeError (''Cannot destructure '' @ ToString v))
      | _ \<Rightarrow> Inr (JObj []))"

section \<open>Ethereum routines\<close>

definition eth_testSendTransaction ::
  "wc_context \<Rightarrow> evm_lib \<Rightarrow> string \<Rightarrow> string \<Rightarrow> rpc_response io" where
  "eth_testSendTransaction c E cid addr =
     await_then (find_account c (cid @ '':'' @ addr)) (\<lambda>account.
     await_then (lift (formatTestTransaction E account)) (\<lambda>tx.
     await_then (lift (first_balance c account)) (\<lambda>b.
     await_then (lift (BigNumber_from E (or_else b (JStr ''0'')))) (\<lambda>balance.
     await_then (lift (get_prop tx ''gasPrice'')) (\<lambda>gp.
     await_then (lift (BigNumber_from E gp)) (\<lambda>gasPrice.
     await_then (lift (get_prop tx ''gasLimit'')) (\<lambda>gl.
     await_then (lift (BigNumber_from E gl)) (\<lambda>gasLimit.
       if balance < gasPrice * gasLimit
       then return \<lparr>method_name = enum_member DEFAULT_EIP155_METHODS ''ETH_SEND_TRANSACTION'',
                     address = Some addr, valid = False,
                     result = JStr ''Insufficient funds for intrinsic transaction cost''\<rparr>
       else
         await_then
           (client_request c cid (enum_member DEFAULT_EIP155_METHODS ''ETH_SEND_TRANSACTION'')
              (JArr [tx])) (\<lambda>res.
         return \<lparr>method_name = enum_member DEFAULT_EIP155_METHODS ''ETH_SEND_TRANSACTION'',
                  address = Some addr, valid = True, result = res\<rparr>)))))))))"

definition eth_testSignTransaction ::
  "wc_context \<Rightarrow> evm_lib \<Rightarrow> string \<Rightarrow> string \<Rightarrow> rpc_response io" where
  "eth_testSignTransaction c E cid addr =
     await_then (find_account c (cid @ '':'' @ addr)) (\<lambda>account.
     await_then (lift (formatTestTransaction E account)) (\<lambda>tx.
     await_then
       (client_request c cid (enum_member DEFAULT_EIP155_METHODS ''ETH_SIGN_TRANSACTION'')
          (JArr [tx])) (\<lambda>signedTx.
     await_then (lift (fromSerializedTx_verifySignature E signedTx)) (\<lambda>v.
     return \<lparr>method_name = enum_member DEFAULT_EIP155_METHODS ''ETH_SIGN_TRANSACTION'',
              address = Some addr, valid = v, result = signedTx\<rparr>))))"

definition eth_testSignPersonalMessage ::
  "wc_context \<Rightarrow> platform_lib \<Rightarrow> evm_lib \<Rightarrow> string \<Rightarrow> string \<Rightarrow> rpc_response io" where
  "eth_testSignPersonalMessage c P E cid addr =
     (let message = ''My email is john@doe.com - '' @ dec_nat (Date_now P);
          hexMsg = utf8ToHex P message;
          params = JArr [JStr hexMsg, JStr addr]
      in
     await_then
       (client_request c cid (enum_member DEFAULT_EIP155_METHODS ''PERSONAL_SIGN'') params)
       (\<lambda>signature.
     await_then (require_chain_data c cid) (\<lambda>u.
     await_then (lift (verifyEip155MessageSignature P E message signature addr)) (\<lambda>v.
     return \<lparr>method_name = enum_member DEFAULT_EIP155_METHODS ''PERSONAL_SIGN'',
              address = Some addr, valid = v, result = signature\<rparr>))))"

definition eth_testEthSign ::
  "wc_context \<Rightarrow> platform_lib \<Rightarrow> evm_lib \<Rightarrow> string \<Rightarrow> string \<Rightarrow> rpc_response io" where
  "eth_testEthSign c P E cid addr =
     (let message = ''My email is john@doe.com - '' @ dec_nat (Date_now P);
          hexMsg = utf8ToHex P message;
          params = JArr [JStr addr, JStr hexMsg]
      in
     await_then
       (client_request c cid (enum_member DEFAULT_EIP155_METHODS ''ETH_SIGN'') params)
       (\<lambda>signature.
     await_then (require_chain_data c cid) (\<lambda>u.
     await_then (lift (verifyEip155MessageSignature P E message signature addr)) (\<lambda>v.
     return \<lparr>method_name =
                Some (opt_string (enum_member DEFAULT_EIP155_METHODS ''ETH_SIGN'') @ '' (standard)''),
              address = Some addr, valid = v, result = signature\<rparr>))))"

definition eth_testSignTypedData ::
  "wc_context \<Rightarrow> platform_lib \<Rightarrow> evm_lib \<Rightarrow> string \<Rightarrow> string \<Rightarrow> rpc_response io" where
  "eth_testSignTypedData c P E cid addr =
     (let message = JSON_stringify P (eip712_example E);
          params = JArr [JStr addr, message]
      in
     await_then
       (client_request c cid (enum_member DEFAULT_EIP155_METHODS ''ETH_SIGN_TYPED_DATA'') params)
       (\<lambda>signature.
     await_then (lift (get_prop (eip712_example E) ''types'')) (\<lambda>types.
     await_then (lift (omit_key ''EIP712Domain'' types)) (\<lambda>nonDomainTypes.
     await_then (lift (get_prop (eip712_example E) ''domain'')) (\<lambda>domain.
     await_then (lift (get_prop (eip712_example E) ''message'')) (\<lambda>msg.
     await_then (lift (verifyTypedData E domain nonDomainTypes msg signature)) (\<lambda>signer.
     return \<lparr>method_name = enum_member DEFAULT_EIP155_METHODS ''ETH_SIGN_TYPED_DATA'',
              address = Some addr,
              valid = (toLowerCase P signer = toLowerCase P addr),
              result = signature\<rparr>)))))))"

section \<open>Cosmos routines\<close>

definition cosmos_testSignDirect ::
  "wc_context \<Rightarrow> cosmos_lib \<Rightarrow> string \<Rightarrow> string \<Rightarrow> rpc_response io" where
  "cosmos_testSignDirect c C cid addr =
     (let fee = JArr [JObj [(''amount'', JStr ''2000''), (''denom'', JStr ''ucosm'')]];
          pubkey = JStr ''AgSEjOuOr991QlHCORRmdE5ahVKeyBrmtgoYepCpQGOW'';
          gasLimit = JNum 200000;
          accountNumber = JNum 1;
          sequence = JNum 1;
          bodyBytes = JStr ''0a90010a1c2f636f736d6f732e62616e6b2e763162657461312e4d736753656e6412700a2d636f736d6f7331706b707472653766646b6c366766727a6c65736a6a766878686c63337234676d6d6b38727336122d636f736d6f7331717970717870713971637273737a673270767871367273307a716733797963356c7a763778751a100a0575636f736d120731323334353637'';
          reference = nth_opt (split_colon cid) 1
      in
     await_then
       (lift (formatDirectSignDoc C fee pubkey gasLimit accountNumber sequence bodyBytes
                (opt_js reference))) (\<lambda>signDoc.
     await_then (lift (stringifySignDocValues C signDoc)) (\<lambda>sd.
     await_then
       (client_request c cid (enum_member DEFAULT_COSMOS_METHODS ''COSMOS_SIGN_DIRECT'')
          (JObj [(''signerAddress'', JStr addr), (''signDoc'', sd)])) (\<lambda>res.
     await_then (require_chain_data c cid) (\<lambda>u.
     await_then (lift (get_prop res ''signature'')) (\<lambda>signature.
     await_then (lift (verifyDirectSignature C addr signature signDoc)) (\<lambda>v.
     return \<lparr>method_name = enum_member DEFAULT_COSMOS_METHODS ''COSMOS_SIGN_DIRECT'',
              address = Some addr, valid = v, result = signature\<rparr>)))))))"

definition cosmos_testSignAmino ::
  "wc_context \<Rightarrow> cosmos_lib \<Rightarrow> string \<Rightarrow> string \<Rightarrow> rpc_response io" where
  "cosmos_testSignAmino c C cid addr =
     (let signDoc =
            JObj [(''msgs'', JArr []),
                  (''fee'', JObj [(''amount'', JArr []), (''gas'', JStr ''23'')]),
                  (''chain_id'', JStr ''foochain''),
                  (''memo'', JStr ''hello, world''),
                  (''account_number'', JStr ''7''),
                  (''sequence'', JStr ''54'')]
      in
     await_then
       (client_request c cid (enum_member DEFAULT_COSMOS_METHODS ''COSMOS_SIGN_AMINO'')
          (JObj [(''signerAddress'', JStr addr), (''signDoc'', signDoc)])) (\<lambda>res.
     await_then (require_chain_data c cid) (\<lambda>u.
     await_then (lift (get_prop res ''signature'')) (\<lambda>signature.
     await_then (lift (verifyAminoSignature C addr signature signDoc)) (\<lambda>v.
     return \<lparr>method_name = enum_member DEFAULT_COSMOS_METHODS ''COSMOS_SIGN_AMINO'',
              address = Some addr, valid = v, result = signature\<rparr>)))))"

section \<open>Solana routines\<close>

text \<open>
  \<open>getRecentBlockhash\<close> takes the cluster name and stands for
  \<^verbatim>\<open>new Connection(clusterApiUrl(cluster)).getRecentBlockhash()\<close>; \<open>transfer_transaction\<close>
  builds the one-lamport transfer from the sender's key and the block hash;
  \<open>transaction_params\<close> is the \<^verbatim>\<open>params\<close> object read off the transaction.
\<close>

record solana_lib =
  getRecentBlockhash :: "string \<Rightarrow> js + js"
  transfer_transaction :: "js \<Rightarrow> js \<Rightarrow> js + js"
  transaction_params :: "js \<Rightarrow> js + js"
  bs58_decode :: "js \<Rightarrow> js + js"
  addSignature :: "js \<Rightarrow> js \<Rightarrow> js \<Rightarrow> js + js"
  verifySignatures :: "js \<Rightarrow> js + bool"
  PublicKey_toBase58 :: "js \<Rightarrow> js + js"
  bs58_encode_utf8 :: "string \<Rightarrow> string"
  verifyMessageSignature :: "js \<Rightarrow> js \<Rightarrow> string \<Rightarrow> js + bool"

text \<open>\<^verbatim>\<open>senderPublicKey.toBase58()\<close>, where the key may be \<^verbatim>\<open>undefined\<close>.\<close>

definition toBase58 :: "solana_lib \<Rightarrow> js \<Rightarrow> js + js" where
  "toBase58 S k =
     (if k = JUndefined \<or> k = JNull then get_prop k ''toBase58'' else PublicKey_toBase58 S k)"

definition solana_testSignTransaction ::
  "wc_context \<Rightarrow> solana_lib \<Rightarrow> string \<Rightarrow> string \<Rightarrow> rpc_response io" where
  "solana_testSignTransaction c S cid addr =
     (case solanaPublicKeys c of
        None \<Rightarrow> throw (new_Error (JStr ''Could not find Solana PublicKeys.''))
      | Some keys \<Rightarrow>
          (let senderPublicKey = (case keys addr of None \<Rightarrow> JUndefined | Some k \<Rightarrow> k) in
           await_then
             (lift (getRecentBlockhash S (if isTestnet c then ''testnet'' else ''mainnet-beta'')))
             (\<lambda>recent.
           await_then (lift (get_prop recent ''blockhash'')) (\<lambda>blockhash.
           await_then (lift (transfer_transaction S senderPublicKey blockhash)) (\<lambda>transaction.
           try_catch
             (await_then (lift (transaction_params S transaction)) (\<lambda>params.
              await_then
                (client_request c cid
                   (enum_member DEFAULT_SOLANA_METHODS ''SOL_SIGN_TRANSACTION'') params) (\<lambda>res.
              await_then (lift (get_prop res ''signature'')) (\<lambda>signature.
              await_then (lift (bs58_decode S signature)) (\<lambda>decoded.
              await_then (lift (addSignature S transaction senderPublicKey decoded)) (\<lambda>signed.
              await_then (lift (verifySignatures S signed)) (\<lambda>v.
              return \<lparr>method_name = enum_member DEFAULT_SOLANA_METHODS ''SOL_SIGN_TRANSACTION'',
                       address = Some addr, valid = v, result = signature\<rparr>)))))))
             (\<lambda>error. throw (new_Error error)))))))"

definition solana_testSignMessage ::
  "wc_context \<Rightarrow> platform_lib \<Rightarrow> solana_lib \<Rightarrow> string \<Rightarrow> string \<Rightarrow> rpc_response io" where
  "solana_testSignMessage c P S cid addr =
     (case solanaPublicKeys c of
        None \<Rightarrow> throw (new_Error (JStr ''Could not find Solana PublicKeys.''))
      | Some keys \<Rightarrow>
          (let senderPublicKey = (case keys addr of None \<Rightarrow> JUndefined | Some k \<Rightarrow> k);
               message =
                 bs58_encode_utf8 S
                   (''This is an example message to be signed - '' @ dec_nat (Date_now P))
           in
           try_catch
             (await_then (lift (toBase58 S senderPublicKey)) (\<lambda>pubkey.
              await_then
                (client_request c cid (enum_member DEFAULT_SOLANA_METHODS ''SOL_SIGN_MESSAGE'')
                   (JObj [(''pubkey'', pubkey), (''message'', JStr message)])) (\<lambda>res.
              await_then (lift (toBase58 S senderPublicKey)) (\<lambda>pubkey2.
              await_then (lift (get_prop res ''signature'')) (\<lambda>signature.
              await_then (lift (verifyMessageSignature S pubkey2 signature message)) (\<lambda>v.
              return \<lparr>method_name = enum_member DEFAULT_SOLANA_METHODS ''SOL_SIGN_MESSAGE'',
                       address = Some addr, valid = v, result = signature\<rparr>))))))
             (\<lambda>error. throw (new_Error error))))"

section \<open>Polkadot routines\<close>

text \<open>
  \<open>cryptoWaitReady\<close> is the awaited readiness of the WASM crypto, a rejection or a flag;
  \<open>signatureVerify\<close> yields the \<^verbatim>\<open>isValid\<close> field of the library's verdict.
\<close>

record polkadot_lib =
  cryptoWaitReady :: "js + bool"
  signatureVerify :: "string \<Rightarrow> js \<Rightarrow> string \<Rightarrow> js + bool"

definition polkadot_testSignTransaction ::
  "wc_context \<Rightarrow> polkadot_lib \<Rightarrow> string \<Rightarrow> string \<Rightarrow> rpc_response io" where
  "polkadot_testSignTransaction c K cid addr =
     (let transactionPayload = ''0x00019074686973206973206120746573742077616c6c65742d636f6e6e6563742072656d61726b05010000222400000d00000091b171bb158e2d3848fa23a9f1c25182fb8e20313b2c1eb49219da7a70ce90c3dc1f37ce7899cf20f63f5ea343f33e9e7b229c7e245049c2a7afc236861fc8b4''
      in
      try_catch
        (await_then
           (client_request c cid
              (enum_member DEFAULT_POLKADOT_METHODS ''POLKADOT_SIGN_TRANSACTION'')
              (JObj [(''address'', JStr addr), (''transactionPayload'', JStr transactionPayload)]))
           (\<lambda>res.
         await_then (lift (cryptoWaitReady K)) (\<lambda>ready.
         await_then (lift (get_prop res ''signature'')) (\<lambda>signature.
         await_then (lift (signatureVerify K transactionPayload signature addr)) (\<lambda>v.
         return \<lparr>method_name = enum_member DEFAULT_POLKADOT_METHODS ''POLKADOT_SIGN_TRANSACTION'',
                  address = Some addr, valid = v, result = signature\<rparr>)))))
        (\<lambda>error. throw (new_Error error)))"

definition polkadot_testSignMessage ::
  "wc_context \<Rightarrow> platform_lib \<Rightarrow> polkadot_lib \<Rightarrow> string \<Rightarrow> string \<Rightarrow> rpc_response io" where
  "polkadot_testSignMessage c P K cid addr =
     (let message = ''This is an example message to be signed - '' @ dec_nat (Date_now P)
      in
      try_catch
        (await_then
           (client_request c cid
              (enum_member DEFAULT_POLKADOT_METHODS ''POLKADOT_SIGN_MESSAGE'')
              (JObj [(''address'', JStr addr), (''message'', JStr message)]))
           (\<lambda>res.
         await_then (lift (cryptoWaitReady K)) (\<lambda>ready.
         await_then (lift (get_prop res ''signature'')) (\<lambda>signature.
         await_then (lift (signatureVerify K message signature addr)) (\<lambda>v.
         return \<lparr>method_name = enum_member DEFAULT_POLKADOT_METHODS ''POLKADOT_SIGN_MESSAGE'',
                  address = Some addr, valid = v, result = signature\<rparr>)))))
        (\<lambda>error. throw (new_Error error)))"

section \<open>Chia routines\<close>

text \<open>
  Every Chia routine has one body: send the request, then return the wallet's answer as
  JSON text with \<^verbatim>\<open>valid: true\<close>. The body is written once; each routine supplies its
  method constant and its parameters.
\<close>

definition chia_request ::
  "wc_context \<Rightarrow> platform_lib \<Rightarrow> string \<Rightarrow> string \<Rightarrow> string option \<Rightarrow> js \<Rightarrow> rpc_response io" where
  "chia_request c P cid addr m params =
     await_then (client_request c cid m params) (\<lambda>res.
     return \<lparr>method_name = m, address = Some addr, valid = True, result = JSON_stringify P res\<rparr>)"

definition chia_testGetWallets ::
  "wc_context \<Rightarrow> platform_lib \<Rightarrow> string \<Rightarrow> string \<Rightarrow> rpc_response io" where
  "chia_testGetWallets c P cid addr =
     chia_request c P cid addr (enum_member DEFAULT_CHIA_METHODS ''CHIA_GET_WALLETS'')
       (JObj [(''fingerprint'', JStr addr), (''includeData'', JBool False)])"

definition chia_testGetCATWalletInfo ::
  "wc_context \<Rightarrow> platform_lib \<Rightarrow> string \<Rightarrow> string \<Rightarrow> rpc_response io" where
  "chia_testGetCATWalletInfo c P cid addr =
     chia_request c P cid addr (enum_member DEFAULT_CHIA_METHODS ''CHIA_GET_CAT_WALLET_INFO'')
       (JObj [(''fingerprint'', JStr addr),
              (''assetId'', JStr ''f17f88130c63522821f1a75466849354eee69c414c774bd9f3873ab643e9574d'')])"

definition chia_testSendTransaction ::
  "wc_context \<Rightarrow> platform_lib \<Rightarrow> string \<Rightarrow> string \<Rightarrow> rpc_response io" where
  "chia_testSendTransaction c P cid addr =
     chia_request c P cid addr (enum_member DEFAULT_CHIA_METHODS ''CHIA_SEND_TRANSACTION'')
       (JObj [(''fingerprint'', JStr addr),
              (''address'', JStr ''txch1l8pwa9v3kphxr50vtgpc0dz2atvemryxzlngav9xnraxm39cxt2sxvpe3m''),
              (''amount'', JStr ''10''),
              (''fee'', JStr ''1'')])"

definition chia_testSpendCAT ::
  "wc_context \<Rightarrow> platform_lib \<Rightarrow> string \<Rightarrow> string \<Rightarrow> rpc_response io" where
  "chia_testSpendCAT c P cid addr =
     chia_request c P cid addr (enum_member DEFAULT_CHIA_METHODS ''CHIA_SPEND_CAT'')
       (JObj [(''fingerprint'', JStr addr),
              (''walletId'', JNum 17),
              (''address'', JStr ''txch1tnevlkzj9tlg84prxs4674pjtrzepuw2cqr0zg6qud8nfj0nk9yql3umcu''),
              (''amount'', JStr ''1000''),
              (''fee'', JStr ''6500000'')])"

definition chia_testNewAddress ::
  "wc_context \<Rightarrow> platform_lib \<Rightarrow> string \<Rightarrow> string \<Rightarrow> rpc_response io" where
  "chia_testNewAddress c P cid addr =
     chia_request c P cid addr (enum_member DEFAULT_CHIA_METHODS ''CHIA_NEW_ADDRESS'')
       (JObj [(''fingerprint'', JStr addr)])"

definition chia_testLogIn ::
  "wc_context \<Rightarrow> platform_lib \<Rightarrow> string \<Rightarrow> string \<Rightarrow> rpc_response io" where
  "chia_testLogIn c P cid addr =
     chia_request c P cid addr (enum_member DEFAULT_CHIA_METHODS ''CHIA_LOG_IN'')
       (JObj [(''fingerprint'', JStr addr)])"

definition chia_testSignMessageByAddress ::
  "wc_context \<Rightarrow> platform_lib \<Rightarrow> string \<Rightarrow> string \<Rightarrow> rpc_response io" where
  "chia_testSignMessageByAddress c P cid addr =
     chia_request c P cid addr (enum_member DEFAULT_CHIA_METHODS ''CHIA_SIGN_MESSAGE_BY_ADDRESS'')
       (JObj [(''fingerprint'', JStr addr),
              (''message'', JStr ''This is a testsign in message by address''),
              (''address'', JStr ''txch1l8pwa9v3kphxr50vtgpc0dz2atvemryxzlngav9xnraxm39cxt2sxvpe3m'')])"

definition chia_testSignMessageById ::
  "wc_context \<Rightarrow> platform_lib \<Rightarrow> string \<Rightarrow> string \<Rightarrow> rpc_response io" where
  "chia_testSignMessageById c P cid addr =
     chia_request c P cid addr (enum_member DEFAULT_CHIA_METHODS ''CHIA_SIGN_MESSAGE_BY_ID'')
       (JObj [(''fingerprint'', JStr addr),
              (''message'', JStr ''This is a test sign in message by id''),
              (''id'', JStr ''nft1049g9t9ts9qrc9nsd7ta0kez847le6wz59d28zrkrmhj8xu7ucgq7uqa7z'')])"

definition chia_testGetWalletSyncStatus ::
  "wc_context \<Rightarrow> platform_lib \<Rightarrow> string \<Rightarrow> string \<Rightarrow> rpc_response io" where
  "chia_testGetWalletSyncStatus c P cid addr =
     chia_request c P cid addr (enum_member DEFAULT_CHIA_METHODS ''CHIA_GET_WALLET_SYNC_STATUS'')
       (JObj [(''fingerprint'', JStr addr)])"

definition chia_testGetNFTInfo ::
  "wc_context \<Rightarrow> platform_lib \<Rightarrow> string \<Rightarrow> string \<Rightarrow> rpc_response io" where
  "chia_testGetNFTInfo c P cid addr =
     chia_request c P cid addr (enum_member DEFAULT_CHIA_METHODS ''CHIA_GET_NFT_INFO'')
       (JObj [(''fingerprint'', JStr addr),
              (''coinId'', JStr ''0xcbca6b5c01d25273a1d173fd6ea759e0db42a6551d66143bab0be61df7e2e74f'')])"

definition chia_testGetNFTs ::
  "wc_context \<Rightarrow> platform_lib \<Rightarrow> string \<Rightarrow> string \<Rightarrow> rpc_response io" where
  "chia_testGetNFTs c P cid addr =
     chia_request c P cid addr (enum_member DEFAULT_CHIA_METHODS ''CHIA_GET_NFTS'')
       (JObj [(''fingerprint'', JStr addr),
              (''walletIds'', JArr [JNum 3, JNum 4, JNum 5, JNum 8]),
              (''num'', JNum 100),
              (''startIndex'', JNum 0)])"

text \<open>The offer texts of \<^verbatim>\<open>testTakeOffer\<close> and \<^verbatim>\<open>testShowOfferDataNotification\<close>.\<close>

definition take_offer_text :: string where
  "take_offer_text = ''offer1qqr83wcuu2rykcmqvpsxvgqqcfz3ax9lz9sshv6f87766v9elfvk4mq7pu94rhtr0dm4ehmp0xf0xtzvrk7f6wj6lw8adl4rkhlk3mflttacl4h7lur64as8zlhqhn8h04883476dz7x6mny6jzdcga33n4s8n884cxcekcemz6mk3jk4v924mrr0krnqnmjjzrw93l9y95jmy6rmc7ehclg20h8mumnh02ndeuhuxldp2nzk3z5z38hnugj9v6qjw54su6lh6a92e586jpultw4z9a7uz4dl09kz7dvwhraaxt83e08gqe2exx6l0dkxjrhxg2mh0jfd2vd0a3k684lnkvwd0hmwluu4300x3veuvgz607sug55sykzf4ygv8gvl7auxuhdpft96wa9d8clpww5605ux9vp0039k0cs05l8rdcawka3xe3yd9ct3shp0qx8ln58yqvcuzg9jtsqf8dsh6jhryz7l0mm78qmm5uudjd7uf9eaul8y04p8lpzg4kuafm09zedxhel7tastpct0jtkg0rrrvtewf6kclzezcycvwehhgr0y3kdwcf4q4rwlm7h9s0mp7j548sppyra90h9rwknnd9uem92aw822nmm5fghjluj6wtm6pmz26s979lhfygza5fvp6pzshsmkjqpnnspwt8sn504aeslktzvastqmaha7p4xh3m9dj24ewfym4haxrcg7ev70syfvt62lu053npg9y5j3dkj6a855n9tf39v6n90ff82e2jg95657twge56jj27f9ex5c2f24vkzuvehe9y642j2egc55tfteq5yjnp4evmrtt7vfzhuc2es689jcjpt6m95k2ef9myj7jjvfl2uhjwve0ttwdpjxrfjhjztquaz5c7pkv579es9hua3f0l0daydaajx8036c7hh42nyjje53cnfjm90xz2wn7hlhu5306y6yndt5f4t8qlsl6quepxxv5m3re5p4t9cq3zwve3vwrltae8yz78fffa7h984x9jhsc000nlppyl63mnn302hl4vj048egmkpqtm4l9ahnla2y3an0nkcl8umrd28t775n9wah43wnes88hn6uhevcj7hhdg5hvk35chvrf3wss32asvmk0pv8dlll38fm3hla3nndupa4h6shtz7mvnpt0humn5ek92x8jx2tg9qyk5qse98mmlyld7r0wkktj5kpyz3ey8gm5m7lzdacqtej7afe8yswnn9hykz5jrmxfa7j38p4s62rt0t0xhfmxd3jm6l4qs46gfkd06c7hswpdhze7e0dsyka69jkjc9xzdthsmktu9d3cqd35qm4rehuhx7xdsj07nkrjmk07g6r6dlruu3nd7t4hkpcwuyt46acppxf4vu7akneezy5gmc607csrq4krtqvjy2l7l7pl870dhkxlqkmke7tl42kremfalkzg4a8kvhnck7ewpculul60u2j70l7murqs49pq7dluzlchtxjdm0lctnlx5nml0pzs0e85l4clj6c48rnc937wt6vhau9f4xj4q9tahlz7zrcwwgl3jw9em89098tynym90l5frdeflvmadx24eujpgltlgcstcazp26dthzqunr4tlvpvgdea2vvl3lm46mdem460m7keqh4nmk9wmh3f0ermstqhzse73dqahlaek7w4llp7k3d4w2mmjzd70p2kgt9jx956v0hl39cfzs0aj2f9hdmwwqldqdcg47zcejxzuwa08ju0pu89nsmxaqunmpgl68fxhrwkdhjchn4gt6yv4826v7fvhc7e8ntlwm4zn8d0tjw80xlh3vd2s2qp3wtwtsu27etv''"

definition notification_offers :: "string list" where
  "notification_offers =
     [''offer1qqr83wcuu2rykcmqvpsxzgqqemhmlaekcenaz02ma6hs5w600dhjlvfjn477nkwz369h88kll73h37fefnwk3qqnz8s0lle0urdv0ntp27et7m86s8rmywl8rvld5udz2axnsnlxdwx7lw5a6erdh25pf24x5alshmgfv0rpwe5majfhahf7wf60vnc8elw3afaf3aw7cqsvv8v3lad5tvche3sqqkanl457a4ancgw4hqnhyumme7evh9mva7j8p6alefs6886x5xwuu8d0t9lnn9rt0urtu6w3jwcvkck4wkld009kemm0k76ecr26cxv5whq7wh7cw3y7mqe93aydxm0yvxm05wxm05wxmd5wxrfa8kxndhhg6auqx9lwp0x0wl2w0rta569ud4hxf4yyms3mrr8tq0xw0tsd3nd3nk94hdr9d2c24tkgdms9lwh9n9m78qrel8t2u0akeylv4m6mtrmhm8aaa8d4elcvmt5xkhg25q4esgduu6lscqrxlk8eftwv5jldm00xsuadjd9j8he7wadwykn3ud34tnfjcw8jk9e72kk7vh4jhnhu3kmd59rrk0g096ude9strwls2xwsqp5mpl2lgz5wmaaln8s3pvycyk5que9gxyg7mx3x6c25p9fklut6culrv57z0mtsndslvarpk67uhdnnwd5ylhc7ncjmw2yy58gjtr43qk5v4lhls247lc5l5jkdnhxt77jcg46anjpajcvjanwzkmsaka9kvwg5j749kwjzztl07pgd39ul4rv0d66waravu8l09s3xvne5hpwadg7axmghxyhkz9agmrslvlup04q7xn5p4lus7kpeg00mshe62lew3lkku4a3mnfle3ll4edqa6sc4z8lf58rxxl79u5ts6lqlx8rh68jn2pdj0f0h0z43pgvvs095txax707kmkh8tqhw6dhspmpz650l405p2z9qckyf95ptjke2u4lllxnkl2f7hx9k3m7ez28kvnnax7drk4l2wnls75z8z9lhjmuytpt8xtp5d5q8xqyqczzrucjutnk0ppa87me0u7sk7fwvmm6rwlnzj8086mxnnw23573lkexmpd7ss263fq2x3jm323jm3w3jm3xsjm3kjjlsla555ud55suagkut60p6fxz5vu9977nms7ya46djs6nvhw3cwd3zz25k5uu9lh0ut4a0hpfnxp9hkf2w6enhawne7hrerz7725c94zahlcttnpftaf8qmkus7ajland0d48uek6nn39ghue0h6xlmul6u0278mnm89s5evw8eyt000maepewml2r8u042fvswh3ykeavzk70elw6w4h5w389h7mz0l3wjpdeex0lmhms7ah2ek74ndcl84er4jalm8xwtcxz20r75yehxmm7a0gzdn2zewpylnflmmhx602ucfe2um843jrk2dmd0hgtkylvkrmetyjeueyadlsy64q23dge5pmtrycvcw5zaurnd66qcqsupuf4m0sk768k7mel0sul7lc3772lyh7x4ghqsk8ta6mmj0uf6ptrpzvq2mv9wq0w8wxgxrpax22c8sdhs45x7zvj4acjagfqdgtmj0lzmvm82gvjz8y3qls5mldhklkradtvwucx4rh2k7alhnpdzd4hk0dzvhmavlnlen9d34jq0h4fuuh968ljwszcfkkje9576c5wuwahnghlcj7z5pq37xwd55t5uw5ktaap0wnva7nhnwd2dmhe36rnerp7ad7cka7s7x8lsvyraxd0xqrs490mf6d0eed4ukjmn5vw7mdstnz0dc7hhcruvf2tlt55c6tnx6hnm7f9d4szl6ru8cqr0k6j6'',
      ''offer1qqr83wcuu2rykcmqvpsxygqqemhmlaekcenaz02ma6hs5w600dhjlvfjn477nkwz369h88kll73h37fefnwk3qqnz8s0lle0lzshdh4w3z5jnfd9vr922ag9t0z2dmwuhjn03fzx463wze5w5q7cvs8tzeug3m7wwvkmqnhw24uay8fwmeldh2hcsfe3ymmdel9d5hw6p4n98jh7k7txgpt4xzq2mxwhmq66xkwn395nw7mx0ntwlwz8fn495jn7fy83n63auajfgk60a0c4ck097sew5900fal3dduurk895jtnu7cc34wywn78cvx96xzgjvgzrfacev8ggvd0yxua9qve628e8ua9zvsyya9zq6tmg87j4glql4mj704cw7dfxmwnn5j00h28ecnlg3uccj99hh2w06c62eh7luzs7zjwr00q50ch6n6w9uwpnmhm7nelzmma46hwvty20jlexruc40l5ssz770u59fusvfqufraevma5umg0yw3th032557aawt9ch8xkljwcswmj4g2hyqt3lg7jxw6yjqdr6veuyan6q6w7q93d7xwpuhlxr6evtnkpv80kahsx5678w47f2n9eynwklsclrrnyne7qn930f0lpujxf9y5zs29h60tu7je29yhustjtf48atjkfen9adn3dfq4avnjtfj4y6jkvfjhrzteg4g65u27v9nyvu2esfyhu7jpvxuejsjkwfexyudfnf5mu6vj0x4yza2jfxnxzcj7wfcerxv4dx2ka2d43x8fzhj2tleluqznyzngqv2scqm6xp35zsw04ewer7g27k437zku98se3gxvwm88t565muml7s4je6y0w6wvhla07l6n9mgx0zf574v4vut7mmls8hj57gdvsd9qmusg8j6dc4u6pywfugfppxvmk8sxulafg7yx8ld35gul6vm2tul850rn2ah6ajr455r7z5ujx5ttezmcq79l2l6amelw4zc7ehet20m7deh9p40d2dnhvm2mhdug9nteaw2ukve0thhuv5ky3e8w8g0y5ngkn0x3dy7q9mhe8uag63mv8ngkwxs02tmp6h0a4fe062sxayg0t7ctf6w8ww54dlcm23d6utn7vs6pc4mfhm4f4dqefsw2xx6za6hgwnvwsaxc5z0sa760u7hdsq4xa7tla2twxn4hxuwjl0t4ge8ttgder9zsluuxmvkxkwdtga87qlnjpj56rzlcp8xhsq3kkrwmp54xpqeh4s4m8t870kewmht739hc7um6vlhrwn67djud98mfm8y6ms5xh6r9lmahasxth3f8av0pja6ma8k0er0t0ds22csr9t6e7u9vl40lqlqdnldfz2hmu5vhzja4wucj3z3ljyh4xr3eh0l6pjhfkvqhxe4alyqhvxtgrs9wccrq7vxvfqyd7qkjqd86ptys4sq7r4qe2gxr3yc7a0laluzj0r70mhr077nhea7fz7thkuygs6f2033tk2ak723vawhvurjmzngmcdsnjaj8mnlff9a2vmm9km30uexlk5ajaeh0slkdxahnvjrm95kkc7jjjrgl2mdeye8l0tdau54kwhcdwpvm9aguwlamv6fu89mgjreuryemdevx4m7e8al566yjhrlx735nexd0zp3nx3wptm3eryhj8amtm6m6uykhjkd8qzs7m72mk7wz6c'',
      ''offer1qqr83wcuu2rykcmqvpsxygqqemhmlaekcenaz02ma6hs5w600dhjlvfjn477nkwz369h88kll73h37fefnwk3qqnz8s0lle0npc0fqmxvh9emwaxm9a7ak28agj7uenvvwlkchjk0m3d3s30354n80cqj4z02dfytuu8a8jmgfkhhl7zllmm6tp8yat5mc96cen4zknmdehkz6k0lltf9t9qpcrtqdfmhy3799j8etzhy98m8jal2mdkekv6yntmqve3y6a9nyu84l0ke22cw7w73wv8ckh2wxnh49awt8t0mtejmunff255hecapnk6de6xe7lx38gdscuyg50a9yxlapzvn6zye8larzvjyyu9zqjfmv9754ceqhhm77l3cx7a88rvn0hzfw008eeragflcgj9dh82wmegktf470lj7kr42dsgyn7akvxlealu3u6y4h90hel7f5g8xejudr29a654xl7aktltec8asafztnuqsspknhlj3htpckj7vaj4whr44faamy5te07fd8padza3y6s4wtsnzw3agwdsgvp685ehefm8cqyhasgzmlu7ze07y997c8qv7m7lvmtqef4k092uk5kdjexapupl7k8xexrkp7dz7nlcrpyvj2fgyc3t0h7medyju2f0egky732tm8xvh3k0mnyzk330mfxykn92f4xvus9w8y4jft3mfskustk2cq5nunefe4rzywfm9e8vcnjygg7nwnfneu6yj0629zjy60x29e8uys3j85e26d986y6txw7c9085lurmcszxq9k6pqnpgq8kvtrckcjvawf4el9n9pf485slgl0ssmr2v06lue2vcmrlnfu9mctdecwkpap5u5p8m9jg2w0k2908ul7nlczdykhcznqrlgxn9wxu2jwqwx5e9shqrydery9kv44apmltl25fxwn74dl5mus087j0dxcc2zs4923yyryhx349dff7snzl40ewdull23v0vmua58elxum636hk4yemhd4dt57vre4u7h9wtxvh4emkx2tzg7nlz5rj6t5rfhhgxs0qralur7wuvgeknm5r8rg898acatn72kuhu9vrwjy04lg9yl8rh8w2klud5gja79el8gdqv2a5ma7565sv5c89rpdpwat58fk8gwnv6p8c0ld8wdtkcqwn7a9l74phnt6mjw8fl44j4vn44kx5sj4g07wrvk0rt9x45whlsde3qe2d3305pnntczgmtphdqc2mpsgm6624j4hl8mvlvm4lcjmuwwdax0mekfe0xewwnna5anj9vc2rtlp6la6mw6rdmc5nwk8cewadw3m0a3h48kc99vgpjhay7wxklchaslavte7g6j5uu2kcjdacwm4uuly3uqttfqdtuahyvl464n0df9v7gfsf0qwx58qqup3keaqqekqgmupy9ga0jzkqpmx3z92qjv5urr3laklltuswadhs70k7u9tl3uyd66ymk6407ku6hhjhcnhre36svm8na7wl548crxtxxemxaylwav866d6la6g346jsaqt278la0afat8ad22tp49h022akz6g30aart9z4ndnta0u6caygjhsjec6uztlmnj7dajcdd3urv4a6dee50lcqjlrng9jx2fqh00aset4gdwa79rhxnqvzm9w30f29hg04ml6gyvcqtqhl64q078tkf'']"

definition chia_testTakeOffer ::
  "wc_context \<Rightarrow> platform_lib \<Rightarrow> string \<Rightarrow> string \<Rightarrow> rpc_response io" where
  "chia_testTakeOffer c P cid addr =
     chia_request c P cid addr (enum_member DEFAULT_CHIA_METHODS ''CHIA_TAKE_OFFER'')
       (JObj [(''fingerprint'', JStr addr),
              (''offer'', JStr take_offer_text),
              (''fee'', JNum 0)])"

definition chia_testCreateOfferForIds ::
  "wc_context \<Rightarrow> platform_lib \<Rightarrow> string \<Rightarrow> string \<Rightarrow> rpc_response io" where
  "chia_testCreateOfferForIds c P cid addr =
     chia_request c P cid addr (enum_member DEFAULT_CHIA_METHODS ''CHIA_CREATE_OFFER_FOR_IDS'')
       (JObj [(''fingerprint'', JStr addr),
              (''walletIdsAndAmounts'',
                 JObj [(''17'', JNum (- 1234)),
                       (''38a0dd823db068c6169e1e7e060e6a386031b9b145510d5a9b4610212383fbe9'', JNum 1)]),
              (''driverDict'', JObj []),
              (''disableJSONFormatting'', JBool True)])"

definition chia_testUnknownTestCommand ::
  "wc_context \<Rightarrow> platform_lib \<Rightarrow> string \<Rightarrow> string \<Rightarrow> rpc_response io" where
  "chia_testUnknownTestCommand c P cid addr =
     chia_request c P cid addr (enum_member DEFAULT_CHIA_METHODS ''CHIA_UNKNOWN_TEST_COMMAND'')
       (JObj [(''fingerprint'', JStr addr),
              (''test'',
                 JObj [(''amount'', JNum 1),
                       (''38a0dd823db068c6169e1e7e060e6a386031b9b145510d5a9b4610212383fbe9'', JNum 1)]),
              (''driverDict'', JObj []),
              (''disableJSONFormatting'', JBool True)])"

definition chia_testShowOfferDataNotification ::
  "wc_context \<Rightarrow> platform_lib \<Rightarrow> string \<Rightarrow> string \<Rightarrow> rpc_response io" where
  "chia_testShowOfferDataNotification c P cid addr =
     chia_request c P cid addr (enum_member DEFAULT_CHIA_METHODS ''CHIA_SHOW_NOTIFICATION'')
       (JObj [(''fingerprint'', JStr addr),
              (''type'', JStr ''offer''),
              (''offerData'',
                 array_index (map JStr notification_offers)
                   (Math_random_floor P (length notification_offers))),
              (''driverDict'', JObj []),
              (''disableJSONFormatting'', JBool True)])"

definition chia_testShowAnnouncementNotification ::
  "wc_context \<Rightarrow> platform_lib \<Rightarrow> string \<Rightarrow> string \<Rightarrow> rpc_response io" where
  "chia_testShowAnnouncementNotification c P cid addr =
     chia_request c P cid addr (enum_member DEFAULT_CHIA_METHODS ''CHIA_SHOW_NOTIFICATION'')
       (JObj [(''fingerprint'', JStr addr),
              (''type'', JStr ''announcement''),
              (''message'', JStr ''This is a test announcement''),
              (''url'', JStr ''https://www.chia.net''),
              (''allFingerprints'', JBool True),
              (''driverDict'', JObj []),
              (''disableJSONFormatting'', JBool True)])"

section \<open>NEAR routines\<close>

text \<open>\<^verbatim>\<open>v.map((x) => x.k)\<close>: \<open>v\<close> must be an array, and no element \<^verbatim>\<open>null\<close> or \<^verbatim>\<open>undefined\<close>.\<close>

fun props_of :: "string \<Rightarrow> js list \<Rightarrow> js + js list" where
  "props_of k [] = Inr []"
| "props_of k (x # xs) =
     (case get_prop x k of
        Inl e \<Rightarrow> Inl e
      | Inr v \<Rightarrow> (case props_of k xs of Inl e \<Rightarrow> Inl e | Inr vs \<Rightarrow> Inr (v # vs)))"

definition map_prop :: "js \<Rightarrow> string \<Rightarrow> js + js list" where
  "map_prop v k =
     (case v of
        JArr xs \<Rightarrow> props_of k xs
      | JUndefined \<Rightarrow> (case get_prop v ''map'' of Inl e \<Rightarrow> Inl e | Inr u \<Rightarrow> Inr [])
      | JNull \<Rightarrow> (case get_prop v ''map'' of Inl e \<Rightarrow> Inl e | Inr u \<Rightarrow> Inr [])
      | _ \<Rightarrow> Inl (TypeError ''map is not a function''))"

definition near_action :: "string \<Rightarrow> js" where
  "near_action text =
     JObj [(''type'', JStr ''FunctionCall''),
           (''params'',
              JObj [(''methodName'', JStr ''addMessage''),
                    (''args'', JObj [(''text'', JStr text)]),
                    (''gas'', JStr ''30000000000000''),
                    (''deposit'', JStr ''0'')])]"

definition near_transaction :: "string \<Rightarrow> string \<Rightarrow> js" where
  "near_transaction addr text =
     JObj [(''signerId'', JStr addr),
           (''receiverId'', JStr ''guest-book.testnet''),
           (''actions'', JArr [near_action text])]"

definition near_testSignAndSendTransaction ::
  "wc_context \<Rightarrow> platform_lib \<Rightarrow> string \<Rightarrow> string \<Rightarrow> rpc_response io" where
  "near_testSignAndSendTransaction c P cid addr =
     (let m = enum_member DEFAULT_NEAR_METHODS ''NEAR_SIGN_AND_SEND_TRANSACTION'' in
      await_then
        (client_request c cid m
           (JObj [(''transaction'', near_transaction addr ''Hello from Wallet Connect!'')]))
        (\<lambda>res.
      await_then (lift (get_prop res ''transaction'')) (\<lambda>t.
      return \<lparr>method_name = m, address = Some addr, valid = True,
               result = JSON_stringify P t\<rparr>)))"

definition near_testSignAndSendTransactions ::
  "wc_context \<Rightarrow> platform_lib \<Rightarrow> string \<Rightarrow> string \<Rightarrow> rpc_response io" where
  "near_testSignAndSendTransactions c P cid addr =
     (let m = enum_member DEFAULT_NEAR_METHODS ''NEAR_SIGN_AND_SEND_TRANSACTIONS'' in
      await_then
        (client_request c cid m
           (JObj [(''transactions'',
                     JArr [near_transaction addr ''Hello from Wallet Connect! (1/2)'',
                           near_transaction addr ''Hello from Wallet Connect! (2/2)''])]))
        (\<lambda>res.
      await_then (lift (map_prop res ''transaction'')) (\<lambda>ts.
      return \<lparr>method_name = m, address = Some addr, valid = True,
               result = JSON_stringify P (JArr ts)\<rparr>)))"

section \<open>Elrond routines\<close>

text \<open>
  The erdjs objects are opaque values built and read by the library: \<open>Transaction_new\<close>
  takes the constructor's options, \<open>applySignature\<close> yields the signed object (the
  third argument is the signer, \<^verbatim>\<open>undefined\<close> for a message), \<open>verify\<close> takes the verifier
  and the signed object.
\<close>

record elrond_lib =
  Address_new :: "string \<Rightarrow> js + js"
  Address_fromBech32 :: "string \<Rightarrow> js + js"
  UserVerifier_fromAddress :: "js \<Rightarrow> js + js"
  TransactionPayload_new :: "string \<Rightarrow> js"
  Transaction_new :: "js \<Rightarrow> js + js"
  toPlainObject :: "js \<Rightarrow> js + js"
  SignableMessage_new :: "js \<Rightarrow> js + js"
  Signature_new :: "js \<Rightarrow> js + js"
  applySignature :: "js \<Rightarrow> js \<Rightarrow> js \<Rightarrow> js + js"
  verify :: "js \<Rightarrow> js \<Rightarrow> js + bool"

text \<open>\<^verbatim>\<open>v[i]\<close> and \<^verbatim>\<open>v.toString()\<close> on a value that may be \<^verbatim>\<open>undefined\<close>.\<close>

definition index_js :: "js \<Rightarrow> nat \<Rightarrow> js + js" where
  "index_js v i =
     (case v of
        JArr xs \<Rightarrow> Inr (array_index xs i)
      | JStr s \<Rightarrow> Inr (if i < length s then JStr [s ! i] else JUndefined)
      | _ \<Rightarrow> get_prop v (dec_nat i))"

definition call_toString :: "js \<Rightarrow> js + js" where
  "call_toString v =
     (if v = JUndefined \<or> v = JNull
      then (case get_prop v ''toString'' of Inl e \<Rightarrow> Inl e | Inr u \<Rightarrow> Inr u)
      else Inr (JStr (ToString v)))"

text \<open>
  One test transaction: the receiver is \<^verbatim>\<open>Address.fromBech32(address)\<close>; \<open>extra\<close> holds the
  \<^verbatim>\<open>data\<close> entry when the transaction has a payload.
\<close>

definition elrond_transaction ::
  "elrond_lib \<Rightarrow> js \<Rightarrow> string \<Rightarrow> int \<Rightarrow> string \<Rightarrow> string option \<Rightarrow> (string \<times> js) list
     \<Rightarrow> js + js" where
  "elrond_transaction L userAddress addr n v reference extra =
     (case Address_fromBech32 L addr of
        Inl e \<Rightarrow> Inl e
      | Inr receiver \<Rightarrow>
          Transaction_new L
            (JObj ([(''nonce'', JNum n),
                    (''value'', JStr v),
                    (''receiver'', receiver),
                    (''sender'', userAddress),
                    (''gasPrice'', JNum 1000000000),
                    (''gasLimit'', JNum 50000),
                    (''chainID'', opt_js reference)] @ extra)))"

definition elrond_testSignTransaction ::
  "wc_context \<Rightarrow> elrond_lib \<Rightarrow> string \<Rightarrow> string \<Rightarrow> rpc_response io" where
  "elrond_testSignTransaction c L cid addr =
     (let reference = nth_opt (split_colon cid) 1 in
      await_then (lift (Address_new L addr)) (\<lambda>userAddress.
      await_then (lift (UserVerifier_fromAddress L userAddress)) (\<lambda>verifier.
      await_then
        (lift (elrond_transaction L userAddress addr 1 ''10000000000000000000'' reference
                 [(''data'', TransactionPayload_new L ''testdata'')])) (\<lambda>testTransaction.
      await_then (lift (toPlainObject L testTransaction)) (\<lambda>transaction.
      try_catch
        (await_then
           (client_request c cid (enum_member DEFAULT_ELROND_METHODS ''ELROND_SIGN_TRANSACTION'')
              (JObj [(''transaction'', transaction)])) (\<lambda>res.
         await_then (lift (get_prop res ''signature'')) (\<lambda>sig.
         await_then (lift (Signature_new L sig)) (\<lambda>signature.
         await_then (lift (applySignature L testTransaction signature userAddress)) (\<lambda>signed.
         await_then (lift (verify L verifier signed)) (\<lambda>v.
         await_then (lift (get_prop res ''signature'')) (\<lambda>sig2.
         await_then (lift (call_toString sig2)) (\<lambda>text.
         return \<lparr>method_name = enum_member DEFAULT_ELROND_METHODS ''ELROND_SIGN_TRANSACTION'',
                  address = Some addr, valid = v, result = text\<rparr>))))))))
        (\<lambda>error. throw (new_Error error)))))))"

text \<open>
  The \<^verbatim>\<open>reduce\<close> over the three transactions: each step applies the signature at its index
  and, only while the accumulator is still true, asks the verifier.
\<close>

fun verify_each :: "elrond_lib \<Rightarrow> js \<Rightarrow> js \<Rightarrow> js \<Rightarrow> bool \<Rightarrow> nat \<Rightarrow> js list \<Rightarrow> js + bool" where
  "verify_each L verifier userAddress res acc index [] = Inr acc"
| "verify_each L verifier userAddress res acc index (current # rest) =
     (case get_prop res ''signatures'' of Inl e \<Rightarrow> Inl e | Inr sigs \<Rightarrow>
      case index_js sigs index of Inl e \<Rightarrow> Inl e | Inr entry \<Rightarrow>
      case get_prop entry ''signature'' of Inl e \<Rightarrow> Inl e | Inr sig \<Rightarrow>
      case Signature_new L sig of Inl e \<Rightarrow> Inl e | Inr signature \<Rightarrow>
      case applySignature L current signature userAddress of Inl e \<Rightarrow> Inl e | Inr signed \<Rightarrow>
        if acc
        then (case verify L verifier signed of
                Inl e \<Rightarrow> Inl e
              | Inr v \<Rightarrow> verify_each L verifier userAddress res v (Suc index) rest)
        else verify_each L verifier userAddress res False (Suc index) rest)"

definition elrond_testSignTransactions ::
  "wc_context \<Rightarrow> elrond_lib \<Rightarrow> string \<Rightarrow> string \<Rightarrow> rpc_response io" where
  "elrond_testSignTransactions c L cid addr =
     (let reference = nth_opt (split_colon cid) 1 in
      await_then (lift (Address_new L addr)) (\<lambda>userAddress.
      await_then (lift (UserVerifier_fromAddress L userAddress)) (\<lambda>verifier.
      await_then
        (lift (elrond_transaction L userAddress addr 1 ''10000000000000000000'' reference
                 [(''data'', TransactionPayload_new L ''testdata'')])) (\<lambda>testTransaction.
      await_then
        (lift (elrond_transaction L userAddress addr 2 ''20000000000000000000'' reference []))
        (\<lambda>testTransaction2.
      await_then
        (lift (elrond_transaction L userAddress addr 3 ''300000000000000000'' reference
                 [(''data'', TransactionPayload_new L ''third'')])) (\<lambda>testTransaction3.
      await_then (lift (toPlainObject L testTransaction)) (\<lambda>p1.
      await_then (lift (toPlainObject L testTransaction2)) (\<lambda>p2.
      await_then (lift (toPlainObject L testTransaction3)) (\<lambda>p3.
      try_catch
        (await_then
           (client_request c cid (enum_member DEFAULT_ELROND_METHODS ''ELROND_SIGN_TRANSACTIONS'')
              (JObj [(''transactions'', JArr [p1, p2, p3])])) (\<lambda>res.
         await_then
           (lift (verify_each L verifier userAddress res True 0
                    [testTransaction, testTransaction2, testTransaction3])) (\<lambda>v.
         await_then (lift (get_prop res ''signatures'')) (\<lambda>sigs.
         await_then (lift (map_prop sigs ''signature'')) (\<lambda>resultSignatures.
         return \<lparr>method_name = enum_member DEFAULT_ELROND_METHODS ''ELROND_SIGN_TRANSACTIONS'',
                  address = Some addr, valid = v,
                  result = JStr (array_join resultSignatures '', '')\<rparr>)))))
        (\<lambda>error. throw (new_Error error)))))))))))"

text \<open>
  The message is ASCII text, so the \<^verbatim>\<open>Buffer\<close> made from it is modelled by the text
  itself.
\<close>

definition elrond_testSignMessage ::
  "wc_context \<Rightarrow> platform_lib \<Rightarrow> elrond_lib \<Rightarrow> string \<Rightarrow> string \<Rightarrow> rpc_response io" where
  "elrond_testSignMessage c P L cid addr =
     await_then (lift (Address_new L addr)) (\<lambda>userAddress.
     await_then (lift (UserVerifier_fromAddress L userAddress)) (\<lambda>verifier.
     await_then
       (lift (SignableMessage_new L
                (JObj [(''address'', userAddress),
                       (''message'', JStr (''Sign this message - '' @ dec_nat (Date_now P)))])))
       (\<lambda>testMessage.
     try_catch
       (await_then (lift (get_prop testMessage ''message'')) (\<lambda>buffer.
        await_then (lift (call_toString buffer)) (\<lambda>text.
        await_then
          (client_request c cid (enum_member DEFAULT_ELROND_METHODS ''ELROND_SIGN_MESSAGE'')
             (JObj [(''address'', JStr addr), (''message'', text)])) (\<lambda>res.
        await_then (lift (get_prop res ''signature'')) (\<lambda>sig.
        await_then (lift (Signature_new L sig)) (\<lambda>signature.
        await_then (lift (applySignature L testMessage signature JUndefined)) (\<lambda>signed.
        await_then (lift (verify L verifier signed)) (\<lambda>v.
        await_then (lift (get_prop res ''signature'')) (\<lambda>sig2.
        await_then (lift (call_toString sig2)) (\<lambda>shown.
        return \<lparr>method_name = enum_member DEFAULT_ELROND_METHODS ''ELROND_SIGN_MESSAGE'',
                 address = Some addr, valid = v, result = shown\<rparr>))))))))))
       (\<lambda>error. throw (new_Error error)))))"

section \<open>The method tables\<close>

datatype operation =
    Eth_testSendTransaction
  | Eth_testSignTransaction
  | Eth_testEthSign
  | Eth_testSignPersonalMessage
  | Eth_testSignTypedData
  | Cosmos_testSignDirect
  | Cosmos_testSignAmino
  | Solana_testSignMessage
  | Solana_testSignTransaction
  | Polkadot_testSignMessage
  | Polkadot_testSignTransaction
  | Near_testSignAndSendTransaction
  | Near_testSignAndSendTransactions
  | Elrond_testSignMessage
  | Elrond_testSignTransaction
  | Elrond_testSignTransactions
  | Chia_testGetWallets
  | Chia_testGetCATWalletInfo
  | Chia_testSendTransaction
  | Chia_testSpendCAT
  | Chia_testNewAddress
  | Chia_testLogIn
  | Chia_testSignMessageByAddress
  | Chia_testSignMessageById
  | Chia_testGetWalletSyncStatus
  | Chia_testGetNFTInfo
  | Chia_testGetNFTs
  | Chia_testTakeOffer
  | Chia_testCreateOfferForIds
  | Chia_testUnknownTestCommand
  | Chia_testShowOfferDataNotification
  | Chia_testShowAnnouncementNotification

record libraries =
  platform :: platform_lib
  evm :: evm_lib
  cosmos :: cosmos_lib
  solana :: solana_lib
  polkadot :: polkadot_lib
  elrond :: elrond_lib

text \<open>The routine each table entry hands to the wrapper.\<close>

fun rpc_routine ::
  "wc_context \<Rightarrow> libraries \<Rightarrow> operation \<Rightarrow> string \<Rightarrow> string \<Rightarrow> rpc_response io" where
  "rpc_routine c L Eth_testSendTransaction = eth_testSendTransaction c (evm L)"
| "rpc_routine c L Eth_testSignTransaction = eth_testSignTransaction c (evm L)"
| "rpc_routine c L Eth_testEthSign = eth_testEthSign c (platform L) (evm L)"
| "rpc_routine c L Eth_testSignPersonalMessage = eth_testSignPersonalMessage c (platform L) (evm L)"
| "rpc_routine c L Eth_testSignTypedData = eth_testSignTypedData c (platform L) (evm L)"
| "rpc_routine c L Cosmos_testSignDirect = cosmos_testSignDirect c (cosmos L)"
| "rpc_routine c L Cosmos_testSignAmino = cosmos_testSignAmino c (cosmos L)"
| "rpc_routine c L Solana_testSignMessage = solana_testSignMessage c (platform L) (solana L)"
| "rpc_routine c L Solana_testSignTransaction = solana_testSignTransaction c (solana L)"
| "rpc_routine c L Polkadot_testSignMessage = polkadot_testSignMessage c (platform L) (polkadot L)"
| "rpc_routine c L Polkadot_testSignTransaction = polkadot_testSignTransaction c (polkadot L)"
| "rpc_routine c L Near_testSignAndSendTransaction = near_testSignAndSendTransaction c (platform L)"
| "rpc_routine c L Near_testSignAndSendTransactions = near_testSignAndSendTransactions c (platform L)"
| "rpc_routine c L Elrond_testSignMessage = elrond_testSignMessage c (platform L) (elrond L)"
| "rpc_routine c L Elrond_testSignTransaction = elrond_testSignTransaction c (elrond L)"
| "rpc_routine c L Elrond_testSignTransactions = elrond_testSignTransactions c (elrond L)"
| "rpc_routine c L Chia_testGetWallets = chia_testGetWallets c (platform L)"
| "rpc_routine c L Chia_testGetCATWalletInfo = chia_testGetCATWalletInfo c (platform L)"
| "rpc_routine c L Chia_testSendTransaction = chia_testSendTransaction c (platform L)"
| "rpc_routine c L Chia_testSpendCAT = chia_testSpendCAT c (platform L)"
| "rpc_routine c L Chia_testNewAddress = chia_testNewAddress c (platform L)"
| "rpc_routine c L Chia_testLogIn = chia_testLogIn c (platform L)"
| "rpc_routine c L Chia_testSignMessageByAddress = chia_testSignMessageByAddress c (platform L)"
| "rpc_routine c L Chia_testSignMessageById = chia_testSignMessageById c (platform L)"
| "rpc_routine c L Chia_testGetWalletSyncStatus = chia_testGetWalletSyncStatus c (platform L)"
| "rpc_routine c L Chia_testGetNFTInfo = chia_testGetNFTInfo c (platform L)"
| "rpc_routine c L Chia_testGetNFTs = chia_testGetNFTs c (platform L)"
| "rpc_routine c L Chia_testTakeOffer = chia_testTakeOffer c (platform L)"
| "rpc_routine c L Chia_testCreateOfferForIds = chia_testCreateOfferForIds c (platform L)"
| "rpc_routine c L Chia_testUnknownTestCommand = chia_testUnknownTestCommand c (platform L)"
| "rpc_routine c L Chia_testShowOfferDataNotification =
     chia_testShowOfferDataNotification c (platform L)"
| "rpc_routine c L Chia_testShowAnnouncementNotification =
     chia_testShowAnnouncementNotification c (platform L)"

text \<open>A table entry, as the caller invokes it: the wrapper around the entry's routine.\<close>

definition invoke ::
  "wc_context \<Rightarrow> libraries \<Rightarrow> operation \<Rightarrow> string \<Rightarrow> string \<Rightarrow> rpc_state
     \<Rightarrow> settled \<times> rpc_state" where
  "invoke c L op cid addr = createJsonRpcRequestHandler c (rpc_routine c L op) cid addr"

section \<open>Sequences of invocations\<close>

text \<open>
  What the caller can do with the provider: invoke a table entry or the probe. A history
  is a list of such calls, each with the context and libraries of its render, run one
  after the other from the provider's initial state.
\<close>

datatype call = Invoke operation string string | Probe

fun perform :: "wc_context \<Rightarrow> libraries \<Rightarrow> call \<Rightarrow> rpc_state \<Rightarrow> settled \<times> rpc_state" where
  "perform c L (Invoke op cid addr) s = invoke c L op cid addr s"
| "perform c L Probe s = ping_probe c s"

fun run :: "(wc_context \<times> libraries \<times> call) list \<Rightarrow> rpc_state \<Rightarrow> rpc_state" where
  "run [] s = s"
| "run ((c, L, k) # rest) s = run rest (snd (perform c L k s))"

section \<open>Notions used by the properties\<close>

text \<open>A routine only ever appends requests to the trace.\<close>

definition sends_only :: "'a io \<Rightarrow> bool" where
  "sends_only m = (\<forall>tr. \<exists>ys. snd (m tr) = tr @ ys \<and> (\<forall>e \<in> set ys. \<exists>q. e = Sent q))"

text \<open>The wire method constant each table entry names, read from its enum.\<close>

fun wire_method :: "operation \<Rightarrow> string option" where
  "wire_method Eth_testSendTransaction = enum_member DEFAULT_EIP155_METHODS ''ETH_SEND_TRANSACTION''"
| "wire_method Eth_testSignTransaction = enum_member DEFAULT_EIP155_METHODS ''ETH_SIGN_TRANSACTION''"
| "wire_method Eth_testEthSign = enum_member DEFAULT_EIP155_METHODS ''ETH_SIGN''"
| "wire_method Eth_testSignPersonalMessage = enum_member DEFAULT_EIP155_METHODS ''PERSONAL_SIGN''"
| "wire_method Eth_testSignTypedData = enum_member DEFAULT_EIP155_METHODS ''ETH_SIGN_TYPED_DATA''"
| "wire_method Cosmos_testSignDirect = enum_member DEFAULT_COSMOS_METHODS ''COSMOS_SIGN_DIRECT''"
| "wire_method Cosmos_testSignAmino = enum_member DEFAULT_COSMOS_METHODS ''COSMOS_SIGN_AMINO''"
| "wire_method Solana_testSignMessage = enum_member DEFAULT_SOLANA_METHODS ''SOL_SIGN_MESSAGE''"
| "wire_method Solana_testSignTransaction = enum_member DEFAULT_SOLANA_METHODS ''SOL_SIGN_TRANSACTION''"
| "wire_method Polkadot_testSignMessage = enum_member DEFAULT_POLKADOT_METHODS ''POLKADOT_SIGN_MESSAGE''"
| "wire_method Polkadot_testSignTransaction =
     enum_member DEFAULT_POLKADOT_METHODS ''POLKADOT_SIGN_TRANSACTION''"
| "wire_method Near_testSignAndSendTransaction =
     enum_member DEFAULT_NEAR_METHODS ''NEAR_SIGN_AND_SEND_TRANSACTION''"
| "wire_method Near_testSignAndSendTransactions =
     enum_member DEFAULT_NEAR_METHODS ''NEAR_SIGN_AND_SEND_TRANSACTIONS''"
| "wire_method Elrond_testSignMessage = enum_member DEFAULT_ELROND_METHODS ''ELROND_SIGN_MESSAGE''"
| "wire_method Elrond_testSignTransaction =
     enum_member DEFAULT_ELROND_METHODS ''ELROND_SIGN_TRANSACTION''"
| "wire_method Elrond_testSignTransactions =
     enum_member DEFAULT_ELROND_METHODS ''ELROND_SIGN_TRANSACTIONS''"
| "wire_method Chia_testGetWallets = enum_member DEFAULT_CHIA_METHODS ''CHIA_GET_WALLETS''"
| "wire_method Chia_testGetCATWalletInfo =
     enum_member DEFAULT_CHIA_METHODS ''CHIA_GET_CAT_WALLET_INFO''"
| "wire_method Chia_testSendTransaction = enum_member DEFAULT_CHIA_METHODS ''CHIA_SEND_TRANSACTION''"
| "wire_method Chia_testSpendCAT = enum_member DEFAULT_CHIA_METHODS ''CHIA_SPEND_CAT''"
| "wire_method Chia_testNewAddress = enum_member DEFAULT_CHIA_METHODS ''CHIA_NEW_ADDRESS''"
| "wire_method Chia_testLogIn = enum_member DEFAULT_CHIA_METHODS ''CHIA_LOG_IN''"
| "wire_method Chia_testSignMessageByAddress =
     enum_member DEFAULT_CHIA_METHODS ''CHIA_SIGN_MESSAGE_BY_ADDRESS''"
| "wire_method Chia_testSignMessageById =
     enum_member DEFAULT_CHIA_METHODS ''CHIA_SIGN_MESSAGE_BY_ID''"
| "wire_method Chia_testGetWalletSyncStatus =
     enum_member DEFAULT_CHIA_METHODS ''CHIA_GET_WALLET_SYNC_STATUS''"
| "wire_method Chia_testGetNFTInfo = enum_member DEFAULT_CHIA_METHODS ''CHIA_GET_NFT_INFO''"
| "wire_method Chia_testGetNFTs = enum_member DEFAULT_CHIA_METHODS ''CHIA_GET_NFTS''"
| "wire_method Chia_testTakeOffer = enum_member DEFAULT_CHIA_METHODS ''CHIA_TAKE_OFFER''"
| "wire_method Chia_testCreateOfferForIds =
     enum_member DEFAULT_CHIA_METHODS ''CHIA_CREATE_OFFER_FOR_IDS''"
| "wire_method Chia_testUnknownTestCommand =
     enum_member DEFAULT_CHIA_METHODS ''CHIA_UNKNOWN_TEST_COMMAND''"
| "wire_method Chia_testShowOfferDataNotification =
     enum_member DEFAULT_CHIA_METHODS ''CHIA_SHOW_NOTIFICATION''"
| "wire_method Chia_testShowAnnouncementNotification =
     enum_member DEFAULT_CHIA_METHODS ''CHIA_SHOW_NOTIFICATION''"

text \<open>The operations that look up chain metadata, and those that look up the account.\<close>

definition needs_chain_data :: "operation \<Rightarrow> bool" where
  "needs_chain_data op =
     (op = Eth_testSignPersonalMessage \<or> op = Eth_testEthSign
      \<or> op = Cosmos_testSignDirect \<or> op = Cosmos_testSignAmino)"

definition checks_account :: "operation \<Rightarrow> bool" where
  "checks_account op = (op = Eth_testSendTransaction \<or> op = Eth_testSignTransaction)"

text \<open>The sign doc \<^verbatim>\<open>testSignDirect\<close> formats from its fixture inputs and the chain reference.\<close>

definition direct_signDoc :: "cosmos_lib \<Rightarrow> string \<Rightarrow> js + js" where
  "direct_signDoc C cid =
     formatDirectSignDoc C
       (JArr [JObj [(''amount'', JStr ''2000''), (''denom'', JStr ''ucosm'')]])
       (JStr ''AgSEjOuOr991QlHCORRmdE5ahVKeyBrmtgoYepCpQGOW'')
       (JNum 200000) (JNum 1) (JNum 1)
       (JStr ''0a90010a1c2f636f736d6f732e62616e6b2e763162657461312e4d736753656e6412700a2d636f736d6f7331706b707472653766646b6c366766727a6c65736a6a766878686c63337234676d6d6b38727336122d636f736d6f7331717970717870713971637273737a673270767871367273307a716733797963356c7a763778751a100a0575636f736d120731323334353637'')
       (opt_js (nth_opt (split_colon cid) 1))"

text \<open>Sequencing of calls that may throw, outside a routine.\<close>

definition and_then :: "js + 'a \<Rightarrow> ('a \<Rightarrow> js + 'b) \<Rightarrow> js + 'b" where
  "and_then r f = (case r of Inl e \<Rightarrow> Inl e | Inr x \<Rightarrow> f x)"

text \<open>
  The verification of one transaction of the Elrond batch, taken alone: the signature at
  its index is applied to the transaction and the verifier is asked.
\<close>

definition signature_verdict :: "elrond_lib \<Rightarrow> js \<Rightarrow> js \<Rightarrow> js \<Rightarrow> nat \<Rightarrow> js \<Rightarrow> js + bool" where
  "signature_verdict L verifier userAddress res index current =
     and_then (get_prop res ''signatures'') (\<lambda>sigs.
     and_then (index_js sigs index) (\<lambda>entry.
     and_then (get_prop entry ''signature'') (\<lambda>sig.
     and_then (Signature_new L sig) (\<lambda>signature.
     and_then (applySignature L current signature userAddress) (\<lambda>signed.
     verify L verifier signed)))))"

text \<open>
  The operations that verify the wallet's signature against the payload they built, and
  the verifier's verdict on that payload and the wallet's answer \<open>res\<close>. The Ethereum
  \<^verbatim>\<open>testSignTransaction\<close> is not among them: it checks the signed transaction the wallet
  returns, and the transaction it formatted does not enter the check.
\<close>

definition verifies_payload :: "operation \<Rightarrow> bool" where
  "verifies_payload op =
     (op \<in> {Eth_testEthSign, Eth_testSignPersonalMessage,
             Eth_testSignTypedData, Cosmos_testSignDirect, Cosmos_testSignAmino,
             Solana_testSignMessage, Solana_testSignTransaction,
             Polkadot_testSignMessage, Polkadot_testSignTransaction,
             Elrond_testSignMessage, Elrond_testSignTransaction, Elrond_testSignTransactions})"

fun verifier_verdict ::
  "wc_context \<Rightarrow> libraries \<Rightarrow> operation \<Rightarrow> string \<Rightarrow> string \<Rightarrow> js \<Rightarrow> (js + bool) option" where
  "verifier_verdict c L Eth_testSignPersonalMessage cid addr res =
     Some (verifyEip155MessageSignature (platform L) (evm L)
             (''My email is john@doe.com - '' @ dec_nat (Date_now (platform L))) res addr)"
| "verifier_verdict c L Eth_testEthSign cid addr res =
     Some (verifyEip155MessageSignature (platform L) (evm L)
             (''My email is john@doe.com - '' @ dec_nat (Date_now (platform L))) res addr)"
| "verifier_verdict c L Eth_testSignTypedData cid addr res =
     Some (and_then (get_prop (eip712_example (evm L)) ''types'') (\<lambda>types.
           and_then (omit_key ''EIP712Domain'' types) (\<lambda>nonDomainTypes.
           and_then (get_prop (eip712_example (evm L)) ''domain'') (\<lambda>domain.
           and_then (get_prop (eip712_example (evm L)) ''message'') (\<lambda>msg.
           and_then (verifyTypedData (evm L) domain nonDomainTypes msg res) (\<lambda>signer.
           Inr (toLowerCase (platform L) signer = toLowerCase (platform L) addr)))))))"
| "verifier_verdict c L Cosmos_testSignDirect cid addr res =
     Some (and_then
             (formatDirectSignDoc (cosmos L)
                (JArr [JObj [(''amount'', JStr ''2000''), (''denom'', JStr ''ucosm'')]])
                (JStr ''AgSEjOuOr991QlHCORRmdE5ahVKeyBrmtgoYepCpQGOW'')
                (JNum 200000) (JNum 1) (JNum 1)
                (JStr ''0a90010a1c2f636f736d6f732e62616e6b2e763162657461312e4d736753656e6412700a2d636f736d6f7331706b707472653766646b6c366766727a6c65736a6a766878686c63337234676d6d6b38727336122d636f736d6f7331717970717870713971637273737a673270767871367273307a716733797963356c7a763778751a100a0575636f736d120731323334353637'')
                (opt_js (nth_opt (split_colon cid) 1))) (\<lambda>signDoc.
           and_then (get_prop res ''signature'') (\<lambda>signature.
           verifyDirectSignature (cosmos L) addr signature signDoc)))"
| "verifier_verdict c L Cosmos_testSignAmino cid addr res =
     Some (and_then (get_prop res ''signature'') (\<lambda>signature.
           verifyAminoSignature (cosmos L) addr signature
             (JObj [(''msgs'', JArr []),
                    (''fee'', JObj [(''amount'', JArr []), (''gas'', JStr ''23'')]),
                    (''chain_id'', JStr ''foochain''),
                    (''memo'', JStr ''hello, world''),
                    (''account_number'', JStr ''7''),
                    (''sequence'', JStr ''54'')])))"
| "verifier_verdict c L Solana_testSignTransaction cid addr res =
     (case solanaPublicKeys c of
        None \<Rightarrow> Some (Inl (new_Error (JStr ''Could not find Solana PublicKeys.'')))
      | Some keys \<Rightarrow>
          Some (and_then
                  (getRecentBlockhash (solana L) (if isTestnet c then ''testnet'' else ''mainnet-beta''))
                  (\<lambda>recent.
                and_then (get_prop recent ''blockhash'') (\<lambda>blockhash.
                and_then
                  (transfer_transaction (solana L)
                     (case keys addr of None \<Rightarrow> JUndefined | Some k \<Rightarrow> k) blockhash)
                  (\<lambda>transaction.
                and_then (get_prop res ''signature'') (\<lambda>signature.
                and_then (bs58_decode (solana L) signature) (\<lambda>decoded.
                and_then
                  (addSignature (solana L) transaction
                     (case keys addr of None \<Rightarrow> JUndefined | Some k \<Rightarrow> k) decoded) (\<lambda>signed.
                verifySignatures (solana L) signed))))))))"
| "verifier_verdict c L Solana_testSignMessage cid addr res =
     (case solanaPublicKeys c of
        None \<Rightarrow> Some (Inl (new_Error (JStr ''Could not find Solana PublicKeys.'')))
      | Some keys \<Rightarrow>
          Some (and_then
                  (toBase58 (solana L) (case keys addr of None \<Rightarrow> JUndefined | Some k \<Rightarrow> k))
                  (\<lambda>pubkey.
                and_then (get_prop res ''signature'') (\<lambda>signature.
                verifyMessageSignature (solana L) pubkey signature
                  (bs58_encode_utf8 (solana L)
                     (''This is an example message to be signed - ''
                        @ dec_nat (Date_now (platform L))))))))"
| "verifier_verdict c L Polkadot_testSignTransaction cid addr res =
     Some (and_then (cryptoWaitReady (polkadot L)) (\<lambda>ready.
           and_then (get_prop res ''signature'') (\<lambda>signature.
           signatureVerify (polkadot L)
             ''0x00019074686973206973206120746573742077616c6c65742d636f6e6e6563742072656d61726b05010000222400000d00000091b171bb158e2d3848fa23a9f1c25182fb8e20313b2c1eb49219da7a70ce90c3dc1f37ce7899cf20f63f5ea343f33e9e7b229c7e245049c2a7afc236861fc8b4''
             signature addr)))"
| "verifier_verdict c L Polkadot_testSignMessage cid addr res =
     Some (and_then (cryptoWaitReady (polkadot L)) (\<lambda>ready.
           and_then (get_prop res ''signature'') (\<lambda>signature.
           signatureVerify (polkadot L)
             (''This is an example message to be signed - '' @ dec_nat (Date_now (platform L)))
             signature addr)))"
| "verifier_verdict c L Elrond_testSignTransaction cid addr res =
     Some (and_then (Address_new (elrond L) addr) (\<lambda>userAddress.
           and_then (UserVerifier_fromAddress (elrond L) userAddress) (\<lambda>verifier.
           and_then
             (elrond_transaction (elrond L) userAddress addr 1 ''10000000000000000000''
                (nth_opt (split_colon cid) 1)
                [(''data'', TransactionPayload_new (elrond L) ''testdata'')]) (\<lambda>testTransaction.
           and_then (get_prop res ''signature'') (\<lambda>sig.
           and_then (Signature_new (elrond L) sig) (\<lambda>signature.
           and_then (applySignature (elrond L) testTransaction signature userAddress) (\<lambda>signed.
           verify (elrond L) verifier signed)))))))"
| "verifier_verdict c L Elrond_testSignTransactions cid addr res =
     Some (and_then (Address_new (elrond L) addr) (\<lambda>userAddress.
           and_then (UserVerifier_fromAddress (elrond L) userAddress) (\<lambda>verifier.
           and_then
             (elrond_transaction (elrond L) userAddress addr 1 ''10000000000000000000''
                (nth_opt (split_colon cid) 1)
                [(''data'', TransactionPayload_new (elrond L) ''testdata'')]) (\<lambda>testTransaction.
           and_then
             (elrond_transaction (elrond L) userAddress addr 2 ''20000000000000000000''
                (nth_opt (split_colon cid) 1) []) (\<lambda>testTransaction2.
           and_then
             (elrond_transaction (elrond L) userAddress addr 3 ''300000000000000000''
                (nth_opt (split_colon cid) 1)
                [(''data'', TransactionPayload_new (elrond L) ''third'')]) (\<lambda>testTransaction3.
           verify_each (elrond L) verifier userAddress res True 0
             [testTransaction, testTransaction2, testTransaction3]))))))"
| "verifier_verdict c L Elrond_testSignMessage cid addr res =
     Some (and_then (Address_new (elrond L) addr) (\<lambda>userAddress.
           and_then (UserVerifier_fromAddress (elrond L) userAddress) (\<lambda>verifier.
           and_then
             (SignableMessage_new (elrond L)
                (JObj [(''address'', userAddress),
                       (''message'',
                          JStr (''Sign this message - '' @ dec_nat (Date_now (platform L))))]))
             (\<lambda>testMessage.
           and_then (get_prop res ''signature'') (\<lambda>sig.
           and_then (Signature_new (elrond L) sig) (\<lambda>signature.
           and_then (applySignature (elrond L) testMessage signature JUndefined) (\<lambda>signed.
           verify (elrond L) verifier signed)))))))"
| "verifier_verdict c L op cid addr res = None"

section \<open>A concrete environment\<close>

text \<open>
  One wallet, one context and one set of libraries on which the model can be evaluated.
  The wallet answers every request with the same object; the Elrond verifier rejects
  the signature \<open>bad\<close>, which the wallet returns for the second transaction of a batch.
\<close>

definition sample_answer :: js where
  "sample_answer =
     JObj [(''signature'', JStr ''sig''),
           (''signatures'',
              JArr [JObj [(''signature'', JStr ''good'')],
                    JObj [(''signature'', JStr ''bad'')],
                    JObj [(''signature'', JStr ''good'')]]),
           (''transaction'', JStr ''tx'')]"

definition sample_client :: client_handle where
  "sample_client = \<lparr>request = (\<lambda>q. Inr sample_answer), ping = (\<lambda>t. None)\<rparr>"

definition sample_context :: wc_context where
  "sample_context =
     \<lparr>client = Some sample_client,
      session = Some \<lparr>session_topic = ''topic''\<rparr>,
      accounts = [''eip155:1:0xabc''],
      balances = [''eip155:1:0xabc'' \<mapsto> [JObj [(''balance'', JStr ''0'')]]],
      solanaPublicKeys = Some (\<lambda>a. Some (JStr ''key'')),
      chainData = [''eip155'' \<mapsto> [''1'' \<mapsto> JObj [(''name'', JStr ''Ethereum'')]]],
      isTestnet = True\<rparr>"

definition sample_platform :: platform_lib where
  "sample_platform =
     \<lparr>Date_now = 0, Math_random_floor = (\<lambda>n. 0), JSON_stringify = (\<lambda>v. JStr ''{}''),
      toLowerCase = (\<lambda>x. x), utf8ToHex = (\<lambda>x. x)\<rparr>"

definition sample_evm :: evm_lib where
  "sample_evm =
     \<lparr>formatTestTransaction =
        (\<lambda>account. Inr (JObj [(''gasPrice'', JNum 2), (''gasLimit'', JNum 21000)])),
      BigNumber_from =
        (\<lambda>v. case v of
                JNum i \<Rightarrow> Inr i
              | JStr x \<Rightarrow> if x = ''0'' then Inr 0 else Inl (new_Error (JStr ''invalid BigNumber string''))
              | _ \<Rightarrow> Inl (new_Error (JStr ''invalid BigNumber value''))),
      fromSerializedTx_verifySignature = (\<lambda>tx. Inr True),
      verifyMessage = (\<lambda>message signature. Inr ''0xabc''),
      verifyTypedData = (\<lambda>domain types message signature. Inr ''0xabc''),
      eip712_example =
        JObj [(''types'', JObj [(''EIP712Domain'', JArr [])]), (''domain'', JObj []),
              (''message'', JObj [])]\<rparr>"

definition sample_cosmos :: cosmos_lib where
  "sample_cosmos =
     \<lparr>formatDirectSignDoc = (\<lambda>fee pubkey gasLimit accountNumber sequence bodyBytes reference. Inr (JObj [])),
      stringifySignDocValues = (\<lambda>signDoc. Inr (JObj [])),
      verifyDirectSignature = (\<lambda>a signature signDoc. Inr True),
      verifyAminoSignature = (\<lambda>a signature signDoc. Inr True)\<rparr>"

definition sample_solana :: solana_lib where
  "sample_solana =
     \<lparr>getRecentBlockhash = (\<lambda>cluster. Inr (JObj [(''blockhash'', JStr ''hash'')])),
      transfer_transaction = (\<lambda>key blockhash. Inr (JObj [(''recentBlockhash'', blockhash)])),
      transaction_params = (\<lambda>transaction. Inr transaction),
      bs58_decode = (\<lambda>v. Inr v),
      addSignature = (\<lambda>transaction key signature. Inr transaction),
      verifySignatures = (\<lambda>transaction. Inr True),
      PublicKey_toBase58 = (\<lambda>key. Inr key),
      bs58_encode_utf8 = (\<lambda>x. x),
      verifyMessageSignature = (\<lambda>key signature message. Inr True)\<rparr>"

definition sample_polkadot :: polkadot_lib where
  "sample_polkadot =
     \<lparr>cryptoWaitReady = Inr True,
      signatureVerify = (\<lambda>message signature a. Inr (signature = JStr ''sig''))\<rparr>"

definition sample_elrond :: elrond_lib where
  "sample_elrond =
     \<lparr>Address_new = (\<lambda>a. Inr (JStr a)),
      Address_fromBech32 = (\<lambda>a. Inr (JStr a)),
      UserVerifier_fromAddress = (\<lambda>a. Inr a),
      TransactionPayload_new = JStr,
      Transaction_new = (\<lambda>options. Inr options),
      toPlainObject = (\<lambda>transaction. Inr transaction),
      SignableMessage_new = (\<lambda>options. Inr options),
      Signature_new = (\<lambda>v. Inr v),
      applySignature = (\<lambda>object signature signer. Inr signature),
      verify = (\<lambda>verifier signed. Inr (signed \<noteq> JStr ''bad''))\<rparr>"

definition sample_libraries :: libraries where
  "sample_libraries =
     \<lparr>platform = sample_platform, evm = sample_evm, cosmos = sample_cosmos,
      solana = sample_solana, polkadot = sample_polkadot, elrond = sample_elrond\<rparr>"

text \<open>Libraries none of whose verifiers accepts anything.\<close>

definition rejecting_libraries :: libraries where
  "rejecting_libraries =
     sample_libraries
       \<lparr>evm := (sample_evm
                 \<lparr>fromSerializedTx_verifySignature := (\<lambda>tx. Inr False),
                  verifyMessage := (\<lambda>message signature. Inr ''0x0''),
                  verifyTypedData := (\<lambda>domain types message signature. Inr ''0x0'')\<rparr>),
        cosmos := (sample_cosmos
                    \<lparr>verifyDirectSignature := (\<lambda>a signature signDoc. Inr False),
                     verifyAminoSignature := (\<lambda>a signature signDoc. Inr False)\<rparr>),
        solana := (sample_solana
                    \<lparr>verifySignatures := (\<lambda>transaction. Inr False),
                     verifyMessageSignature := (\<lambda>key signature message. Inr False)\<rparr>),
        polkadot := (sample_polkadot
                      \<lparr>signatureVerify := (\<lambda>message signature a. Inr False)\<rparr>),
        elrond := (sample_elrond \<lparr>verify := (\<lambda>verifier signed. Inr False)\<rparr>)\<rparr>"

section \<open>The wrapper, step by step\<close>

lemma handler_rejects:
  assumes "client c = None \<or> session c = None"
  shows "createJsonRpcRequestHandler c rpcRequest cid addr s =
     (Rejected (new_Error (JStr (if client c = None then ''WalletConnect is not initialized''
                                  else ''Session is not connected''))), s)"
  using assms by (auto simp: createJsonRpcRequestHandler_def)

lemma handler_runs:
  assumes "client c \<noteq> None" "session c \<noteq> None"
    and "rpcRequest cid addr (trace s @ [SetPending True]) = (r, tr)"
  shows "createJsonRpcRequestHandler c rpcRequest cid addr s =
     (Fulfilled,
      (case r of
         Inr res \<Rightarrow>
           \<lparr>pending = False, rpcResult = Stored res,
            trace = tr @ [SetResult (Stored res), SetPending False]\<rparr>
       | Inl err \<Rightarrow>
           \<lparr>pending = False,
            rpcResult = Stored \<lparr>method_name = None, address = Some addr, valid = False,
                                 result = message_or_self err\<rparr>,
            trace = tr @ [ConsoleError err,
                          SetResult (Stored \<lparr>method_name = None, address = Some addr, valid = False,
                                               result = message_or_self err\<rparr>),
                          SetPending False]\<rparr>))"
  using assms
  by (cases r)
    (simp_all add: createJsonRpcRequestHandler_def setPending_def setResult_def console_error_def)

section \<open>Routines only send requests\<close>

lemma sends_only_return: "sends_only (return x)"
  by (simp add: sends_only_def return_def)

lemma sends_only_throw: "sends_only (throw e)"
  by (simp add: sends_only_def throw_def)

lemma sends_only_lift: "sends_only (lift r)"
  by (simp add: sends_only_def lift_def)

lemma sends_only_client_request: "sends_only (client_request c cid m ps)"
  by (auto simp: sends_only_def client_request_def lift_def Let_def split: option.splits)

lemma sends_only_await_then:
  assumes "sends_only m" and "\<And>x. sends_only (f x)"
  shows "sends_only (await_then m f)"
  unfolding sends_only_def
proof
  fix tr
  from assms(1) obtain ys where ys: "snd (m tr) = tr @ ys" "\<forall>e \<in> set ys. \<exists>q. e = Sent q"
    unfolding sends_only_def by blast
  show "\<exists>zs. snd (await_then m f tr) = tr @ zs \<and> (\<forall>e \<in> set zs. \<exists>q. e = Sent q)"
  proof (cases "fst (m tr)")
    case (Inl e)
    then have "await_then m f tr = (Inl e, tr @ ys)"
      using ys(1) by (cases "m tr") (simp add: await_then_def)
    then show ?thesis using ys(2) by auto
  next
    case (Inr x)
    then have eq: "await_then m f tr = f x (tr @ ys)"
      using ys(1) by (cases "m tr") (simp add: await_then_def)
    from assms(2) [of x] obtain zs where
      zs: "snd (f x (tr @ ys)) = (tr @ ys) @ zs" "\<forall>e \<in> set zs. \<exists>q. e = Sent q"
      unfolding sends_only_def by blast
    have "snd (await_then m f tr) = tr @ (ys @ zs)" using eq zs(1) by simp
    moreover have "\<forall>e \<in> set (ys @ zs). \<exists>q. e = Sent q" using ys(2) zs(2) by auto
    ultimately show ?thesis by blast
  qed
qed

lemma sends_only_try_catch:
  assumes "sends_only m" and "\<And>e. sends_only (h e)"
  shows "sends_only (try_catch m h)"
  unfolding sends_only_def
proof
  fix tr
  from assms(1) obtain ys where ys: "snd (m tr) = tr @ ys" "\<forall>e \<in> set ys. \<exists>q. e = Sent q"
    unfolding sends_only_def by blast
  show "\<exists>zs. snd (try_catch m h tr) = tr @ zs \<and> (\<forall>e \<in> set zs. \<exists>q. e = Sent q)"
  proof (cases "fst (m tr)")
    case (Inr x)
    then have "try_catch m h tr = (Inr x, tr @ ys)"
      using ys(1) by (cases "m tr") (simp add: try_catch_def)
    then show ?thesis using ys(2) by auto
  next
    case (Inl e)
    then have eq: "try_catch m h tr = h e (tr @ ys)"
      using ys(1) by (cases "m tr") (simp add: try_catch_def)
    from assms(2) [of e] obtain zs where
      zs: "snd (h e (tr @ ys)) = (tr @ ys) @ zs" "\<forall>e \<in> set zs. \<exists>q. e = Sent q"
      unfolding sends_only_def by blast
    have "snd (try_catch m h tr) = tr @ (ys @ zs)" using eq zs(1) by simp
    moreover have "\<forall>e \<in> set (ys @ zs). \<exists>q. e = Sent q" using ys(2) zs(2) by auto
    ultimately show ?thesis by blast
  qed
qed

lemmas sends_only_intros =
  sends_only_return sends_only_throw sends_only_lift sends_only_client_request
  sends_only_await_then sends_only_try_catch

lemma sends_only_find_account: "sends_only (find_account c a)"
  by (simp add: find_account_def sends_only_intros split: option.splits)

lemma sends_only_require_chain_data: "sends_only (require_chain_data c cid)"
  by (simp add: require_chain_data_def Let_def sends_only_intros)

lemma sends_only_chia_request: "sends_only (chia_request c P cid addr m ps)"
  by (simp add: chia_request_def sends_only_intros)

lemmas sends_only_all = sends_only_intros sends_only_find_account sends_only_require_chain_data
  sends_only_chia_request

lemma sends_only_eth: 
  "sends_only (eth_testSendTransaction c E cid addr)"
  "sends_only (eth_testSignTransaction c E cid addr)"
  "sends_only (eth_testSignPersonalMessage c P E cid addr)"
  "sends_only (eth_testEthSign c P E cid addr)"
  "sends_only (eth_testSignTypedData c P E cid addr)"
  by (simp_all add: eth_testSendTransaction_def eth_testSignTransaction_def
     eth_testSignPersonalMessage_def eth_testEthSign_def eth_testSignTypedData_def Let_def sends_only_all)

lemma sends_only_cosmos:
  "sends_only (cosmos_testSignDirect c C cid addr)"
  "sends_only (cosmos_testSignAmino c C cid addr)"
  by (simp_all add: cosmos_testSignDirect_def cosmos_testSignAmino_def Let_def sends_only_all)

lemma sends_only_solana:
  "sends_only (solana_testSignTransaction c S cid addr)"
  "sends_only (solana_testSignMessage c P S cid addr)"
  by (simp_all add: solana_testSignTransaction_def solana_testSignMessage_def Let_def sends_only_all split: option.splits)

lemma sends_only_polkadot:
  "sends_only (polkadot_testSignTransaction c K cid addr)"
  "sends_only (polkadot_testSignMessage c P K cid addr)"
  by (simp_all add: polkadot_testSignTransaction_def polkadot_testSignMessage_def Let_def sends_only_all)

lemma sends_only_near:
  "sends_only (near_testSignAndSendTransaction c P cid addr)"
  "sends_only (near_testSignAndSendTransactions c P cid addr)"
  by (simp_all add: near_testSignAndSendTransaction_def near_testSignAndSendTransactions_def Let_def sends_only_all)

lemma sends_only_elrond:
  "sends_only (elrond_testSignTransaction c L cid addr)"
  "sends_only (elrond_testSignTransactions c L cid addr)"
  "sends_only (elrond_testSignMessage c P L cid addr)"
  by (simp_all add: elrond_testSignTransaction_def elrond_testSignTransactions_def elrond_testSignMessage_def Let_def sends_only_all)

lemma sends_only_chia:
  "sends_only (chia_testGetWallets c P cid addr)"
  "sends_only (chia_testGetCATWalletInfo c P cid addr)"
  "sends_only (chia_testSendTransaction c P cid addr)"
  "sends_only (chia_testSpendCAT c P cid addr)"
  "sends_only (chia_testNewAddress c P cid addr)"
  "sends_only (chia_testLogIn c P cid addr)"
  "sends_only (chia_testSignMessageByAddress c P cid addr)"
  "sends_only (chia_testSignMessageById c P cid addr)"
  "sends_only (chia_testGetWalletSyncStatus c P cid addr)"
  "sends_only (chia_testGetNFTInfo c P cid addr)"
  "sends_only (chia_testGetNFTs c P cid addr)"
  "sends_only (chia_testTakeOffer c P cid addr)"
  "sends_only (chia_testCreateOfferForIds c P cid addr)"
  "sends_only (chia_testUnknownTestCommand c P cid addr)"
  "sends_only (chia_testShowOfferDataNotification c P cid addr)"
  "sends_only (chia_testShowAnnouncementNotification c P cid addr)"
  by (simp_all add: chia_testGetWallets_def chia_testGetCATWalletInfo_def
    chia_testSendTransaction_def chia_testSpendCAT_def chia_testNewAddress_def chia_testLogIn_def
    chia_testSignMessageByAddress_def chia_testSignMessageById_def chia_testGetWalletSyncStatus_def
    chia_testGetNFTInfo_def chia_testGetNFTs_def chia_testTakeOffer_def chia_testCreateOfferForIds_def
    chia_testUnknownTestCommand_def chia_testShowOfferDataNotification_def
    chia_testShowAnnouncementNotification_def sends_only_chia_request)

lemma sends_only_rpc_routine: "sends_only (rpc_routine c L op cid addr)"
  by (cases op) (simp_all add: sends_only_eth sends_only_cosmos sends_only_solana
      sends_only_polkadot sends_only_near sends_only_elrond sends_only_chia)

section \<open>The pending flag between invocations\<close>

lemma perform_pending: "\<not> pending s \<Longrightarrow> \<not> pending (snd (perform c L k s))"
proof (cases k)
  case (Invoke op cid addr)
  assume np: "\<not> pending s"
  show ?thesis
  proof (cases "client c = None \<or> session c = None")
    case True
    then show ?thesis using np Invoke by (simp add: invoke_def handler_rejects)
  next
    case False
    obtain r tr where "rpc_routine c L op cid addr (trace s @ [SetPending True]) = (r, tr)"
      by (cases "rpc_routine c L op cid addr (trace s @ [SetPending True])")
    with False show ?thesis using Invoke
      by (cases r) (simp_all add: invoke_def handler_runs)
  qed
next
  case Probe
  assume "\<not> pending s"
  then show ?thesis using Probe
    by (simp add: ping_probe_def setPending_def setResult_def Let_def split: option.splits)
qed

lemma run_pending: "\<not> pending s \<Longrightarrow> \<not> pending (run history s)"
proof (induction history arbitrary: s)
  case Nil
  then show ?case by simp
next
  case (Cons x xs)
  obtain c L k where "x = (c, L, k)" by (cases x)
  then show ?case using Cons by (simp add: perform_pending)
qed

section \<open>Properties of the dispatch wrapper\<close>



text \<open>
  Claim C2. Invoked while the client or the session is undefined, the wrapped operation
  fails with \<^verbatim>\<open>WalletConnect is not initialized\<close> or \<^verbatim>\<open>Session is not connected\<close> before
  anything else happens: the state is left as it was, so no event is recorded, the
  stored record is unchanged, and the pending flag, false after any history of
  invocations, is still false. (A throw inside the \<^verbatim>\<open>async\<close> body is the rejection of the
  returned promise.)
\<close>

theorem wrapper_fails_fast:
  assumes "client c = None \<or> session c = None"
  shows "fst (createJsonRpcRequestHandler c rpcRequest cid addr (run history initial_state)) =
           Rejected (new_Error (JStr (if client c = None then ''WalletConnect is not initialized''
                                      else ''Session is not connected'')))
         \<and> snd (createJsonRpcRequestHandler c rpcRequest cid addr (run history initial_state)) =
             run history initial_state
         \<and> pending (snd (createJsonRpcRequestHandler c rpcRequest cid addr
                            (run history initial_state))) = False"
proof -
  have "\<not> pending (run history initial_state)"
    by (rule run_pending) (simp add: initial_state_def)
  then show ?thesis using assms by (simp add: handler_rejects)
qed

theorem wrapper_fails_fast_witness:
  "session (sample_context\<lparr>session := None\<rparr>) = None
   \<and> invoke (sample_context\<lparr>session := None\<rparr>) sample_libraries Chia_testLogIn ''chia:testnet'' ''1''
       (run [(sample_context, sample_libraries, Probe)] initial_state) =
     (Rejected (JErr ''Error'' ''Session is not connected''),
      \<lparr>pending = False,
       rpcResult = Stored \<lparr>method_name = Some ''ping'', address = None, valid = True,
                            result = JStr ''Ping succeeded''\<rparr>,
       trace = [SetPending True, Pinged ''topic'',
                SetResult (Stored \<lparr>method_name = Some ''ping'', address = None, valid = True,
                                     result = JStr ''Ping succeeded''\<rparr>),
                SetPending False]\<rparr>)"
proof -
  have h: "client (sample_context\<lparr>session := None\<rparr>) = None
           \<or> session (sample_context\<lparr>session := None\<rparr>) = None"
    by simp
  have r: "snd (ping_probe sample_context initial_state) =
      \<lparr>pending = False,
       rpcResult = Stored \<lparr>method_name = Some ''ping'', address = None, valid = True,
                            result = JStr ''Ping succeeded''\<rparr>,
       trace = [SetPending True, Pinged ''topic'',
                SetResult (Stored \<lparr>method_name = Some ''ping'', address = None, valid = True,
                                     result = JStr ''Ping succeeded''\<rparr>),
                SetPending False]\<rparr>"
    by (simp add: ping_probe_def sample_context_def sample_client_def initial_state_def
        setPending_def setResult_def Let_def)
  have c: "client (sample_context\<lparr>session := None\<rparr>) \<noteq> None"
    by (simp add: sample_context_def)
  show ?thesis
    using wrapper_fails_fast [OF h, of "rpc_routine (sample_context\<lparr>session := None\<rparr>) sample_libraries Chia_testLogIn"
        "''chia:testnet''" "''1''" "[(sample_context, sample_libraries, Probe)]"] c
    by (simp add: invoke_def r new_Error_def prod_eq_iff)
qed

text \<open>
  Claim C3. With client and session defined, every table entry first sets pending to
  true and last sets it to false, whether its routine returned or threw; nothing in
  between touches the flag, and the flag is false at the end.
\<close>

theorem pending_set_then_cleared:
  assumes "client c \<noteq> None" and "session c \<noteq> None"
  shows "\<exists>mid. trace (snd (invoke c L op cid addr s)) =
                 trace s @ [SetPending True] @ mid @ [SetPending False]
               \<and> (\<forall>b. SetPending b \<notin> set mid)
               \<and> pending (snd (invoke c L op cid addr s)) = False"
proof -
  obtain r tr where run: "rpc_routine c L op cid addr (trace s @ [SetPending True]) = (r, tr)"
    by (cases "rpc_routine c L op cid addr (trace s @ [SetPending True])")
  have "sends_only (rpc_routine c L op cid addr)" by (rule sends_only_rpc_routine)
  then obtain ys where ys: "tr = (trace s @ [SetPending True]) @ ys" "\<forall>e \<in> set ys. \<exists>q. e = Sent q"
    unfolding sends_only_def using run by (metis snd_conv)
  have no: "\<forall>b. SetPending b \<notin> set ys" using ys(2) by auto
  show ?thesis
  proof (cases r)
    case (Inl err)
    let ?rec = "Stored \<lparr>method_name = None, address = Some addr, valid = False,
                         result = message_or_self err\<rparr>"
    have "trace (snd (invoke c L op cid addr s)) =
            trace s @ [SetPending True] @ (ys @ [ConsoleError err, SetResult ?rec]) @ [SetPending False]"
      using assms run Inl ys(1) by (simp add: invoke_def handler_runs)
    moreover have "\<forall>b. SetPending b \<notin> set (ys @ [ConsoleError err, SetResult ?rec])"
      using no by simp
    moreover have "pending (snd (invoke c L op cid addr s)) = False"
      using assms run Inl by (simp add: invoke_def handler_runs)
    ultimately show ?thesis by blast
  next
    case (Inr res)
    have "trace (snd (invoke c L op cid addr s)) =
            trace s @ [SetPending True] @ (ys @ [SetResult (Stored res)]) @ [SetPending False]"
      using assms run Inr ys(1) by (simp add: invoke_def handler_runs)
    moreover have "\<forall>b. SetPending b \<notin> set (ys @ [SetResult (Stored res)])"
      using no by simp
    moreover have "pending (snd (invoke c L op cid addr s)) = False"
      using assms run Inr by (simp add: invoke_def handler_runs)
    ultimately show ?thesis by blast
  qed
qed

theorem pending_set_then_cleared_witness:
  "client sample_context \<noteq> None \<and> session sample_context \<noteq> None
   \<and> (\<exists>mid. trace (snd (invoke sample_context sample_libraries Chia_testLogIn
                            ''chia:testnet'' ''1'' initial_state)) =
               trace initial_state @ [SetPending True] @ mid @ [SetPending False]
             \<and> (\<forall>b. SetPending b \<notin> set mid)
             \<and> pending (snd (invoke sample_context sample_libraries Chia_testLogIn
                               ''chia:testnet'' ''1'' initial_state)) = False)"
proof -
  have c: "client sample_context \<noteq> None" "session sample_context \<noteq> None"
    by (simp_all add: sample_context_def)
  show ?thesis
    using c pending_set_then_cleared [OF c, of sample_libraries Chia_testLogIn
        "''chia:testnet''" "''1''" initial_state]
    by blast
qed

text \<open>
  Claim C10. With client and session defined, the callable built by the wrapper never
  rejects: it is fulfilled and leaves a stored record, and when the inner routine threw,
  that record has \<open>valid\<close> false and carries the error.
\<close>

theorem wrapper_never_rejects:
  assumes "client c \<noteq> None" and "session c \<noteq> None"
  shows "fst (createJsonRpcRequestHandler c rpcRequest cid addr s) = Fulfilled
         \<and> (\<exists>r. rpcResult (snd (createJsonRpcRequestHandler c rpcRequest cid addr s)) = Stored r)
         \<and> (\<forall>err tr. rpcRequest cid addr (trace s @ [SetPending True]) = (Inl err, tr) \<longrightarrow>
               (\<exists>r. rpcResult (snd (createJsonRpcRequestHandler c rpcRequest cid addr s)) = Stored r
                    \<and> \<not> valid r \<and> result r = message_or_self err))"
proof -
  obtain r tr where run: "rpcRequest cid addr (trace s @ [SetPending True]) = (r, tr)"
    by (cases "rpcRequest cid addr (trace s @ [SetPending True])")
  show ?thesis using assms run by (cases r) (simp_all add: handler_runs)
qed

theorem wrapper_never_rejects_witness:
  "client sample_context \<noteq> None \<and> session sample_context \<noteq> None
   \<and> fst (rpc_routine sample_context sample_libraries Cosmos_testSignAmino
             ''cosmos:cosmoshub-4'' ''cosmos1'' (trace initial_state @ [SetPending True])) =
       Inl (JErr ''TypeError''
              (''Cannot read properties of undefined (reading '' @ [CHR 0x27] @ ''cosmoshub-4''
                 @ [CHR 0x27] @ '')''))
   \<and> fst (invoke sample_context sample_libraries Cosmos_testSignAmino
             ''cosmos:cosmoshub-4'' ''cosmos1'' initial_state) = Fulfilled
   \<and> (\<exists>r. rpcResult (snd (invoke sample_context sample_libraries Cosmos_testSignAmino
                             ''cosmos:cosmoshub-4'' ''cosmos1'' initial_state)) = Stored r
           \<and> \<not> valid r
           \<and> result r =
               JStr (''Cannot read properties of undefined (reading '' @ [CHR 0x27]
                       @ ''cosmoshub-4'' @ [CHR 0x27] @ '')''))"
proof -
  have c: "client sample_context \<noteq> None" "session sample_context \<noteq> None"
    by (simp_all add: sample_context_def)
  have r: "rpc_routine sample_context sample_libraries Cosmos_testSignAmino
             ''cosmos:cosmoshub-4'' ''cosmos1'' (trace initial_state @ [SetPending True]) =
           (Inl (JErr ''TypeError''
                   (''Cannot read properties of undefined (reading '' @ [CHR 0x27]
                      @ ''cosmoshub-4'' @ [CHR 0x27] @ '')'')),
            [SetPending True,
             Sent \<lparr>topic = ''topic'', chainId = ''cosmos:cosmoshub-4'',
                   request_method = Some ''cosmos_signAmino'',
                   request_params =
                     JObj [(''signerAddress'', JStr ''cosmos1''),
                           (''signDoc'',
                              JObj [(''msgs'', JArr []),
                                    (''fee'', JObj [(''amount'', JArr []), (''gas'', JStr ''23'')]),
                                    (''chain_id'', JStr ''foochain''),
                                    (''memo'', JStr ''hello, world''),
                                    (''account_number'', JStr ''7''),
                                    (''sequence'', JStr ''54'')])]\<rparr>])"
    by (simp add: cosmos_testSignAmino_def client_request_def sample_context_def
        sample_client_def await_then_def require_chain_data_def chainData_lookup_def
        get_prop_def TypeError_def lift_def nth_opt_def opt_string_def enum_member_def
        DEFAULT_COSMOS_METHODS_def initial_state_def Let_def)
  have m: "message_or_self
             (JErr ''TypeError''
                (''Cannot read properties of undefined (reading '' @ [CHR 0x27]
                   @ ''cosmoshub-4'' @ [CHR 0x27] @ '')'')) =
           JStr (''Cannot read properties of undefined (reading '' @ [CHR 0x27]
                   @ ''cosmoshub-4'' @ [CHR 0x27] @ '')'')"
    by (simp add: message_or_self_def optional_prop_def nullish_def)
  show ?thesis
    using c r m wrapper_never_rejects [OF c,
        of "rpc_routine sample_context sample_libraries Cosmos_testSignAmino"
        "''cosmos:cosmoshub-4''" "''cosmos1''" initial_state]
    by (simp add: invoke_def)
qed

section \<open>Evaluating routines\<close>

lemma split_colon_nonempty: "split_colon s \<noteq> []"
  by (induction s) (auto split: list.splits)

lemma split_colon_example: "split_colon ''eip155:1'' = [''eip155'', ''1'']"
  by simp

lemma find_eq_member: "x \<in> set xs \<Longrightarrow> find (\<lambda>a. a = x) xs = Some x"
  by (induction xs) auto

lemma find_eq_absent: "x \<notin> set xs \<Longrightarrow> find (\<lambda>a. a = x) xs = None"
  by (induction xs) auto

lemma await_then_return: "await_then (return x) f = f x"
  by (simp add: await_then_def return_def)

lemma await_then_throw: "await_then (throw e) f = throw e"
  by (simp add: await_then_def throw_def)

lemma await_then_lift_Inr: "await_then (lift (Inr x)) f = f x"
  by (simp add: await_then_def lift_def)

lemma await_then_lift_Inl: "await_then (lift (Inl e)) f = throw e"
  by (simp add: await_then_def lift_def throw_def)

lemmas await_simps = await_then_return await_then_throw await_then_lift_Inr await_then_lift_Inl

lemma await_then_apply: "m tr = (Inr x, tr') \<Longrightarrow> await_then m f tr = f x tr'"
  by (simp add: await_then_def)

lemma await_then_fails: "m tr = (Inl e, tr') \<Longrightarrow> await_then m f tr = (Inl e, tr')"
  by (simp add: await_then_def)

lemma try_catch_returns: "m tr = (Inr x, tr') \<Longrightarrow> try_catch m h tr = (Inr x, tr')"
  by (simp add: try_catch_def)

lemma try_catch_catches: "m tr = (Inl e, tr') \<Longrightarrow> try_catch m h tr = h e tr'"
  by (simp add: try_catch_def)

lemma client_request_sends:
  assumes "client c = Some cl" and "session c = Some se"
  shows "client_request c cid m ps tr =
           (request cl \<lparr>topic = session_topic se, chainId = cid, request_method = m,
                         request_params = ps\<rparr>,
            tr @ [Sent \<lparr>topic = session_topic se, chainId = cid, request_method = m,
                         request_params = ps\<rparr>])"
  using assms by (simp add: client_request_def Let_def)

lemma and_then_Inr: "and_then r f = Inr y \<longleftrightarrow> (\<exists>x. r = Inr x \<and> f x = Inr y)"
  by (cases r) (simp_all add: and_then_def)

lemma verify_each_step:
  assumes "signature_verdict L vf ua res k t = Inr b"
  shows "verify_each L vf ua res acc k (t # ts) =
           verify_each L vf ua res (acc \<and> b) (Suc k) ts"
proof -
  from assms obtain sigs entry sig signature signed where
    "get_prop res ''signatures'' = Inr sigs" "index_js sigs k = Inr entry"
    "get_prop entry ''signature'' = Inr sig" "Signature_new L sig = Inr signature"
    "applySignature L t signature ua = Inr signed" "verify L vf signed = Inr b"
    unfolding signature_verdict_def and_then_Inr by blast
  then show ?thesis by simp
qed

lemma verify_each_three:
  assumes "signature_verdict L vf ua res 0 t1 = Inr b1"
    and "signature_verdict L vf ua res 1 t2 = Inr b2"
    and "signature_verdict L vf ua res 2 t3 = Inr b3"
  shows "verify_each L vf ua res True 0 [t1, t2, t3] = Inr (b1 \<and> b2 \<and> b3)"
proof -
  have s2: "signature_verdict L vf ua res (Suc 0) t2 = Inr b2"
    using assms(2) by simp
  have s3: "signature_verdict L vf ua res (Suc (Suc 0)) t3 = Inr b3"
    using assms(3) by (simp add: numeral_2_eq_2)
  have "verify_each L vf ua res True 0 [t1, t2, t3] = verify_each L vf ua res b1 (Suc 0) [t2, t3]"
    using verify_each_step [OF assms(1), of True "[t2, t3]"] by simp
  also have "\<dots> = verify_each L vf ua res (b1 \<and> b2) (Suc (Suc 0)) [t3]"
    by (rule verify_each_step [OF s2])
  also have "\<dots> = verify_each L vf ua res ((b1 \<and> b2) \<and> b3) (Suc (Suc (Suc 0))) []"
    by (rule verify_each_step [OF s3])
  finally show ?thesis by simp
qed

section \<open>Properties of single operations\<close>

text \<open>
  Claim C4. In the Ethereum \<^verbatim>\<open>testSendTransaction\<close>, when the account is known, the test
  transaction has been formatted and the account's first balance is strictly less than
  gas price times gas limit, the routine returns (it does not throw) the record with
  \<open>valid\<close> false and the text \<^verbatim>\<open>Insufficient funds for intrinsic transaction cost\<close>, and
  the trace is unchanged: no request goes over the session transport.
\<close>

theorem insufficient_funds_short_circuit:
  assumes "cid @ '':'' @ addr \<in> set (accounts c)"
    and "formatTestTransaction E (cid @ '':'' @ addr) = Inr tx"
    and "first_balance c (cid @ '':'' @ addr) = Inr b"
    and "BigNumber_from E (or_else b (JStr ''0'')) = Inr balance"
    and "get_prop tx ''gasPrice'' = Inr gp" and "BigNumber_from E gp = Inr gasPrice"
    and "get_prop tx ''gasLimit'' = Inr gl" and "BigNumber_from E gl = Inr gasLimit"
    and "balance < gasPrice * gasLimit"
  shows "eth_testSendTransaction c E cid addr tr =
           (Inr \<lparr>method_name = Some ''eth_sendTransaction'', address = Some addr, valid = False,
                  result = JStr ''Insufficient funds for intrinsic transaction cost''\<rparr>, tr)"
proof -
  define account where "account = cid @ '':'' @ addr"
  have "find (\<lambda>a. a = account) (accounts c) = Some account"
    using assms(1) unfolding account_def by (rule find_eq_member)
  then have f: "find_account c account = return account"
    by (simp add: find_account_def)
  have "eth_testSendTransaction c E cid addr =
          return \<lparr>method_name = enum_member DEFAULT_EIP155_METHODS ''ETH_SEND_TRANSACTION'',
                   address = Some addr, valid = False,
                   result = JStr ''Insufficient funds for intrinsic transaction cost''\<rparr>"
    unfolding eth_testSendTransaction_def account_def [symmetric]
    using assms(2-) unfolding account_def [symmetric]
    by (simp add: f await_simps)
  then show ?thesis
    by (simp add: return_def enum_member_def DEFAULT_EIP155_METHODS_def)
qed

theorem insufficient_funds_short_circuit_witness:
  "''eip155:1'' @ '':'' @ ''0xabc'' \<in> set (accounts sample_context)
   \<and> first_balance sample_context (''eip155:1'' @ '':'' @ ''0xabc'') = Inr (JStr ''0'')
   \<and> BigNumber_from sample_evm (or_else (JStr ''0'') (JStr ''0'')) = Inr 0
   \<and> (0::int) < 2 * 21000
   \<and> eth_testSendTransaction sample_context sample_evm ''eip155:1'' ''0xabc'' [SetPending True] =
       (Inr \<lparr>method_name = Some ''eth_sendTransaction'', address = Some ''0xabc'', valid = False,
              result = JStr ''Insufficient funds for intrinsic transaction cost''\<rparr>,
        [SetPending True])"
proof -
  have h: "''eip155:1'' @ '':'' @ ''0xabc'' \<in> set (accounts sample_context)"
    "formatTestTransaction sample_evm (''eip155:1'' @ '':'' @ ''0xabc'') =
       Inr (JObj [(''gasPrice'', JNum 2), (''gasLimit'', JNum 21000)])"
    "first_balance sample_context (''eip155:1'' @ '':'' @ ''0xabc'') = Inr (JStr ''0'')"
    "BigNumber_from sample_evm (or_else (JStr ''0'') (JStr ''0'')) = Inr 0"
    "get_prop (JObj [(''gasPrice'', JNum 2), (''gasLimit'', JNum 21000)]) ''gasPrice'' = Inr (JNum 2)"
    "BigNumber_from sample_evm (JNum 2) = Inr 2"
    "get_prop (JObj [(''gasPrice'', JNum 2), (''gasLimit'', JNum 21000)]) ''gasLimit'' = Inr (JNum 21000)"
    "BigNumber_from sample_evm (JNum 21000) = Inr 21000"
    "(0::int) < 2 * 21000"
    by (simp_all add: sample_context_def sample_evm_def first_balance_def get_prop_def
        array_index_def or_else_def)
  show ?thesis
    using h(1,3,4,9) insufficient_funds_short_circuit [OF h, of "[SetPending True]"]
    by simp
qed

text \<open>
  Claim C5. In the Elrond batch signing over its three transactions, when the wallet
  answers and each transaction's signature verification yields a verdict, the returned
  record's \<open>valid\<close> is the conjunction of the three verdicts; one failing verdict makes it
  false.
\<close>

theorem elrond_batch_valid_is_conjunction:
  assumes "client c = Some cl" and "session c = Some se"
    and "Address_new L addr = Inr ua" and "UserVerifier_fromAddress L ua = Inr vf"
    and "elrond_transaction L ua addr 1 ''10000000000000000000'' (nth_opt (split_colon cid) 1)
           [(''data'', TransactionPayload_new L ''testdata'')] = Inr t1"
    and "elrond_transaction L ua addr 2 ''20000000000000000000'' (nth_opt (split_colon cid) 1)
           [] = Inr t2"
    and "elrond_transaction L ua addr 3 ''300000000000000000'' (nth_opt (split_colon cid) 1)
           [(''data'', TransactionPayload_new L ''third'')] = Inr t3"
    and "toPlainObject L t1 = Inr p1" and "toPlainObject L t2 = Inr p2"
    and "toPlainObject L t3 = Inr p3"
    and "request cl \<lparr>topic = session_topic se, chainId = cid,
                      request_method = Some ''erd_signTransactions'',
                      request_params = JObj [(''transactions'', JArr [p1, p2, p3])]\<rparr> = Inr res"
    and "signature_verdict L vf ua res 0 t1 = Inr b1"
    and "signature_verdict L vf ua res 1 t2 = Inr b2"
    and "signature_verdict L vf ua res 2 t3 = Inr b3"
    and "get_prop res ''signatures'' = Inr sigs" and "map_prop sigs ''signature'' = Inr rs"
  shows "elrond_testSignTransactions c L cid addr tr =
           (Inr \<lparr>method_name = Some ''erd_signTransactions'', address = Some addr,
                  valid = (b1 \<and> b2 \<and> b3), result = JStr (array_join rs '', '')\<rparr>,
            tr @ [Sent \<lparr>topic = session_topic se, chainId = cid,
                         request_method = Some ''erd_signTransactions'',
                         request_params = JObj [(''transactions'', JArr [p1, p2, p3])]\<rparr>])"
proof -
  let ?q = "\<lparr>topic = session_topic se, chainId = cid,
             request_method = Some ''erd_signTransactions'',
             request_params = JObj [(''transactions'', JArr [p1, p2, p3])]\<rparr>"
  let ?m = "enum_member DEFAULT_ELROND_METHODS ''ELROND_SIGN_TRANSACTIONS''"
  have m: "?m = Some ''erd_signTransactions''"
    by (simp add: enum_member_def DEFAULT_ELROND_METHODS_def)
  have sent: "client_request c cid ?m (JObj [(''transactions'', JArr [p1, p2, p3])]) tr =
                (Inr res, tr @ [Sent ?q])"
    using client_request_sends [OF assms(1,2)] assms(11) m by simp
  have v: "verify_each L vf ua res True 0 [t1, t2, t3] = Inr (b1 \<and> b2 \<and> b3)"
    using assms(12-14) by (rule verify_each_three)
  have body: "await_then
        (client_request c cid ?m (JObj [(''transactions'', JArr [p1, p2, p3])])) (\<lambda>res.
         await_then (lift (verify_each L vf ua res True 0 [t1, t2, t3])) (\<lambda>v.
         await_then (lift (get_prop res ''signatures'')) (\<lambda>sigs.
         await_then (lift (map_prop sigs ''signature'')) (\<lambda>resultSignatures.
         return \<lparr>method_name = ?m, address = Some addr, valid = v,
                  result = JStr (array_join resultSignatures '', '')\<rparr>)))) tr =
      (Inr \<lparr>method_name = Some ''erd_signTransactions'', address = Some addr,
             valid = (b1 \<and> b2 \<and> b3), result = JStr (array_join rs '', '')\<rparr>, tr @ [Sent ?q])"
    using assms(15,16) v
    using sent
    by (simp add: await_then_def lift_def return_def m del: verify_each.simps)
  show ?thesis
    unfolding elrond_testSignTransactions_def Let_def
    using assms(3-10)
    by (simp add: await_simps try_catch_def body del: verify_each.simps)
qed

theorem elrond_batch_valid_is_conjunction_witness:
  "client sample_context = Some sample_client
   \<and> session sample_context = Some \<lparr>session_topic = ''topic''\<rparr>
   \<and> signature_verdict sample_elrond (JStr ''erd1x'') (JStr ''erd1x'') sample_answer 0 JNull = Inr True
   \<and> signature_verdict sample_elrond (JStr ''erd1x'') (JStr ''erd1x'') sample_answer 1 JNull = Inr False
   \<and> signature_verdict sample_elrond (JStr ''erd1x'') (JStr ''erd1x'') sample_answer 2 JNull = Inr True
   \<and> fst (elrond_testSignTransactions sample_context sample_elrond ''elrond:D'' ''erd1x'' []) =
       Inr \<lparr>method_name = Some ''erd_signTransactions'', address = Some ''erd1x'',
             valid = False, result = JStr ''good, bad, good''\<rparr>"
proof -
  let ?ua = "JStr ''erd1x''"
  have c: "client sample_context = Some sample_client"
    "session sample_context = Some \<lparr>session_topic = ''topic''\<rparr>"
    by (simp_all add: sample_context_def)
  have a: "Address_new sample_elrond ''erd1x'' = Inr ?ua"
    "UserVerifier_fromAddress sample_elrond ?ua = Inr ?ua"
    by (simp_all add: sample_elrond_def)
  obtain t1 t2 t3 where t:
    "elrond_transaction sample_elrond ?ua ''erd1x'' 1 ''10000000000000000000''
       (nth_opt (split_colon ''elrond:D'') 1)
       [(''data'', TransactionPayload_new sample_elrond ''testdata'')] = Inr t1"
    "elrond_transaction sample_elrond ?ua ''erd1x'' 2 ''20000000000000000000''
       (nth_opt (split_colon ''elrond:D'') 1) [] = Inr t2"
    "elrond_transaction sample_elrond ?ua ''erd1x'' 3 ''300000000000000000''
       (nth_opt (split_colon ''elrond:D'') 1)
       [(''data'', TransactionPayload_new sample_elrond ''third'')] = Inr t3"
    by (simp add: elrond_transaction_def sample_elrond_def)
  have p: "toPlainObject sample_elrond t1 = Inr t1" "toPlainObject sample_elrond t2 = Inr t2"
    "toPlainObject sample_elrond t3 = Inr t3"
    by (simp_all add: sample_elrond_def)
  have q: "request sample_client
             \<lparr>topic = session_topic \<lparr>session_topic = ''topic''\<rparr>, chainId = ''elrond:D'',
              request_method = Some ''erd_signTransactions'',
              request_params = JObj [(''transactions'', JArr [t1, t2, t3])]\<rparr> = Inr sample_answer"
    by (simp add: sample_client_def)
  have v: "\<And>x. signature_verdict sample_elrond ?ua ?ua sample_answer 0 x = Inr True"
    "\<And>x. signature_verdict sample_elrond ?ua ?ua sample_answer 1 x = Inr False"
    "\<And>x. signature_verdict sample_elrond ?ua ?ua sample_answer 2 x = Inr True"
    by (simp_all add: signature_verdict_def and_then_def sample_answer_def sample_elrond_def
        get_prop_def index_js_def array_index_def)
  have s: "get_prop sample_answer ''signatures'' =
             Inr (JArr [JObj [(''signature'', JStr ''good'')], JObj [(''signature'', JStr ''bad'')],
                        JObj [(''signature'', JStr ''good'')]])"
    "map_prop (JArr [JObj [(''signature'', JStr ''good'')], JObj [(''signature'', JStr ''bad'')],
                     JObj [(''signature'', JStr ''good'')]]) ''signature'' =
       Inr [JStr ''good'', JStr ''bad'', JStr ''good'']"
    by (simp_all add: sample_answer_def get_prop_def map_prop_def)
  have j: "array_join [JStr ''good'', JStr ''bad'', JStr ''good''] '', '' = ''good, bad, good''"
    by (simp add: array_join_def)
  show ?thesis
    using c v(1) [of JNull] v(2) [of JNull] v(3) [of JNull] j
      elrond_batch_valid_is_conjunction [OF c a t p q v(1) v(2) v(3) s, of "[]"]
    by simp
qed

section \<open>What a returning routine went through\<close>

lemma await_then_Inr:
  "await_then m f tr = (Inr r, tr') \<longleftrightarrow> (\<exists>x tr1. m tr = (Inr x, tr1) \<and> f x tr1 = (Inr r, tr'))"
  by (cases "m tr"; cases "fst (m tr)") (auto simp: await_then_def)

lemma lift_Inr: "lift v tr = (Inr x, tr1) \<longleftrightarrow> v = Inr x \<and> tr1 = tr"
  by (auto simp: lift_def)

lemma return_Inr: "return x tr = (Inr r, tr') \<longleftrightarrow> r = x \<and> tr' = tr"
  by (auto simp: return_def)

lemma throw_Inr: "throw e tr = (Inr r, tr') \<longleftrightarrow> False"
  by (simp add: throw_def)

lemma try_rethrow_Inr:
  "try_catch m (\<lambda>e. throw (g e)) tr = (Inr r, tr') \<longleftrightarrow> m tr = (Inr r, tr')"
  by (cases "m tr"; cases "fst (m tr)") (auto simp: try_catch_def throw_def)

lemma client_request_Inr:
  "client_request c cid m ps tr = (Inr x, tr1) \<longleftrightarrow>
     (\<exists>cl se. client c = Some cl \<and> session c = Some se
        \<and> request cl \<lparr>topic = session_topic se, chainId = cid, request_method = m,
                       request_params = ps\<rparr> = Inr x
        \<and> tr1 = tr @ [Sent \<lparr>topic = session_topic se, chainId = cid, request_method = m,
                              request_params = ps\<rparr>])"
  by (auto simp: client_request_def lift_def get_prop_def Let_def split: option.splits)

lemma find_account_Inr:
  "find_account c a tr = (Inr x, tr1) \<longleftrightarrow> a \<in> set (accounts c) \<and> x = a \<and> tr1 = tr"
  by (cases "a \<in> set (accounts c)")
    (auto simp: find_account_def find_eq_member find_eq_absent return_def throw_def)

lemma require_chain_data_Inr:
  "require_chain_data c cid tr = (Inr u, tr1) \<Longrightarrow> tr1 = tr"
  by (auto simp: require_chain_data_def Let_def await_then_Inr lift_Inr return_Inr throw_Inr
      split: if_splits)

lemmas Inr_simps = await_then_Inr lift_Inr return_Inr throw_Inr try_rethrow_Inr
  client_request_Inr find_account_Inr

lemmas enum_simps = enum_member_def DEFAULT_EIP155_METHODS_def DEFAULT_COSMOS_METHODS_def
  DEFAULT_SOLANA_METHODS_def DEFAULT_CHIA_METHODS_def DEFAULT_POLKADOT_METHODS_def
  DEFAULT_NEAR_METHODS_def DEFAULT_ELROND_METHODS_def


lemma method_eth_send:
  "eth_testSendTransaction c E cid addr tr = (Inr r, tr') \<Longrightarrow> method_name r = Some ''eth_sendTransaction''"
  by (clarsimp simp: eth_testSendTransaction_def Inr_simps enum_simps split: if_splits) fastforce

lemma method_eth:
  "eth_testSignTransaction c E cid addr tr = (Inr r, tr') \<Longrightarrow> method_name r = Some ''eth_signTransaction''"
  "eth_testSignPersonalMessage c P E cid addr tr = (Inr r, tr') \<Longrightarrow> method_name r = Some ''personal_sign''"
  "eth_testEthSign c P E cid addr tr = (Inr r, tr') \<Longrightarrow> method_name r = Some ''eth_sign (standard)''"
  "eth_testSignTypedData c P E cid addr tr = (Inr r, tr') \<Longrightarrow> method_name r = Some ''eth_signTypedData''"
  by (clarsimp simp: eth_testSignTransaction_def
      eth_testSignPersonalMessage_def eth_testEthSign_def eth_testSignTypedData_def Let_def
      Inr_simps enum_simps opt_string_def)+

lemma method_cosmos:
  "cosmos_testSignDirect c C cid addr tr = (Inr r, tr') \<Longrightarrow> method_name r = Some ''cosmos_signDirect''"
  "cosmos_testSignAmino c C cid addr tr = (Inr r, tr') \<Longrightarrow> method_name r = Some ''cosmos_signAmino''"
  by (clarsimp simp: cosmos_testSignDirect_def cosmos_testSignAmino_def Let_def Inr_simps enum_simps)+

lemma method_solana:
  "solana_testSignTransaction c S cid addr tr = (Inr r, tr') \<Longrightarrow> method_name r = Some ''solana_signTransaction''"
  "solana_testSignMessage c P S cid addr tr = (Inr r, tr') \<Longrightarrow> method_name r = Some ''solana_signMessage''"
  by (clarsimp simp: solana_testSignTransaction_def solana_testSignMessage_def Let_def Inr_simps
      enum_simps split: option.splits)+

lemma method_polkadot:
  "polkadot_testSignTransaction c K cid addr tr = (Inr r, tr') \<Longrightarrow> method_name r = Some ''polkadot_signTransaction''"
  "polkadot_testSignMessage c P K cid addr tr = (Inr r, tr') \<Longrightarrow> method_name r = Some ''polkadot_signMessage''"
  by (clarsimp simp: polkadot_testSignTransaction_def polkadot_testSignMessage_def Let_def Inr_simps
      enum_simps)+

lemma method_near:
  "near_testSignAndSendTransaction c P cid addr tr = (Inr r, tr') \<Longrightarrow> method_name r = Some ''near_signAndSendTransaction''"
  "near_testSignAndSendTransactions c P cid addr tr = (Inr r, tr') \<Longrightarrow> method_name r = Some ''near_signAndSendTransactions''"
  by (clarsimp simp: near_testSignAndSendTransaction_def near_testSignAndSendTransactions_def Let_def
      Inr_simps enum_simps)+

lemma method_elrond:
  "elrond_testSignTransaction c L cid addr tr = (Inr r, tr') \<Longrightarrow> method_name r = Some ''erd_signTransaction''"
  "elrond_testSignTransactions c L cid addr tr = (Inr r, tr') \<Longrightarrow> method_name r = Some ''erd_signTransactions''"
  "elrond_testSignMessage c P L cid addr tr = (Inr r, tr') \<Longrightarrow> method_name r = Some ''erd_signMessage''"
  by (clarsimp simp: elrond_testSignTransaction_def elrond_testSignTransactions_def
      elrond_testSignMessage_def Let_def Inr_simps enum_simps simp del: verify_each.simps)+

lemma method_chia_request:
  "chia_request c P cid addr m ps tr = (Inr r, tr') \<Longrightarrow> method_name r = m"
  by (clarsimp simp: chia_request_def Inr_simps)


lemma wire_method_nonempty: "wire_method op = Some w \<Longrightarrow> w \<noteq> []"
  by (cases op) (auto simp: enum_simps)

lemma method_rpc_routine:
  assumes "rpc_routine c L op cid addr tr = (Inr r, tr')" and "wire_method op = Some w"
  shows "method_name r = Some (if op = Eth_testEthSign then w @ '' (standard)'' else w)"
proof (cases op)
  case Eth_testSendTransaction
  then show ?thesis using assms method_eth_send by (fastforce simp: enum_simps)
next
  case Eth_testSignTransaction
  then show ?thesis using assms method_eth(1) by (fastforce simp: enum_simps)
next
  case Eth_testEthSign
  then show ?thesis using assms method_eth(3) by (fastforce simp: enum_simps)
next
  case Eth_testSignPersonalMessage
  then show ?thesis using assms method_eth(2) by (fastforce simp: enum_simps)
next
  case Eth_testSignTypedData
  then show ?thesis using assms method_eth(4) by (fastforce simp: enum_simps)
next
  case Cosmos_testSignDirect
  then show ?thesis using assms method_cosmos(1) by (fastforce simp: enum_simps)
next
  case Cosmos_testSignAmino
  then show ?thesis using assms method_cosmos(2) by (fastforce simp: enum_simps)
next
  case Solana_testSignMessage
  then show ?thesis using assms method_solana(2) by (fastforce simp: enum_simps)
next
  case Solana_testSignTransaction
  then show ?thesis using assms method_solana(1) by (fastforce simp: enum_simps)
next
  case Polkadot_testSignMessage
  then show ?thesis using assms method_polkadot(2) by (fastforce simp: enum_simps)
next
  case Polkadot_testSignTransaction
  then show ?thesis using assms method_polkadot(1) by (fastforce simp: enum_simps)
next
  case Near_testSignAndSendTransaction
  then show ?thesis using assms method_near(1) by (fastforce simp: enum_simps)
next
  case Near_testSignAndSendTransactions
  then show ?thesis using assms method_near(2) by (fastforce simp: enum_simps)
next
  case Elrond_testSignMessage
  then show ?thesis using assms method_elrond(3) by (fastforce simp: enum_simps)
next
  case Elrond_testSignTransaction
  then show ?thesis using assms method_elrond(1) by (fastforce simp: enum_simps)
next
  case Elrond_testSignTransactions
  then show ?thesis using assms method_elrond(2) by (fastforce simp: enum_simps)
next
  case Chia_testGetWallets
  then show ?thesis using assms by (auto simp: chia_testGetWallets_def dest: method_chia_request)
next
  case Chia_testGetCATWalletInfo
  then show ?thesis using assms by (auto simp: chia_testGetCATWalletInfo_def dest: method_chia_request)
next
  case Chia_testSendTransaction
  then show ?thesis using assms by (auto simp: chia_testSendTransaction_def dest: method_chia_request)
next
  case Chia_testSpendCAT
  then show ?thesis using assms by (auto simp: chia_testSpendCAT_def dest: method_chia_request)
next
  case Chia_testNewAddress
  then show ?thesis using assms by (auto simp: chia_testNewAddress_def dest: method_chia_request)
next
  case Chia_testLogIn
  then show ?thesis using assms by (auto simp: chia_testLogIn_def dest: method_chia_request)
next
  case Chia_testSignMessageByAddress
  then show ?thesis using assms by (auto simp: chia_testSignMessageByAddress_def dest: method_chia_request)
next
  case Chia_testSignMessageById
  then show ?thesis using assms by (auto simp: chia_testSignMessageById_def dest: method_chia_request)
next
  case Chia_testGetWalletSyncStatus
  then show ?thesis using assms by (auto simp: chia_testGetWalletSyncStatus_def dest: method_chia_request)
next
  case Chia_testGetNFTInfo
  then show ?thesis using assms by (auto simp: chia_testGetNFTInfo_def dest: method_chia_request)
next
  case Chia_testGetNFTs
  then show ?thesis using assms by (auto simp: chia_testGetNFTs_def dest: method_chia_request)
next
  case Chia_testTakeOffer
  then show ?thesis using assms by (auto simp: chia_testTakeOffer_def dest: method_chia_request)
next
  case Chia_testCreateOfferForIds
  then show ?thesis using assms by (auto simp: chia_testCreateOfferForIds_def dest: method_chia_request)
next
  case Chia_testUnknownTestCommand
  then show ?thesis using assms by (auto simp: chia_testUnknownTestCommand_def dest: method_chia_request)
next
  case Chia_testShowOfferDataNotification
  then show ?thesis using assms
    by (auto simp: chia_testShowOfferDataNotification_def dest: method_chia_request)
next
  case Chia_testShowAnnouncementNotification
  then show ?thesis using assms
    by (auto simp: chia_testShowAnnouncementNotification_def dest: method_chia_request)
qed

section \<open>Properties of the method tables\<close>

text \<open>
  Claim C6, as amended. Whenever a table entry whose wire method constant is declared in
  its enum returns a record, that record is stored and its \<^verbatim>\<open>method\<close> field is the
  declared, non-empty wire method name; for \<^verbatim>\<open>testEthSign\<close> it is that name followed by
  \<^verbatim>\<open> (standard)\<close>.
\<close>

theorem method_field_is_wire_method:
  assumes "client c \<noteq> None" and "session c \<noteq> None"
    and "rpc_routine c L op cid addr (trace s @ [SetPending True]) = (Inr r, tr')"
    and "wire_method op = Some w"
  shows "rpcResult (snd (invoke c L op cid addr s)) = Stored r
         \<and> w \<noteq> []
         \<and> method_name r = Some (if op = Eth_testEthSign then w @ '' (standard)'' else w)"
proof -
  have "rpcResult (snd (invoke c L op cid addr s)) = Stored r"
    using assms(1-3) by (simp add: invoke_def handler_runs)
  moreover have "w \<noteq> []" using assms(4) by (rule wire_method_nonempty)
  moreover have "method_name r = Some (if op = Eth_testEthSign then w @ '' (standard)'' else w)"
    using assms(3,4) by (rule method_rpc_routine)
  ultimately show ?thesis by simp
qed

lemmas io_defs = await_then_def try_catch_def return_def throw_def lift_def

lemmas sample_defs = sample_context_def sample_client_def sample_libraries_def
  sample_platform_def sample_evm_def sample_cosmos_def sample_solana_def sample_polkadot_def
  sample_elrond_def sample_answer_def

lemma require_chain_data_missing:
  assumes "chainData c (split_colon cid ! 0) = Some refs"
    and "refs (opt_string (nth_opt (split_colon cid) 1)) = None
         \<or> refs (opt_string (nth_opt (split_colon cid) 1)) = Some JUndefined"
  shows "require_chain_data c cid =
           throw (new_Error (JStr (''Missing chain data for chainId: '' @ cid)))"
  using assms
  by (auto simp: require_chain_data_def chainData_lookup_def Let_def await_then_lift_Inr)

lemmas routine_defs =
  eth_testSendTransaction_def eth_testSignTransaction_def eth_testSignPersonalMessage_def
  eth_testEthSign_def eth_testSignTypedData_def cosmos_testSignDirect_def
  cosmos_testSignAmino_def solana_testSignTransaction_def solana_testSignMessage_def
  polkadot_testSignTransaction_def polkadot_testSignMessage_def
  near_testSignAndSendTransaction_def near_testSignAndSendTransactions_def
  elrond_testSignTransaction_def elrond_testSignTransactions_def elrond_testSignMessage_def
  chia_request_def chia_testGetWallets_def chia_testGetCATWalletInfo_def
  chia_testSendTransaction_def chia_testSpendCAT_def chia_testNewAddress_def chia_testLogIn_def
  chia_testSignMessageByAddress_def chia_testSignMessageById_def
  chia_testGetWalletSyncStatus_def chia_testGetNFTInfo_def chia_testGetNFTs_def
  chia_testTakeOffer_def chia_testCreateOfferForIds_def chia_testUnknownTestCommand_def
  chia_testShowOfferDataNotification_def chia_testShowAnnouncementNotification_def

text \<open>
  Claim C6 as first stated fails: with a valid session and a known account,
  \<^verbatim>\<open>testEthSign\<close> stores the label \<^verbatim>\<open>eth_sign (standard)\<close>, which is not the wire method
  name \<^verbatim>\<open>eth_sign\<close>.
\<close>

theorem method_field_counterexample:
  "client sample_context \<noteq> None \<and> session sample_context \<noteq> None
   \<and> ''eip155:1:0xabc'' \<in> set (accounts sample_context)
   \<and> wire_method Eth_testEthSign = Some ''eth_sign''
   \<and> rpcResult (snd (invoke sample_context sample_libraries Eth_testEthSign
                       ''eip155:1'' ''0xabc'' initial_state)) =
       Stored \<lparr>method_name = Some ''eth_sign (standard)'', address = Some ''0xabc'',
               valid = True, result = sample_answer\<rparr>"
  by (simp add: invoke_def createJsonRpcRequestHandler_def eth_testEthSign_def
      client_request_def require_chain_data_def chainData_lookup_def
      verifyEip155MessageSignature_def io_defs sample_defs enum_simps opt_string_def nth_opt_def
      setPending_def setResult_def initial_state_def Let_def)

theorem method_field_is_wire_method_witness:
  "client sample_context \<noteq> None \<and> session sample_context \<noteq> None
   \<and> wire_method Chia_testGetWallets = Some ''chia_getWallets''
   \<and> rpcResult (snd (invoke sample_context sample_libraries Chia_testGetWallets
                       ''chia:testnet'' ''1'' initial_state)) =
       Stored \<lparr>method_name = Some ''chia_getWallets'', address = Some ''1'', valid = True,
               result = JStr ''{}''\<rparr>"
proof -
  have c: "client sample_context \<noteq> None" "session sample_context \<noteq> None"
    by (simp_all add: sample_context_def)
  have w: "wire_method Chia_testGetWallets = Some ''chia_getWallets''"
    by (simp add: enum_simps)
  have r: "rpc_routine sample_context sample_libraries Chia_testGetWallets ''chia:testnet'' ''1''
             (trace initial_state @ [SetPending True]) =
           (Inr \<lparr>method_name = Some ''chia_getWallets'', address = Some ''1'', valid = True,
                  result = JStr ''{}''\<rparr>,
            [SetPending True,
             Sent \<lparr>topic = ''topic'', chainId = ''chia:testnet'',
                   request_method = Some ''chia_getWallets'',
                   request_params =
                     JObj [(''fingerprint'', JStr ''1''), (''includeData'', JBool False)]\<rparr>])"
    by (simp add: chia_testGetWallets_def chia_request_def client_request_def io_defs
        sample_defs enum_simps initial_state_def Let_def)
  show ?thesis
    using c w method_field_is_wire_method [OF c r w] by simp
qed

section \<open>Preconditions of the routines\<close>

text \<open>
  Claim C9 as first stated fails: \<^verbatim>\<open>testSignPersonalMessage\<close> never looks at the account
  list; with an empty list it still sends its request and returns a record.
\<close>

theorem account_check_counterexample:
  "''eip155:1:0xabc'' \<notin> set (accounts (sample_context\<lparr>accounts := []\<rparr>))
   \<and> rpc_routine (sample_context\<lparr>accounts := []\<rparr>) sample_libraries
        Eth_testSignPersonalMessage ''eip155:1'' ''0xabc'' [] =
       (Inr \<lparr>method_name = Some ''personal_sign'', address = Some ''0xabc'', valid = True,
              result = sample_answer\<rparr>,
        [Sent \<lparr>topic = ''topic'', chainId = ''eip155:1'', request_method = Some ''personal_sign'',
               request_params =
                 JArr [JStr (''My email is john@doe.com - '' @ dec_nat 0), JStr ''0xabc'']\<rparr>])"
  by (simp add: eth_testSignPersonalMessage_def
      client_request_def require_chain_data_def chainData_lookup_def
      verifyEip155MessageSignature_def io_defs sample_defs enum_simps opt_string_def nth_opt_def
      Let_def del: dec_nat.simps)

lemma account_missing:
  assumes "checks_account op" and "cid @ '':'' @ addr \<notin> set (accounts c)"
  shows "rpc_routine c L op cid addr tr =
           (Inl (new_Error (JStr (''Account for '' @ cid @ '':'' @ addr @ '' not found''))), tr)"
proof -
  define account where "account = cid @ '':'' @ addr"
  have "find (\<lambda>a. a = account) (accounts c) = None"
    using assms(2) unfolding account_def by (rule find_eq_absent)
  then have f: "find_account c account =
                  throw (new_Error (JStr (''Account for '' @ account @ '' not found'')))"
    by (simp add: find_account_def)
  have "eth_testSendTransaction c (evm L) cid addr =
          throw (new_Error (JStr (''Account for '' @ account @ '' not found'')))"
    "eth_testSignTransaction c (evm L) cid addr =
          throw (new_Error (JStr (''Account for '' @ account @ '' not found'')))"
    unfolding eth_testSendTransaction_def eth_testSignTransaction_def account_def [symmetric]
    by (simp_all add: f await_then_throw)
  then show ?thesis
    using assms(1) by (auto simp: checks_account_def throw_def account_def)
qed

lemma client_request_accounts:
  "client_request (c\<lparr>accounts := xs\<rparr>) cid m ps = client_request c cid m ps"
  by (simp add: client_request_def split: option.splits)

lemma require_chain_data_accounts:
  "require_chain_data (c\<lparr>accounts := xs\<rparr>) cid = require_chain_data c cid"
  by (simp add: require_chain_data_def chainData_lookup_def)

lemma accounts_not_read:
  assumes "\<not> checks_account op"
  shows "rpc_routine (c\<lparr>accounts := xs\<rparr>) L op cid addr = rpc_routine c L op cid addr"
proof (cases op)
  case Eth_testSendTransaction
  then show ?thesis using assms by (simp add: checks_account_def)
next
  case Eth_testSignTransaction
  then show ?thesis using assms by (simp add: checks_account_def)
qed (simp_all add: routine_defs client_request_accounts require_chain_data_accounts
      del: verify_each.simps cong: option.case_cong)

text \<open>
  Claim C9, as amended. The two operations that look the account up, the Ethereum
  \<^verbatim>\<open>testSendTransaction\<close> and \<^verbatim>\<open>testSignTransaction\<close>, fail with
  \<^verbatim>\<open>Account for <chainId>:<address> not found\<close> when the account is not in the session's
  list, and the trace is unchanged: no request has been sent. Every other operation
  behaves the same whatever the account list holds.
\<close>

theorem account_lookup_guards_eth_transactions:
  "(checks_account op \<and> cid @ '':'' @ addr \<notin> set (accounts c) \<longrightarrow>
      rpc_routine c L op cid addr tr =
        (Inl (new_Error (JStr (''Account for '' @ cid @ '':'' @ addr @ '' not found''))), tr))
   \<and> (\<not> checks_account op \<longrightarrow>
        rpc_routine (c\<lparr>accounts := xs\<rparr>) L op cid addr = rpc_routine c L op cid addr)"
  using account_missing accounts_not_read by blast

theorem account_lookup_guards_eth_transactions_witness:
  "checks_account Eth_testSignTransaction
   \<and> ''eip155:1'' @ '':'' @ ''0xdef'' \<notin> set (accounts sample_context)
   \<and> rpc_routine sample_context sample_libraries Eth_testSignTransaction ''eip155:1'' ''0xdef'' [] =
       (Inl (JErr ''Error'' ''Account for eip155:1:0xdef not found''), [])
   \<and> \<not> checks_account Elrond_testSignMessage
   \<and> rpc_routine (sample_context\<lparr>accounts := []\<rparr>) sample_libraries Elrond_testSignMessage
        ''elrond:D'' ''erd1x'' =
       rpc_routine sample_context sample_libraries Elrond_testSignMessage ''elrond:D'' ''erd1x''"
proof -
  have h: "checks_account Eth_testSignTransaction"
    "''eip155:1'' @ '':'' @ ''0xdef'' \<notin> set (accounts sample_context)"
    "\<not> checks_account Elrond_testSignMessage"
    by (simp_all add: checks_account_def sample_context_def)
  show ?thesis
    using h
      account_lookup_guards_eth_transactions [of Eth_testSignTransaction "''eip155:1''" "''0xdef''"
        sample_context sample_libraries "[]" "[]"]
      account_lookup_guards_eth_transactions [of Elrond_testSignMessage "''elrond:D''" "''erd1x''"
        sample_context sample_libraries "[]" "[]"]
    by (simp add: new_Error_def)
qed

text \<open>
  Claim C8 as first stated fails: \<^verbatim>\<open>testSignPersonalMessage\<close> on a chain without metadata
  does raise \<^verbatim>\<open>Missing chain data for chainId\<close>, but only after its request has been
  sent over the session transport: the trace at the throw holds the request.
\<close>

theorem missing_chain_data_counterexample:
  "chainData sample_context ''eip155'' \<noteq> None
   \<and> chainData_lookup sample_context ''eip155'' (Some ''5'') = Inr None
   \<and> rpc_routine sample_context sample_libraries Eth_testSignPersonalMessage ''eip155:5'' ''0xabc'' [] =
       (Inl (JErr ''Error'' ''Missing chain data for chainId: eip155:5''),
        [Sent \<lparr>topic = ''topic'', chainId = ''eip155:5'', request_method = Some ''personal_sign'',
               request_params =
                 JArr [JStr (''My email is john@doe.com - '' @ dec_nat 0), JStr ''0xabc'']\<rparr>])"
  by (simp add: eth_testSignPersonalMessage_def
      client_request_def require_chain_data_def chainData_lookup_def new_Error_def
      io_defs sample_defs enum_simps opt_string_def nth_opt_def Let_def del: dec_nat.simps)

lemma sent_then_missing_personal:
  assumes "client c = Some cl" and "session c = Some se"
    and "chainData c (split_colon cid ! 0) = Some refs"
    and "refs (opt_string (nth_opt (split_colon cid) 1)) = None
         \<or> refs (opt_string (nth_opt (split_colon cid) 1)) = Some JUndefined"
  shows "\<exists>q. topic q = session_topic se \<and> chainId q = cid
           \<and> request_method q = wire_method Eth_testSignPersonalMessage
           \<and> eth_testSignPersonalMessage c P E cid addr tr =
               ((case request cl q of
                   Inl e \<Rightarrow> Inl e
                 | Inr res \<Rightarrow> Inl (new_Error (JStr (''Missing chain data for chainId: '' @ cid)))),
                tr @ [Sent q])"
proof -
  let ?q = "\<lparr>topic = session_topic se, chainId = cid,
             request_method = enum_member DEFAULT_EIP155_METHODS ''PERSONAL_SIGN'',
             request_params =
               JArr [JStr (utf8ToHex P (''My email is john@doe.com - '' @ dec_nat (Date_now P))),
                     JStr addr]\<rparr>"
  have "eth_testSignPersonalMessage c P E cid addr tr =
          ((case request cl ?q of
              Inl e \<Rightarrow> Inl e
            | Inr res \<Rightarrow> Inl (new_Error (JStr (''Missing chain data for chainId: '' @ cid)))),
           tr @ [Sent ?q])"
    by (simp add: eth_testSignPersonalMessage_def Let_def await_then_def throw_def
        client_request_sends [OF assms(1,2)] require_chain_data_missing [OF assms(3,4)]
        split: sum.splits)
  moreover have "topic ?q = session_topic se \<and> chainId ?q = cid
                 \<and> request_method ?q = wire_method Eth_testSignPersonalMessage"
    by simp
  ultimately show ?thesis by blast
qed

lemma sent_then_missing_ethsign:
  assumes "client c = Some cl" and "session c = Some se"
    and "chainData c (split_colon cid ! 0) = Some refs"
    and "refs (opt_string (nth_opt (split_colon cid) 1)) = None
         \<or> refs (opt_string (nth_opt (split_colon cid) 1)) = Some JUndefined"
  shows "\<exists>q. topic q = session_topic se \<and> chainId q = cid
           \<and> request_method q = wire_method Eth_testEthSign
           \<and> eth_testEthSign c P E cid addr tr =
               ((case request cl q of
                   Inl e \<Rightarrow> Inl e
                 | Inr res \<Rightarrow> Inl (new_Error (JStr (''Missing chain data for chainId: '' @ cid)))),
                tr @ [Sent q])"
proof -
  let ?q = "\<lparr>topic = session_topic se, chainId = cid,
             request_method = enum_member DEFAULT_EIP155_METHODS ''ETH_SIGN'',
             request_params =
               JArr [JStr addr,
                     JStr (utf8ToHex P (''My email is john@doe.com - '' @ dec_nat (Date_now P)))]\<rparr>"
  have "eth_testEthSign c P E cid addr tr =
          ((case request cl ?q of
              Inl e \<Rightarrow> Inl e
            | Inr res \<Rightarrow> Inl (new_Error (JStr (''Missing chain data for chainId: '' @ cid)))),
           tr @ [Sent ?q])"
    by (simp add: eth_testEthSign_def Let_def await_then_def throw_def
        client_request_sends [OF assms(1,2)] require_chain_data_missing [OF assms(3,4)]
        split: sum.splits)
  moreover have "topic ?q = session_topic se \<and> chainId ?q = cid
                 \<and> request_method ?q = wire_method Eth_testEthSign"
    by simp
  ultimately show ?thesis by blast
qed

lemma sent_then_missing_amino:
  assumes "client c = Some cl" and "session c = Some se"
    and "chainData c (split_colon cid ! 0) = Some refs"
    and "refs (opt_string (nth_opt (split_colon cid) 1)) = None
         \<or> refs (opt_string (nth_opt (split_colon cid) 1)) = Some JUndefined"
  shows "\<exists>q. topic q = session_topic se \<and> chainId q = cid
           \<and> request_method q = wire_method Cosmos_testSignAmino
           \<and> cosmos_testSignAmino c C cid addr tr =
               ((case request cl q of
                   Inl e \<Rightarrow> Inl e
                 | Inr res \<Rightarrow> Inl (new_Error (JStr (''Missing chain data for chainId: '' @ cid)))),
                tr @ [Sent q])"
proof -
  let ?q = "\<lparr>topic = session_topic se, chainId = cid,
             request_method = enum_member DEFAULT_COSMOS_METHODS ''COSMOS_SIGN_AMINO'',
             request_params =
               JObj [(''signerAddress'', JStr addr),
                     (''signDoc'',
                        JObj [(''msgs'', JArr []),
                              (''fee'', JObj [(''amount'', JArr []), (''gas'', JStr ''23'')]),
                              (''chain_id'', JStr ''foochain''),
                              (''memo'', JStr ''hello, world''),
                              (''account_number'', JStr ''7''),
                              (''sequence'', JStr ''54'')])]\<rparr>"
  have "cosmos_testSignAmino c C cid addr tr =
          ((case request cl ?q of
              Inl e \<Rightarrow> Inl e
            | Inr res \<Rightarrow> Inl (new_Error (JStr (''Missing chain data for chainId: '' @ cid)))),
           tr @ [Sent ?q])"
    by (simp add: cosmos_testSignAmino_def Let_def await_then_def throw_def
        client_request_sends [OF assms(1,2)] require_chain_data_missing [OF assms(3,4)]
        split: sum.splits)
  moreover have "topic ?q = session_topic se \<and> chainId ?q = cid
                 \<and> request_method ?q = wire_method Cosmos_testSignAmino"
    by simp
  ultimately show ?thesis by blast
qed

lemma sent_then_missing_direct:
  assumes "client c = Some cl" and "session c = Some se"
    and "chainData c (split_colon cid ! 0) = Some refs"
    and "refs (opt_string (nth_opt (split_colon cid) 1)) = None
         \<or> refs (opt_string (nth_opt (split_colon cid) 1)) = Some JUndefined"
    and "direct_signDoc C cid = Inr signDoc" and "stringifySignDocValues C signDoc = Inr sd"
  shows "\<exists>q. topic q = session_topic se \<and> chainId q = cid
           \<and> request_method q = wire_method Cosmos_testSignDirect
           \<and> cosmos_testSignDirect c C cid addr tr =
               ((case request cl q of
                   Inl e \<Rightarrow> Inl e
                 | Inr res \<Rightarrow> Inl (new_Error (JStr (''Missing chain data for chainId: '' @ cid)))),
                tr @ [Sent q])"
proof -
  let ?q = "\<lparr>topic = session_topic se, chainId = cid,
             request_method = enum_member DEFAULT_COSMOS_METHODS ''COSMOS_SIGN_DIRECT'',
             request_params = JObj [(''signerAddress'', JStr addr), (''signDoc'', sd)]\<rparr>"
  have "cosmos_testSignDirect c C cid addr tr =
          ((case request cl ?q of
              Inl e \<Rightarrow> Inl e
            | Inr res \<Rightarrow> Inl (new_Error (JStr (''Missing chain data for chainId: '' @ cid)))),
           tr @ [Sent ?q])"
    using assms(5,6)
    by (simp add: cosmos_testSignDirect_def direct_signDoc_def Let_def await_then_def throw_def
        lift_def client_request_sends [OF assms(1,2)] require_chain_data_missing [OF assms(3,4)]
        split: sum.splits)
  moreover have "topic ?q = session_topic se \<and> chainId ?q = cid
                 \<and> request_method ?q = wire_method Cosmos_testSignDirect"
    by simp
  ultimately show ?thesis by blast
qed

text \<open>
  Claim C8, as amended. For the four operations that look up chain metadata (Ethereum
  \<^verbatim>\<open>testSignPersonalMessage\<close> and \<^verbatim>\<open>testEthSign\<close>, Cosmos \<^verbatim>\<open>testSignDirect\<close> and
  \<^verbatim>\<open>testSignAmino\<close>), when the namespace has a table and reading the reference from it
  yields \<^verbatim>\<open>undefined\<close>, the operation first sends its request over the session transport
  (for \<^verbatim>\<open>testSignDirect\<close>, once its sign doc is formatted) and only then, when the wallet
  has answered, raises \<^verbatim>\<open>Missing chain data for chainId: <chainId>\<close>; a rejection by the
  wallet is thrown instead. The request is the only event of the routine.
\<close>

theorem missing_chain_data_raised_after_answer:
  assumes "needs_chain_data op" and "client c = Some cl" and "session c = Some se"
    and "chainData c (split_colon cid ! 0) = Some refs"
    and "refs (opt_string (nth_opt (split_colon cid) 1)) = None
         \<or> refs (opt_string (nth_opt (split_colon cid) 1)) = Some JUndefined"
    and "op = Cosmos_testSignDirect \<longrightarrow>
           (\<exists>signDoc sd. direct_signDoc (cosmos L) cid = Inr signDoc
               \<and> stringifySignDocValues (cosmos L) signDoc = Inr sd)"
  shows "\<exists>q. topic q = session_topic se \<and> chainId q = cid
           \<and> request_method q = wire_method op
           \<and> rpc_routine c L op cid addr tr =
               ((case request cl q of
                   Inl e \<Rightarrow> Inl e
                 | Inr res \<Rightarrow> Inl (new_Error (JStr (''Missing chain data for chainId: '' @ cid)))),
                tr @ [Sent q])"
proof -
  consider "op = Eth_testSignPersonalMessage" | "op = Eth_testEthSign"
    | "op = Cosmos_testSignDirect" | "op = Cosmos_testSignAmino"
    using assms(1) unfolding needs_chain_data_def by blast
  then show ?thesis
  proof cases
    case 1
    then show ?thesis
      using sent_then_missing_personal [OF assms(2-5), of "platform L" "evm L" addr tr] by simp
  next
    case 2
    then show ?thesis
      using sent_then_missing_ethsign [OF assms(2-5), of "platform L" "evm L" addr tr] by simp
  next
    case 3
    then obtain signDoc sd where "direct_signDoc (cosmos L) cid = Inr signDoc"
      "stringifySignDocValues (cosmos L) signDoc = Inr sd"
      using assms(6) by blast
    then show ?thesis
      using 3 sent_then_missing_direct [OF assms(2-5), of "cosmos L" signDoc sd addr tr] by simp
  next
    case 4
    then show ?thesis
      using sent_then_missing_amino [OF assms(2-5), of "cosmos L" addr tr] by simp
  qed
qed

theorem missing_chain_data_raised_after_answer_witness:
  "needs_chain_data Eth_testEthSign
   \<and> chainData sample_context (split_colon ''eip155:5'' ! 0) =
       Some [''1'' \<mapsto> JObj [(''name'', JStr ''Ethereum'')]]
   \<and> (\<exists>q. request_method q = Some ''eth_sign''
          \<and> rpc_routine sample_context sample_libraries Eth_testEthSign ''eip155:5'' ''0xabc'' [] =
              (Inl (JErr ''Error'' ''Missing chain data for chainId: eip155:5''), [Sent q]))
   \<and> needs_chain_data Cosmos_testSignDirect
   \<and> direct_signDoc sample_cosmos ''cosmos:hub'' = Inr (JObj [])
   \<and> stringifySignDocValues sample_cosmos (JObj []) = Inr (JObj [])
   \<and> (\<exists>q. request_method q = Some ''cosmos_signDirect''
          \<and> rpc_routine (sample_context\<lparr>chainData := [''cosmos'' \<mapsto> Map.empty]\<rparr>)
                sample_libraries Cosmos_testSignDirect ''cosmos:hub'' ''cosmos1'' [] =
              (Inl (JErr ''Error'' ''Missing chain data for chainId: cosmos:hub''), [Sent q]))"
proof -
  let ?c = "sample_context\<lparr>chainData := [''cosmos'' \<mapsto> Map.empty]\<rparr>"
  have h: "needs_chain_data Eth_testEthSign"
    "client sample_context = Some sample_client"
    "session sample_context = Some \<lparr>session_topic = ''topic''\<rparr>"
    "chainData sample_context (split_colon ''eip155:5'' ! 0) =
       Some [''1'' \<mapsto> JObj [(''name'', JStr ''Ethereum'')]]"
    "[''1'' \<mapsto> JObj [(''name'', JStr ''Ethereum'')]]
       (opt_string (nth_opt (split_colon ''eip155:5'') 1)) = None
     \<or> [''1'' \<mapsto> JObj [(''name'', JStr ''Ethereum'')]]
          (opt_string (nth_opt (split_colon ''eip155:5'') 1)) = Some JUndefined"
    by (simp_all add: needs_chain_data_def sample_context_def nth_opt_def opt_string_def)
  have h1: "Eth_testEthSign = Cosmos_testSignDirect \<longrightarrow>
      (\<exists>signDoc sd. direct_signDoc (cosmos sample_libraries) ''eip155:5'' = Inr signDoc
          \<and> stringifySignDocValues (cosmos sample_libraries) signDoc = Inr sd)"
    by simp
  have g: "needs_chain_data Cosmos_testSignDirect"
    "client ?c = Some sample_client"
    "session ?c = Some \<lparr>session_topic = ''topic''\<rparr>"
    "chainData ?c (split_colon ''cosmos:hub'' ! 0) = Some Map.empty"
    "Map.empty (opt_string (nth_opt (split_colon ''cosmos:hub'') 1)) = None
     \<or> Map.empty (opt_string (nth_opt (split_colon ''cosmos:hub'') 1)) = Some JUndefined"
    by (simp_all add: needs_chain_data_def sample_context_def)
  have d: "direct_signDoc sample_cosmos ''cosmos:hub'' = Inr (JObj [])"
    "stringifySignDocValues sample_cosmos (JObj []) = Inr (JObj [])"
    by (simp_all add: direct_signDoc_def sample_cosmos_def)
  have l: "cosmos sample_libraries = sample_cosmos"
    by (simp add: sample_libraries_def)
  have g1: "Cosmos_testSignDirect = Cosmos_testSignDirect \<longrightarrow>
      (\<exists>signDoc sd. direct_signDoc (cosmos sample_libraries) ''cosmos:hub'' = Inr signDoc
          \<and> stringifySignDocValues (cosmos sample_libraries) signDoc = Inr sd)"
    using d l by auto
  have a: "\<And>q. request sample_client q = Inr sample_answer"
    by (simp add: sample_client_def)
  show ?thesis
    using h(1,4) g(1) d
      missing_chain_data_raised_after_answer [OF h h1, of "''0xabc''" "[]"]
      missing_chain_data_raised_after_answer [OF g g1, of "''cosmos1''" "[]"]
    by (auto simp: a enum_simps new_Error_def)
qed

section \<open>Where the verdict comes from\<close>

text \<open>
  Claim C7 as first stated fails: a Chia operation stores \<open>valid\<close> true as soon as the
  wallet answers, with no verifier consulted; it does so even with libraries whose
  verifiers reject everything.
\<close>

theorem valid_granted_counterexample:
  "verifier_verdict sample_context rejecting_libraries Chia_testGetWallets ''chia:testnet'' ''1''
     sample_answer = None
   \<and> verifier_verdict sample_context rejecting_libraries Polkadot_testSignMessage ''polkadot:x''
       ''1'' sample_answer = Some (Inr False)
   \<and> rpcResult (snd (invoke sample_context rejecting_libraries Chia_testGetWallets
                       ''chia:testnet'' ''1'' initial_state)) =
       Stored \<lparr>method_name = Some ''chia_getWallets'', address = Some ''1'', valid = True,
               result = JStr ''{}''\<rparr>"
  by (simp add: invoke_def createJsonRpcRequestHandler_def chia_testGetWallets_def
      chia_request_def client_request_def io_defs sample_defs rejecting_libraries_def enum_simps
      and_then_def get_prop_def setPending_def setResult_def initial_state_def Let_def)

lemma require_chain_data_trace: "snd (require_chain_data c cid tr) = tr"
  by (simp add: require_chain_data_def chainData_lookup_def Let_def io_defs get_prop_def
      split: option.splits sum.splits)

lemma require_chain_data_Inr_iff:
  "require_chain_data c cid tr = (Inr u, tr1) \<longleftrightarrow>
     tr1 = tr \<and> fst (require_chain_data c cid tr) = Inr ()"
  using require_chain_data_trace [of c cid tr] by (auto simp: prod_eq_iff)

lemma verdict_eth_sign_transaction:
  assumes "client c = Some cl" and "session c = Some se"
    and "rpc_routine c L Eth_testSignTransaction cid addr tr = (Inr r, tr')"
  shows "\<exists>q res. tr' = tr @ [Sent q] \<and> request cl q = Inr res \<and> result r = res
           \<and> fromSerializedTx_verifySignature (evm L) res = Inr (valid r)"
  using assms by (clarsimp simp: eth_testSignTransaction_def Inr_simps)

lemma verdict_eth_personal:
  assumes "client c = Some cl" and "session c = Some se"
    and "rpc_routine c L Eth_testSignPersonalMessage cid addr tr = (Inr r, tr')"
  shows "\<exists>q res. tr' = tr @ [Sent q] \<and> request cl q = Inr res
           \<and> verifier_verdict c L Eth_testSignPersonalMessage cid addr res = Some (Inr (valid r))"
  using assms
  by (clarsimp simp: eth_testSignPersonalMessage_def Let_def Inr_simps require_chain_data_Inr_iff)

lemma verdict_eth_sign:
  assumes "client c = Some cl" and "session c = Some se"
    and "rpc_routine c L Eth_testEthSign cid addr tr = (Inr r, tr')"
  shows "\<exists>q res. tr' = tr @ [Sent q] \<and> request cl q = Inr res
           \<and> verifier_verdict c L Eth_testEthSign cid addr res = Some (Inr (valid r))"
  using assms
  by (clarsimp simp: eth_testEthSign_def Let_def Inr_simps require_chain_data_Inr_iff)

lemma verdict_eth_typed:
  assumes "client c = Some cl" and "session c = Some se"
    and "rpc_routine c L Eth_testSignTypedData cid addr tr = (Inr r, tr')"
  shows "\<exists>q res. tr' = tr @ [Sent q] \<and> request cl q = Inr res
           \<and> verifier_verdict c L Eth_testSignTypedData cid addr res = Some (Inr (valid r))"
  using assms
  by (clarsimp simp: eth_testSignTypedData_def Let_def Inr_simps and_then_def)

lemma verdict_cosmos_direct:
  assumes "client c = Some cl" and "session c = Some se"
    and "rpc_routine c L Cosmos_testSignDirect cid addr tr = (Inr r, tr')"
  shows "\<exists>q res. tr' = tr @ [Sent q] \<and> request cl q = Inr res
           \<and> verifier_verdict c L Cosmos_testSignDirect cid addr res = Some (Inr (valid r))"
  using assms
  by (clarsimp simp: cosmos_testSignDirect_def Let_def Inr_simps and_then_def
      require_chain_data_Inr_iff)

lemma verdict_cosmos_amino:
  assumes "client c = Some cl" and "session c = Some se"
    and "rpc_routine c L Cosmos_testSignAmino cid addr tr = (Inr r, tr')"
  shows "\<exists>q res. tr' = tr @ [Sent q] \<and> request cl q = Inr res
           \<and> verifier_verdict c L Cosmos_testSignAmino cid addr res = Some (Inr (valid r))"
  using assms
  by (clarsimp simp: cosmos_testSignAmino_def Let_def Inr_simps and_then_def
      require_chain_data_Inr_iff)

lemma verdict_solana_transaction:
  assumes "client c = Some cl" and "session c = Some se"
    and "rpc_routine c L Solana_testSignTransaction cid addr tr = (Inr r, tr')"
  shows "\<exists>q res. tr' = tr @ [Sent q] \<and> request cl q = Inr res
           \<and> verifier_verdict c L Solana_testSignTransaction cid addr res = Some (Inr (valid r))"
proof (cases "solanaPublicKeys c")
  case None
  then show ?thesis using assms(3) by (simp add: solana_testSignTransaction_def throw_Inr)
next
  case (Some keys)
  then show ?thesis using assms
    by (clarsimp simp: solana_testSignTransaction_def Let_def Inr_simps and_then_def
        split del: if_split)
qed

lemma verdict_solana_message:
  assumes "client c = Some cl" and "session c = Some se"
    and "rpc_routine c L Solana_testSignMessage cid addr tr = (Inr r, tr')"
  shows "\<exists>q res. tr' = tr @ [Sent q] \<and> request cl q = Inr res
           \<and> verifier_verdict c L Solana_testSignMessage cid addr res = Some (Inr (valid r))"
proof (cases "solanaPublicKeys c")
  case None
  then show ?thesis using assms(3) by (simp add: solana_testSignMessage_def throw_Inr)
next
  case (Some keys)
  then show ?thesis using assms
    by (clarsimp simp: solana_testSignMessage_def Let_def Inr_simps and_then_def
        split del: if_split)
qed

lemma verdict_polkadot_transaction:
  assumes "client c = Some cl" and "session c = Some se"
    and "rpc_routine c L Polkadot_testSignTransaction cid addr tr = (Inr r, tr')"
  shows "\<exists>q res. tr' = tr @ [Sent q] \<and> request cl q = Inr res
           \<and> verifier_verdict c L Polkadot_testSignTransaction cid addr res = Some (Inr (valid r))"
  using assms
  by (clarsimp simp: polkadot_testSignTransaction_def Let_def Inr_simps and_then_def)

lemma verdict_polkadot_message:
  assumes "client c = Some cl" and "session c = Some se"
    and "rpc_routine c L Polkadot_testSignMessage cid addr tr = (Inr r, tr')"
  shows "\<exists>q res. tr' = tr @ [Sent q] \<and> request cl q = Inr res
           \<and> verifier_verdict c L Polkadot_testSignMessage cid addr res = Some (Inr (valid r))"
  using assms
  by (clarsimp simp: polkadot_testSignMessage_def Let_def Inr_simps and_then_def)

lemma verdict_elrond_transaction:
  assumes "client c = Some cl" and "session c = Some se"
    and "rpc_routine c L Elrond_testSignTransaction cid addr tr = (Inr r, tr')"
  shows "\<exists>q res. tr' = tr @ [Sent q] \<and> request cl q = Inr res
           \<and> verifier_verdict c L Elrond_testSignTransaction cid addr res = Some (Inr (valid r))"
  using assms
  by (clarsimp simp: elrond_testSignTransaction_def Let_def Inr_simps and_then_def)

lemma verdict_elrond_transactions:
  assumes "client c = Some cl" and "session c = Some se"
    and "rpc_routine c L Elrond_testSignTransactions cid addr tr = (Inr r, tr')"
  shows "\<exists>q res. tr' = tr @ [Sent q] \<and> request cl q = Inr res
           \<and> verifier_verdict c L Elrond_testSignTransactions cid addr res = Some (Inr (valid r))"
  using assms
  by (clarsimp simp: elrond_testSignTransactions_def Let_def Inr_simps and_then_def
      simp del: verify_each.simps)

lemma verdict_elrond_message:
  assumes "client c = Some cl" and "session c = Some se"
    and "rpc_routine c L Elrond_testSignMessage cid addr tr = (Inr r, tr')"
  shows "\<exists>q res. tr' = tr @ [Sent q] \<and> request cl q = Inr res
           \<and> verifier_verdict c L Elrond_testSignMessage cid addr res = Some (Inr (valid r))"
  using assms
  by (clarsimp simp: elrond_testSignMessage_def Let_def Inr_simps and_then_def)

lemma granted_chia_request:
  assumes "client c = Some cl" and "session c = Some se"
    and "chia_request c P cid addr m ps tr = (Inr r, tr')"
  shows "\<exists>q res. tr' = tr @ [Sent q] \<and> request cl q = Inr res \<and> valid r"
  using assms by (clarsimp simp: chia_request_def Inr_simps)

lemma granted_near:
  assumes "client c = Some cl" and "session c = Some se"
  shows "near_testSignAndSendTransaction c P cid addr tr = (Inr r, tr') \<Longrightarrow>
           \<exists>q res. tr' = tr @ [Sent q] \<and> request cl q = Inr res \<and> valid r"
    and "near_testSignAndSendTransactions c P cid addr tr = (Inr r, tr') \<Longrightarrow>
           \<exists>q res. tr' = tr @ [Sent q] \<and> request cl q = Inr res \<and> valid r"
  using assms
  by (clarsimp simp: near_testSignAndSendTransaction_def near_testSignAndSendTransactions_def
      Let_def Inr_simps)+

lemma granted_eth_send:
  assumes "client c = Some cl" and "session c = Some se"
    and "eth_testSendTransaction c E cid addr tr = (Inr r, tr')"
  shows "(\<exists>q res. tr' = tr @ [Sent q] \<and> request cl q = Inr res \<and> valid r)
         \<or> (tr' = tr \<and> \<not> valid r)"
  using assms
  by (clarsimp simp: eth_testSendTransaction_def Inr_simps split: if_splits) fastforce

text \<open>
  Claim C7, as amended. For the operations that verify against the payload they built
  (Ethereum \<^verbatim>\<open>testSignPersonalMessage\<close>, \<^verbatim>\<open>testEthSign\<close>, \<^verbatim>\<open>testSignTypedData\<close>, and every
  Cosmos, Solana, Polkadot and Elrond operation), the \<open>valid\<close> field of a returned record
  is the verdict the family's verifier computes from that payload and the wallet's
  answer. For the Ethereum \<^verbatim>\<open>testSignTransaction\<close> it is the verdict of the signature
  check on the signed transaction the wallet returned, a function of that answer alone.
  For the Ethereum \<^verbatim>\<open>testSendTransaction\<close> and every NEAR and Chia operation no verifier is
  consulted: every record returned after the request was answered has \<open>valid\<close> true, and
  \<^verbatim>\<open>testSendTransaction\<close> returns \<open>valid\<close> false only on the insufficient-funds path, which
  sends nothing.
\<close>

theorem valid_is_verdict_where_verified:
  assumes "client c = Some cl" and "session c = Some se"
    and "rpc_routine c L op cid addr tr = (Inr r, tr')"
  shows "(verifies_payload op \<longrightarrow>
            (\<exists>q res. tr' = tr @ [Sent q] \<and> request cl q = Inr res
               \<and> verifier_verdict c L op cid addr res = Some (Inr (valid r))))
         \<and> (op = Eth_testSignTransaction \<longrightarrow>
              (\<exists>q res. tr' = tr @ [Sent q] \<and> request cl q = Inr res \<and> result r = res
                 \<and> fromSerializedTx_verifySignature (evm L) res = Inr (valid r)))
         \<and> (\<not> verifies_payload op \<and> op \<noteq> Eth_testSignTransaction \<longrightarrow>
              (\<exists>q res. tr' = tr @ [Sent q] \<and> request cl q = Inr res \<and> valid r)
              \<or> (op = Eth_testSendTransaction \<and> tr' = tr \<and> \<not> valid r))"
proof (cases op)
  case Eth_testSendTransaction
  then show ?thesis
    using assms granted_eth_send [OF assms(1,2), of "evm L" cid addr tr r tr']
    by (simp add: verifies_payload_def)
next
  case Eth_testSignTransaction
  then show ?thesis
    using assms verdict_eth_sign_transaction [OF assms(1,2), of L cid addr tr r tr']
    by (simp add: verifies_payload_def)
next
  case Eth_testEthSign
  then show ?thesis
    using assms verdict_eth_sign [OF assms(1,2), of L cid addr tr r tr']
    by (simp add: verifies_payload_def)
next
  case Eth_testSignPersonalMessage
  then show ?thesis
    using assms verdict_eth_personal [OF assms(1,2), of L cid addr tr r tr']
    by (simp add: verifies_payload_def)
next
  case Eth_testSignTypedData
  then show ?thesis
    using assms verdict_eth_typed [OF assms(1,2), of L cid addr tr r tr']
    by (simp add: verifies_payload_def)
next
  case Cosmos_testSignDirect
  then show ?thesis
    using assms verdict_cosmos_direct [OF assms(1,2), of L cid addr tr r tr']
    by (simp add: verifies_payload_def)
next
  case Cosmos_testSignAmino
  then show ?thesis
    using assms verdict_cosmos_amino [OF assms(1,2), of L cid addr tr r tr']
    by (simp add: verifies_payload_def)
next
  case Solana_testSignMessage
  then show ?thesis
    using assms verdict_solana_message [OF assms(1,2), of L cid addr tr r tr']
    by (simp add: verifies_payload_def)
next
  case Solana_testSignTransaction
  then show ?thesis
    using assms verdict_solana_transaction [OF assms(1,2), of L cid addr tr r tr']
    by (simp add: verifies_payload_def)
next
  case Polkadot_testSignMessage
  then show ?thesis
    using assms verdict_polkadot_message [OF assms(1,2), of L cid addr tr r tr']
    by (simp add: verifies_payload_def)
next
  case Polkadot_testSignTransaction
  then show ?thesis
    using assms verdict_polkadot_transaction [OF assms(1,2), of L cid addr tr r tr']
    by (simp add: verifies_payload_def)
next
  case Elrond_testSignMessage
  then show ?thesis
    using assms verdict_elrond_message [OF assms(1,2), of L cid addr tr r tr']
    by (simp add: verifies_payload_def)
next
  case Elrond_testSignTransaction
  then show ?thesis
    using assms verdict_elrond_transaction [OF assms(1,2), of L cid addr tr r tr']
    by (simp add: verifies_payload_def)
next
  case Elrond_testSignTransactions
  then show ?thesis
    using assms verdict_elrond_transactions [OF assms(1,2), of L cid addr tr r tr']
    by (simp add: verifies_payload_def)
next
  case Near_testSignAndSendTransaction
  then show ?thesis
    using assms granted_near(1) [OF assms(1,2), of "platform L" cid addr tr r tr']
    by (simp add: verifies_payload_def)
next
  case Near_testSignAndSendTransactions
  then show ?thesis
    using assms granted_near(2) [OF assms(1,2), of "platform L" cid addr tr r tr']
    by (simp add: verifies_payload_def)
next
  case Chia_testGetWallets
  then show ?thesis
    using assms(3) granted_chia_request [OF assms(1,2), of "platform L" cid addr _ _ tr r tr']
    by (simp add: verifies_payload_def chia_testGetWallets_def)
next
  case Chia_testGetCATWalletInfo
  then show ?thesis
    using assms(3) granted_chia_request [OF assms(1,2), of "platform L" cid addr _ _ tr r tr']
    by (simp add: verifies_payload_def chia_testGetCATWalletInfo_def)
next
  case Chia_testSendTransaction
  then show ?thesis
    using assms(3) granted_chia_request [OF assms(1,2), of "platform L" cid addr _ _ tr r tr']
    by (simp add: verifies_payload_def chia_testSendTransaction_def)
next
  case Chia_testSpendCAT
  then show ?thesis
    using assms(3) granted_chia_request [OF assms(1,2), of "platform L" cid addr _ _ tr r tr']
    by (simp add: verifies_payload_def chia_testSpendCAT_def)
next
  case Chia_testNewAddress
  then show ?thesis
    using assms(3) granted_chia_request [OF assms(1,2), of "platform L" cid addr _ _ tr r tr']
    by (simp add: verifies_payload_def chia_testNewAddress_def)
next
  case Chia_testLogIn
  then show ?thesis
    using assms(3) granted_chia_request [OF assms(1,2), of "platform L" cid addr _ _ tr r tr']
    by (simp add: verifies_payload_def chia_testLogIn_def)
next
  case Chia_testSignMessageByAddress
  then show ?thesis
    using assms(3) granted_chia_request [OF assms(1,2), of "platform L" cid addr _ _ tr r tr']
    by (simp add: verifies_payload_def chia_testSignMessageByAddress_def)
next
  case Chia_testSignMessageById
  then show ?thesis
    using assms(3) granted_chia_request [OF assms(1,2), of "platform L" cid addr _ _ tr r tr']
    by (simp add: verifies_payload_def chia_testSignMessageById_def)
next
  case Chia_testGetWalletSyncStatus
  then show ?thesis
    using assms(3) granted_chia_request [OF assms(1,2), of "platform L" cid addr _ _ tr r tr']
    by (simp add: verifies_payload_def chia_testGetWalletSyncStatus_def)
next
  case Chia_testGetNFTInfo
  then show ?thesis
    using assms(3) granted_chia_request [OF assms(1,2), of "platform L" cid addr _ _ tr r tr']
    by (simp add: verifies_payload_def chia_testGetNFTInfo_def)
next
  case Chia_testGetNFTs
  then show ?thesis
    using assms(3) granted_chia_request [OF assms(1,2), of "platform L" cid addr _ _ tr r tr']
    by (simp add: verifies_payload_def chia_testGetNFTs_def)
next
  case Chia_testTakeOffer
  then show ?thesis
    using assms(3) granted_chia_request [OF assms(1,2), of "platform L" cid addr _ _ tr r tr']
    by (simp add: verifies_payload_def chia_testTakeOffer_def)
next
  case Chia_testCreateOfferForIds
  then show ?thesis
    using assms(3) granted_chia_request [OF assms(1,2), of "platform L" cid addr _ _ tr r tr']
    by (simp add: verifies_payload_def chia_testCreateOfferForIds_def)
next
  case Chia_testUnknownTestCommand
  then show ?thesis
    using assms(3) granted_chia_request [OF assms(1,2), of "platform L" cid addr _ _ tr r tr']
    by (simp add: verifies_payload_def chia_testUnknownTestCommand_def)
next
  case Chia_testShowOfferDataNotification
  then show ?thesis
    using assms(3) granted_chia_request [OF assms(1,2), of "platform L" cid addr _ _ tr r tr']
    by (simp add: verifies_payload_def chia_testShowOfferDataNotification_def)
next
  case Chia_testShowAnnouncementNotification
  then show ?thesis
    using assms(3) granted_chia_request [OF assms(1,2), of "platform L" cid addr _ _ tr r tr']
    by (simp add: verifies_payload_def chia_testShowAnnouncementNotification_def)
qed

theorem valid_is_verdict_where_verified_witness:
  "client sample_context = Some sample_client
   \<and> verifies_payload Polkadot_testSignMessage
   \<and> (\<exists>q res. request sample_client q = Inr res
          \<and> verifier_verdict sample_context sample_libraries Polkadot_testSignMessage
               ''polkadot:x'' ''1'' res = Some (Inr True))
   \<and> (\<exists>q res. request sample_client q = Inr res
          \<and> fst (rpc_routine sample_context sample_libraries Eth_testSignTransaction
                    ''eip155:1'' ''0xabc'' []) =
              Inr \<lparr>method_name = Some ''eth_signTransaction'', address = Some ''0xabc'',
                    valid = True, result = res\<rparr>
          \<and> fromSerializedTx_verifySignature sample_evm res = Inr True)
   \<and> \<not> verifies_payload Near_testSignAndSendTransaction
   \<and> (\<exists>q res. fst (near_testSignAndSendTransaction sample_context sample_platform
                       ''near:testnet'' ''a.testnet'' []) =
                   Inr \<lparr>method_name = Some ''near_signAndSendTransaction'',
                         address = Some ''a.testnet'', valid = True, result = JStr ''{}''\<rparr>
          \<and> request sample_client q = Inr res)"
proof -
  have c: "client sample_context = Some sample_client"
    "session sample_context = Some \<lparr>session_topic = ''topic''\<rparr>"
    by (simp_all add: sample_context_def)
  have h: "verifies_payload Polkadot_testSignMessage"
    "\<not> verifies_payload Near_testSignAndSendTransaction"
    by (simp_all add: verifies_payload_def)
  have r1: "rpc_routine sample_context sample_libraries Polkadot_testSignMessage ''polkadot:x'' ''1'' [] =
      (Inr \<lparr>method_name = Some ''polkadot_signMessage'', address = Some ''1'', valid = True,
             result = JStr ''sig''\<rparr>,
       snd (rpc_routine sample_context sample_libraries Polkadot_testSignMessage
              ''polkadot:x'' ''1'' []))"
    by (simp add: polkadot_testSignMessage_def client_request_def io_defs sample_defs
        enum_simps get_prop_def Let_def)
  have r2: "rpc_routine sample_context sample_libraries Near_testSignAndSendTransaction
              ''near:testnet'' ''a.testnet'' [] =
      (Inr \<lparr>method_name = Some ''near_signAndSendTransaction'', address = Some ''a.testnet'',
             valid = True, result = JStr ''{}''\<rparr>,
       snd (rpc_routine sample_context sample_libraries Near_testSignAndSendTransaction
              ''near:testnet'' ''a.testnet'' []))"
    by (simp add: near_testSignAndSendTransaction_def client_request_def io_defs sample_defs
        enum_simps get_prop_def Let_def)
  have r3: "rpc_routine sample_context sample_libraries Eth_testSignTransaction
              ''eip155:1'' ''0xabc'' [] =
      (Inr \<lparr>method_name = Some ''eth_signTransaction'', address = Some ''0xabc'', valid = True,
             result = sample_answer\<rparr>,
       snd (rpc_routine sample_context sample_libraries Eth_testSignTransaction
              ''eip155:1'' ''0xabc'' []))"
    by (simp add: eth_testSignTransaction_def find_account_def client_request_def io_defs
        sample_context_def sample_client_def sample_libraries_def sample_evm_def enum_simps
        Let_def)
  have p: "platform sample_libraries = sample_platform" "evm sample_libraries = sample_evm"
    by (simp_all add: sample_libraries_def)
  have f: "fst (near_testSignAndSendTransaction sample_context sample_platform
                  ''near:testnet'' ''a.testnet'' []) =
           Inr \<lparr>method_name = Some ''near_signAndSendTransaction'',
                 address = Some ''a.testnet'', valid = True, result = JStr ''{}''\<rparr>"
    using r2 p by (simp add: prod_eq_iff)
  have f3: "fst (rpc_routine sample_context sample_libraries Eth_testSignTransaction
                   ''eip155:1'' ''0xabc'' []) =
            Inr \<lparr>method_name = Some ''eth_signTransaction'', address = Some ''0xabc'',
                  valid = True, result = sample_answer\<rparr>"
    using r3 by (simp add: prod_eq_iff)
  have v1: "\<exists>q res. request sample_client q = Inr res
          \<and> verifier_verdict sample_context sample_libraries Polkadot_testSignMessage
               ''polkadot:x'' ''1'' res = Some (Inr True)"
    using h(1) valid_is_verdict_where_verified [OF c r1] by auto
  have v3: "\<exists>q res. request sample_client q = Inr res
          \<and> fst (rpc_routine sample_context sample_libraries Eth_testSignTransaction
                    ''eip155:1'' ''0xabc'' []) =
              Inr \<lparr>method_name = Some ''eth_signTransaction'', address = Some ''0xabc'',
                    valid = True, result = res\<rparr>
          \<and> fromSerializedTx_verifySignature sample_evm res = Inr True"
    using f3 p(2) valid_is_verdict_where_verified [OF c r3] by auto
  have v2: "\<exists>q res. fst (near_testSignAndSendTransaction sample_context sample_platform
                       ''near:testnet'' ''a.testnet'' []) =
                   Inr \<lparr>method_name = Some ''near_signAndSendTransaction'',
                         address = Some ''a.testnet'', valid = True, result = JStr ''{}''\<rparr>
          \<and> request sample_client q = Inr res"
    using h(2) f valid_is_verdict_where_verified [OF c r2] by auto
  show ?thesis
    using c(1) h v1 v2 v3 by blast
qed

end
